theory Spec2Isabelle
  imports Complex_Main
begin

section \<open>Python floats\<close>

text \<open>
  A Python float is an IEEE 754 binary64 number. \<open>Fin r\<close> is the finite float of value \<open>r\<close>
  (\<open>Fin 0\<close> is \<open>0.0\<close>), \<open>NegZero\<close> is \<open>-0.0\<close>, and there are the two infinities and the
  not-a-number. The finite floats are the multiples \<open>k * 2^e\<close> with \<open>k < 2^53\<close> and
  \<open>-1074 \<le> e \<le> 971\<close> in absolute value; every operation below returns one of them, or
  a zero, an infinity or the not-a-number.
\<close>

datatype double = Fin real | NegZero | PosInf | NegInf | NaN

datatype py_error =
    ValueError string
  | KeyError string
  | ZeroDivisionError
  | IOError string
  | AttributeError string
  | TypeError string
  | IndexError

text \<open>
  Rounding to nearest, ties to even, of a magnitude: in the binade of \<open>m\<close> the floats
  are the multiples of \<open>2^(e - 52)\<close>, where \<open>e\<close> is the exponent of \<open>m\<close> and at least
  \<open>-1022\<close> (below \<open>2^-1022\<close> the floats are the multiples of \<open>2^-1074\<close>).
\<close>

definition round_half_even :: "real \<Rightarrow> int" where
  "round_half_even r =
     (let f = \<lfloor>r\<rfloor>; d = r - real_of_int f
      in if d < 1 / 2 then f else if 1 / 2 < d then f + 1 else if even f then f else f + 1)"

definition expo :: "real \<Rightarrow> int" where
  "expo m = \<lfloor>log 2 m\<rfloor>"

definition quantum :: "real \<Rightarrow> real" where
  "quantum m = 2 powr real_of_int (max (expo m) (- 1022) - 52)"

definition rnd_mag :: "real \<Rightarrow> real" where
  "rnd_mag m = (if m = 0 then 0 else real_of_int (round_half_even (m / quantum m)) * quantum m)"

definition is_neg :: "double \<Rightarrow> bool" where
  "is_neg a = (case a of Fin r \<Rightarrow> r < 0 | NegZero \<Rightarrow> True | PosInf \<Rightarrow> False
               | NegInf \<Rightarrow> True | NaN \<Rightarrow> False)"

definition is_inf :: "double \<Rightarrow> bool" where
  "is_inf a = (a = PosInf \<or> a = NegInf)"

text \<open>The value of a finite float.\<close>

definition fval :: "double \<Rightarrow> real" where
  "fval a = (case a of Fin r \<Rightarrow> r | _ \<Rightarrow> 0)"

text \<open>\<open>a == 0\<close>: both zeros are equal to the integer zero.\<close>

definition eq0 :: "double \<Rightarrow> bool" where
  "eq0 a = (a = Fin 0 \<or> a = NegZero)"

definition signed_zero :: "bool \<Rightarrow> double" where
  "signed_zero neg = (if neg then NegZero else Fin 0)"

definition infinity :: "bool \<Rightarrow> double" where
  "infinity neg = (if neg then NegInf else PosInf)"

text \<open>
  The float for an exact result \<open>r\<close> of sign \<open>neg\<close>: the rounded magnitude, an infinity
  when it reaches \<open>2^1024\<close>, a zero of the sign of the result when it is zero.
\<close>

definition round_to :: "bool \<Rightarrow> real \<Rightarrow> double" where
  "round_to neg r =
     (let m = rnd_mag \<bar>r\<bar>
      in if 2 powr 1024 \<le> m then infinity neg
         else if m = 0 then signed_zero neg
         else Fin (if neg then - m else m))"

definition fneg :: "double \<Rightarrow> double" where
  "fneg a = (case a of Fin r \<Rightarrow> if r = 0 then NegZero else Fin (- r) | NegZero \<Rightarrow> Fin 0
             | PosInf \<Rightarrow> NegInf | NegInf \<Rightarrow> PosInf | NaN \<Rightarrow> NaN)"

text \<open>\<open>a + b\<close>: an exact sum of zero is \<open>-0.0\<close> only when both operands are negative.\<close>

definition fadd :: "double \<Rightarrow> double \<Rightarrow> double" where
  "fadd a b =
     (if a = NaN \<or> b = NaN then NaN
      else if is_inf a then (if is_inf b \<and> a \<noteq> b then NaN else a)
      else if is_inf b then b
      else (let r = fval a + fval b
            in if r = 0 then signed_zero (is_neg a \<and> is_neg b) else round_to (r < 0) r))"

definition fsub :: "double \<Rightarrow> double \<Rightarrow> double" where
  "fsub a b = fadd a (fneg b)"

definition fmul :: "double \<Rightarrow> double \<Rightarrow> double" where
  "fmul a b =
     (if a = NaN \<or> b = NaN then NaN
      else if is_inf a \<or> is_inf b
      then (if eq0 a \<or> eq0 b then NaN else infinity (is_neg a \<noteq> is_neg b))
      else round_to (is_neg a \<noteq> is_neg b) (fval a * fval b))"

text \<open>
  \<open>a / b\<close>: Python raises ZeroDivisionError for a divisor that is zero, whatever the
  dividend; \<open>quot\<close> is the quotient for the other divisors.
\<close>

definition quot :: "double \<Rightarrow> double \<Rightarrow> double" where
  "quot a b =
     (if a = NaN \<or> b = NaN then NaN
      else if is_inf a then (if is_inf b then NaN else infinity (is_neg a \<noteq> is_neg b))
      else if is_inf b then signed_zero (is_neg a \<noteq> is_neg b)
      else round_to (is_neg a \<noteq> is_neg b) (fval a / fval b))"

definition fdiv :: "double \<Rightarrow> double \<Rightarrow> py_error + double" where
  "fdiv a b = (if eq0 b then Inl ZeroDivisionError else Inr (quot a b))"

text \<open>\<open>math.sqrt\<close>: a negative argument is a ValueError, \<open>sqrt(-0.0)\<close> is \<open>-0.0\<close>.\<close>

definition fsqrt :: "double \<Rightarrow> py_error + double" where
  "fsqrt a =
     (case a of
        NaN \<Rightarrow> Inr NaN
      | PosInf \<Rightarrow> Inr PosInf
      | NegInf \<Rightarrow> Inl (ValueError ''math domain error'')
      | NegZero \<Rightarrow> Inr NegZero
      | Fin r \<Rightarrow> if r < 0 then Inl (ValueError ''math domain error'')
                 else Inr (round_to False (sqrt r)))"

section \<open>Vector helpers of acrilib/threed/coords.py\<close>

text \<open>
  The helpers take the vectors that the dialogs of the coordinate systems send, which are
  lists of three floats (\<open>float(text)\<close> of each field). A vector is a triple of floats.
\<close>

type_synonym dvec3 = "double \<times> double \<times> double"

definition subtract_vectors :: "dvec3 \<Rightarrow> dvec3 \<Rightarrow> dvec3" where
  "subtract_vectors v1 v2 =
     (case (v1, v2) of ((a0, a1, a2), (b0, b1, b2)) \<Rightarrow> (fsub a0 b0, fsub a1 b1, fsub a2 b2))"

definition cross_product :: "dvec3 \<Rightarrow> dvec3 \<Rightarrow> dvec3" where
  "cross_product v1 v2 =
     (case (v1, v2) of ((a0, a1, a2), (b0, b1, b2)) \<Rightarrow>
        (fsub (fmul a1 b2) (fmul a2 b1), fsub (fmul a2 b0) (fmul a0 b2),
         fsub (fmul a0 b1) (fmul a1 b0)))"

definition dot_product :: "dvec3 \<Rightarrow> dvec3 \<Rightarrow> double" where
  "dot_product v1 v2 =
     (case (v1, v2) of ((a0, a1, a2), (b0, b1, b2)) \<Rightarrow>
        fadd (fadd (fmul a0 b0) (fmul a1 b1)) (fmul a2 b2))"

definition magnitude :: "dvec3 \<Rightarrow> py_error + double" where
  "magnitude v = fsqrt (dot_product v v)"

text \<open>\<open>normalize\<close> of coords.py; the name is taken in HOL, hence the suffix.\<close>

definition normalize_vec :: "dvec3 \<Rightarrow> py_error + dvec3" where
  "normalize_vec v =
     (case magnitude v of
        Inl e \<Rightarrow> Inl e
      | Inr mag \<Rightarrow>
          if eq0 mag then Inl (ValueError ''Cannot normalize a zero-magnitude vector.'')
          else (case v of (v0, v1, v2) \<Rightarrow>
                  (case fdiv v0 mag of
                     Inl e \<Rightarrow> Inl e
                   | Inr q0 \<Rightarrow>
                       (case fdiv v1 mag of
                          Inl e \<Rightarrow> Inl e
                        | Inr q1 \<Rightarrow>
                            (case fdiv v2 mag of
                               Inl e \<Rightarrow> Inl e
                             | Inr q2 \<Rightarrow> Inr (q0, q1, q2))))))"

section \<open>Vectors of the primitives\<close>

text \<open>
  The coordinates of the primitives, of the planes and of the actors are carried as real
  numbers: what is proved of them below concerns the indices of the cells and which
  fields of the document an operation writes, never the value of a coordinate.
\<close>

type_synonym vec3 = "real \<times> real \<times> real"

section \<open>Plane helper of acrilib/geometry/plane_helpers.py\<close>

text \<open>
  The numpy array operations used by the helper, on 3-vectors. The arrays of numpy hold
  64-bit floats, or 64-bit integers when every argument is an integer; here a coordinate
  is a real number, and nothing is stated below about the value that the helper
  computes.
\<close>

definition np_add :: "vec3 \<Rightarrow> vec3 \<Rightarrow> vec3" where
  "np_add a b = (case (a, b) of ((a0, a1, a2), (b0, b1, b2)) \<Rightarrow> (a0 + b0, a1 + b1, a2 + b2))"

definition np_scale :: "real \<Rightarrow> vec3 \<Rightarrow> vec3" where
  "np_scale k a = (case a of (a0, a1, a2) \<Rightarrow> (k * a0, k * a1, k * a2))"

definition np_cross :: "vec3 \<Rightarrow> vec3 \<Rightarrow> vec3" where
  "np_cross a b =
     (case (a, b) of ((a0, a1, a2), (b0, b1, b2)) \<Rightarrow>
        (a1 * b2 - a2 * b1, a2 * b0 - a0 * b2, a0 * b1 - a1 * b0))"

definition transform_to_plane :: "real \<Rightarrow> real \<Rightarrow> vec3 \<Rightarrow> vec3 \<Rightarrow> vec3 \<Rightarrow> vec3" where
  "transform_to_plane u v origin u_axis v_axis =
     np_add (np_add origin (np_scale u u_axis)) (np_scale v v_axis)"

text \<open>The plane context dictionary \<open>{'origin', 'u_axis', 'v_axis'}\<close>.\<close>

record plane_context =
  pc_origin :: vec3
  pc_u_axis :: vec3
  pc_v_axis :: vec3

text \<open>The call \<open>transform_to_plane(u, v, **plane_context)\<close>.\<close>

definition to_world :: "real \<Rightarrow> real \<Rightarrow> plane_context \<Rightarrow> vec3" where
  "to_world u v ctx = transform_to_plane u v (pc_origin ctx) (pc_u_axis ctx) (pc_v_axis ctx)"

section \<open>Primitive factory of acrilib/primitives/factory.py\<close>

text \<open>
  A plane definition \<open>{'origin', 'normal'}\<close>, and the geometry dictionary: the keys a
  producer may leave out are optional fields. An actor held under \<open>'actor'\<close> is a
  reference into the store of actors.
\<close>

record plane_def =
  pd_origin :: vec3
  pd_normal :: vec3

type_synonym actor_ref = nat

record geom_data =
  gd_points :: "vec3 list option"
  gd_cells :: "nat list list option"
  gd_type :: "string option"
  gd_actor :: "actor_ref option"
  gd_definition :: "plane_def option"
  gd_color :: "vec3 option"

definition mk_geom :: "vec3 list \<Rightarrow> nat list list \<Rightarrow> string \<Rightarrow> geom_data" where
  "mk_geom ps cs t =
     \<lparr>gd_points = Some ps, gd_cells = Some cs, gd_type = Some t,
      gd_actor = None, gd_definition = None, gd_color = None\<rparr>"

definition create_point :: "real \<Rightarrow> real \<Rightarrow> plane_context \<Rightarrow> geom_data" where
  "create_point u v ctx = mk_geom [to_world u v ctx] [[0]] ''verts''"

definition create_line :: "real \<Rightarrow> real \<Rightarrow> real \<Rightarrow> real \<Rightarrow> plane_context \<Rightarrow> geom_data" where
  "create_line u1 v1 u2 v2 ctx =
     (let p1 = to_world u1 v1 ctx; p2 = to_world u2 v2 ctx
      in mk_geom [p1, p2] [[0, 1]] ''lines'')"

definition create_triangle ::
  "real \<Rightarrow> real \<Rightarrow> real \<Rightarrow> real \<Rightarrow> real \<Rightarrow> real \<Rightarrow> plane_context \<Rightarrow> geom_data" where
  "create_triangle u1 v1 u2 v2 u3 v3 ctx =
     (let p1 = to_world u1 v1 ctx; p2 = to_world u2 v2 ctx; p3 = to_world u3 v3 ctx
      in mk_geom [p1, p2, p3] [[0, 1, 2]] ''polys'')"

text \<open>
  \<open>range(segments + 1)\<close> is empty for a negative bound; with \<open>segments = 0\<close> the first
  iteration divides by zero.
\<close>

definition py_range :: "int \<Rightarrow> nat list" where
  "py_range n = [0 ..< nat n]"

definition circle_point :: "real \<Rightarrow> real \<Rightarrow> real \<Rightarrow> plane_context \<Rightarrow> int \<Rightarrow> nat \<Rightarrow> vec3" where
  "circle_point cu cv r ctx segments i =
     (let angle = 2 * pi * real i / real_of_int segments;
          u = cu + r * cos angle;
          v = cv + r * sin angle
      in to_world u v ctx)"

definition create_circle ::
  "real \<Rightarrow> real \<Rightarrow> real \<Rightarrow> plane_context \<Rightarrow> int \<Rightarrow> py_error + geom_data" where
  "create_circle cu cv r ctx segments =
     (if segments = 0 then Inl ZeroDivisionError
      else Inr (mk_geom (map (circle_point cu cv r ctx segments) (py_range (segments + 1)))
                        [py_range (segments + 1)] ''lines''))"

definition create_cuboid :: "real \<Rightarrow> plane_context \<Rightarrow> geom_data" where
  "create_cuboid sz ctx =
     (let d = sz;
          local_points = [(- d, - d, 0), (d, - d, 0), (d, d, 0), (- d, d, 0)] :: vec3 list;
          points_3d = map (\<lambda>p. case p of (p0, p1, p2) \<Rightarrow> to_world p0 p1 ctx) local_points
      in mk_geom points_3d [[0, 1, 2, 3, 0]] ''lines'')"

definition create_origin_marker :: "real \<Rightarrow> geom_data list" where
  "create_origin_marker sz =
     (let origin = (0, 0, 0) :: vec3;
          x_axis = (mk_geom [origin, (sz, 0, 0)] [[0, 1]] ''lines'')\<lparr>gd_color := Some (1, 0, 0)\<rparr>;
          y_axis = (mk_geom [origin, (0, sz, 0)] [[0, 1]] ''lines'')\<lparr>gd_color := Some (0, 1, 0)\<rparr>;
          z_axis = (mk_geom [origin, (0, 0, sz)] [[0, 1]] ''lines'')\<lparr>gd_color := Some (0, 0, 1)\<rparr>
      in [x_axis, y_axis, z_axis])"

definition create_cube_data :: "real \<Rightarrow> plane_context \<Rightarrow> geom_data" where
  "create_cube_data side_length ctx =
     (let d = side_length;
          local_points = [(- d, - d, - d), (d, - d, - d), (d, d, - d), (- d, d, - d),
                          (- d, - d, d), (d, - d, d), (d, d, d), (- d, d, d)] :: vec3 list;
          origin = pc_origin ctx;
          u_axis = pc_u_axis ctx;
          v_axis = pc_v_axis ctx;
          w_axis = np_cross u_axis v_axis;
          world_points = map (\<lambda>p. case p of (p0, p1, p2) \<Rightarrow>
             np_add (np_add (np_add origin (np_scale p0 u_axis)) (np_scale p1 v_axis))
                    (np_scale p2 w_axis)) local_points;
          cells = [[0, 1, 2, 3], [4, 5, 6, 7], [0, 1, 5, 4], [2, 3, 7, 6], [0, 3, 7, 4], [1, 2, 6, 5]]
      in mk_geom world_points cells ''polys'')"

text \<open>The invariant of mesh data: every index of every cell addresses a point.\<close>

definition indices_in_range :: "geom_data \<Rightarrow> bool" where
  "indices_in_range g =
     (case (gd_points g, gd_cells g) of
        (Some ps, Some cs) \<Rightarrow> list_all (\<lambda>c. list_all (\<lambda>i. i < length ps) c) cs
      | _ \<Rightarrow> False)"

text \<open>The plane context used by tests/test_primitives.py (the world XY plane).\<close>

definition xy_plane_context :: plane_context where
  "xy_plane_context = \<lparr>pc_origin = (0, 0, 0), pc_u_axis = (1, 0, 0), pc_v_axis = (0, 1, 0)\<rparr>"

section \<open>Python string and number conversions\<close>

text \<open>
  Text is ASCII. \<open>str.strip()\<close> removes the ASCII white space of Python from both ends;
  \<open>str.upper()\<close>, \<open>str.lower()\<close> and \<open>str.capitalize()\<close> act on the ASCII letters.
\<close>

definition py_isspace :: "char \<Rightarrow> bool" where
  "py_isspace c = (of_char c \<in> {9, 10, 11, 12, 13, 28, 29, 30, 31, 32 :: nat})"

definition strip :: "string \<Rightarrow> string" where
  "strip s = rev (dropWhile py_isspace (rev (dropWhile py_isspace s)))"

definition upper_char :: "char \<Rightarrow> char" where
  "upper_char c =
     (case map_of (zip ''abcdefghijklmnopqrstuvwxyz'' ''ABCDEFGHIJKLMNOPQRSTUVWXYZ'') c of
        None \<Rightarrow> c | Some u \<Rightarrow> u)"

definition lower_char :: "char \<Rightarrow> char" where
  "lower_char c =
     (case map_of (zip ''ABCDEFGHIJKLMNOPQRSTUVWXYZ'' ''abcdefghijklmnopqrstuvwxyz'') c of
        None \<Rightarrow> c | Some l \<Rightarrow> l)"

definition upper :: "string \<Rightarrow> string" where
  "upper s = map upper_char s"

definition lower :: "string \<Rightarrow> string" where
  "lower s = map lower_char s"

definition capitalize :: "string \<Rightarrow> string" where
  "capitalize s = (case s of [] \<Rightarrow> [] | c # cs \<Rightarrow> upper_char c # map lower_char cs)"

definition is_digit :: "char \<Rightarrow> bool" where
  "is_digit c = (let n = of_char c :: nat in 48 \<le> n \<and> n \<le> 57)"

definition digit_val :: "char \<Rightarrow> nat" where
  "digit_val c = of_char c - 48"

text \<open>
  A digit part of a Python numeric literal in a string: digits, with single underscores
  allowed between two digits. \<open>digit_run\<close> reads as far as the digit part goes and
  returns the digit values and the rest of the text.
\<close>

fun digit_run :: "string \<Rightarrow> nat list \<times> string" where
  "digit_run [] = ([], [])"
| "digit_run [c] = (if is_digit c then ([digit_val c], []) else ([], [c]))"
| "digit_run (c # d # cs) =
     (if is_digit c then (case digit_run (d # cs) of (ds, r) \<Rightarrow> (digit_val c # ds, r))
      else if c = CHR ''_'' \<and> is_digit d then digit_run (d # cs)
      else ([], c # d # cs))"

definition digitpart :: "string \<Rightarrow> (nat list \<times> string) option" where
  "digitpart s =
     (case s of [] \<Rightarrow> None
      | c # cs \<Rightarrow> if is_digit c then Some (digit_run (c # cs)) else None)"

definition nat_of_digits :: "nat list \<Rightarrow> nat" where
  "nat_of_digits ds = foldl (\<lambda>a d. 10 * a + d) 0 ds"

definition read_sign :: "string \<Rightarrow> int \<times> string" where
  "read_sign s =
     (case s of [] \<Rightarrow> (1, [])
      | c # cs \<Rightarrow> if c = CHR ''+'' then (1, cs) else if c = CHR ''-'' then (- 1, cs) else (1, s))"

text \<open>\<open>int(s)\<close> of a stripped string, base 10; \<open>None\<close> is the ValueError.\<close>

definition py_int :: "string \<Rightarrow> int option" where
  "py_int s =
     (case read_sign s of (sg, r) \<Rightarrow>
        (case digitpart r of
           Some (ds, []) \<Rightarrow> Some (sg * int (nat_of_digits ds))
         | _ \<Rightarrow> None))"

text \<open>
  The reading of decimal text that the document model uses for \<open>float(s)\<close>: the
  spellings \<open>[sign] digits [. [digits]] [exponent]\<close> and \<open>[sign] . digits [exponent]\<close> of
  a stripped string, valued as the exact decimal, a real; \<open>None\<close> is the ValueError. It
  is \<open>float\<close> on the texts whose decimal value is a float (such as \<open>1.0\<close> or \<open>0\<close>); the
  rounding of other decimals and the spellings \<open>inf\<close>, \<open>infinity\<close> and \<open>nan\<close> are outside
  it. The reader below does not depend on this reading: it takes \<open>float\<close> as a parameter.
\<close>

definition read_mantissa :: "string \<Rightarrow> (nat list \<times> nat list \<times> string) option" where
  "read_mantissa r =
     (case r of
        [] \<Rightarrow> None
      | c # r' \<Rightarrow>
          if c = CHR ''.'' then
            (case digitpart r' of None \<Rightarrow> None | Some (fs, r'') \<Rightarrow> Some ([], fs, r''))
          else
            (case digitpart r of
               None \<Rightarrow> None
             | Some (is, r1) \<Rightarrow>
                 (case r1 of
                    [] \<Rightarrow> Some (is, [], [])
                  | c1 # r2 \<Rightarrow>
                      if c1 = CHR ''.'' then
                        (case digitpart r2 of
                           None \<Rightarrow> Some (is, [], r2)
                         | Some (fs, r3) \<Rightarrow> Some (is, fs, r3))
                      else Some (is, [], r1))))"

definition read_exponent :: "string \<Rightarrow> int option" where
  "read_exponent r =
     (case r of
        [] \<Rightarrow> Some 0
      | c # r' \<Rightarrow>
          if c = CHR ''e'' \<or> c = CHR ''E'' then
            (case read_sign r' of (sg, r'') \<Rightarrow>
               (case digitpart r'' of
                  Some (es, []) \<Rightarrow> Some (sg * int (nat_of_digits es))
                | _ \<Rightarrow> None))
          else None)"

definition pow10 :: "int \<Rightarrow> real" where
  "pow10 e = (if 0 \<le> e then 10 ^ nat e else 1 / 10 ^ nat (- e))"

definition py_float :: "string \<Rightarrow> real option" where
  "py_float s =
     (case read_sign s of (sg, r) \<Rightarrow>
        (case read_mantissa r of
           None \<Rightarrow> None
         | Some (is, fs, r') \<Rightarrow>
             (case read_exponent r' of
                None \<Rightarrow> None
              | Some e \<Rightarrow>
                  Some (real_of_int sg
                        * (real (nat_of_digits is) + real (nat_of_digits fs) / 10 ^ length fs)
                        * pow10 e))))"

section \<open>Shapes and the geometry container (acrilib/geometry)\<close>

text \<open>
  The reader and the shapes hold the numbers that the builtins \<open>int\<close> and \<open>float\<close> make of
  the text of a file. The two builtins are parameters of this part: \<open>int_of\<close> and
  \<open>float_of\<close> give the value of a stripped string, \<open>None\<close> where the builtin raises
  ValueError (on a string they raise nothing else), and the type \<open>'f\<close> is the type of the
  floats. The float literals of the source are parameters too: \<open>zero_f\<close> is \<open>0.0\<close>, which
  also stands for the integer \<open>0\<close> of a default (Python holds them equal), \<open>one_f\<close> is
  \<open>1.0\<close> and \<open>f_360\<close> is \<open>360.0\<close>. What is proved of the reader for every value of the
  parameters holds of it whatever \<open>float\<close> accepts and however it rounds.
\<close>

record 'f py_numbers =
  int_of :: "string \<Rightarrow> int option"
  float_of :: "string \<Rightarrow> 'f option"
  zero_f :: 'f
  one_f :: 'f
  f_360 :: 'f

text \<open>
  The numbers of the document model: floats are carried as reals, and \<open>float\<close> reads the
  decimal spellings as \<open>py_float\<close> does.
\<close>

definition py_numbers :: "real py_numbers" where
  "py_numbers = \<lparr>int_of = py_int, float_of = py_float, zero_f = 0, one_f = 1, f_360 = 360\<rparr>"

text \<open>
  The shape classes of shapes.py: every shape carries the layer and the colour of
  \<open>BasicShape\<close>, then its own fields (an \<open>Arc\<close> has the fields of a \<open>Circle\<close> and two
  angles). The container \<open>Geometry2D\<close> is the list of shapes in insertion order.
\<close>

datatype 'f shape =
    Line string int "'f \<times> 'f \<times> 'f" "'f \<times> 'f \<times> 'f"
  | Circle string int "'f \<times> 'f \<times> 'f" 'f
  | Arc string int "'f \<times> 'f \<times> 'f" 'f 'f 'f
  | LwPolyline string int "('f \<times> 'f \<times> 'f) list" bool
  | Text string int "'f \<times> 'f \<times> 'f" string 'f

fun get_type :: "'f shape \<Rightarrow> string" where
  "get_type (Line _ _ _ _) = ''LINE''"
| "get_type (Circle _ _ _ _) = ''CIRCLE''"
| "get_type (Arc _ _ _ _ _ _) = ''ARC''"
| "get_type (LwPolyline _ _ _ _) = ''LWPOLYLINE''"
| "get_type (Text _ _ _ _ _) = ''TEXT''"

type_synonym 'f geometry2d = "'f shape list"

text \<open>The entity dictionary built by the reader; a key that was never set is \<open>None\<close>.\<close>

record 'f entity_dict =
  ed_type :: string
  ed_layer :: "string option"
  ed_color :: "int option"
  ed_radius :: "'f option"
  ed_start_angle :: "'f option"
  ed_end_angle :: "'f option"
  ed_text_string :: "string option"
  ed_height :: "'f option"
  ed_closed :: "bool option"
  ed_start_point :: "('f \<times> 'f \<times> 'f) option"
  ed_end_point :: "('f \<times> 'f \<times> 'f) option"
  ed_center :: "('f \<times> 'f \<times> 'f) option"
  ed_insertion_point :: "('f \<times> 'f \<times> 'f) option"
  ed_vertices :: "('f \<times> 'f \<times> 'f) list option"

definition new_entity_dict :: "string \<Rightarrow> 'f entity_dict" where
  "new_entity_dict t =
     \<lparr>ed_type = t, ed_layer = None, ed_color = None, ed_radius = None,
      ed_start_angle = None, ed_end_angle = None, ed_text_string = None, ed_height = None,
      ed_closed = None, ed_start_point = None, ed_end_point = None, ed_center = None,
      ed_insertion_point = None, ed_vertices = None\<rparr>"

text \<open>\<open>d.get(key, default)\<close>.\<close>

definition get_or :: "'a option \<Rightarrow> 'a \<Rightarrow> 'a" where
  "get_or v dflt = (case v of None \<Rightarrow> dflt | Some x \<Rightarrow> x)"

definition shape_layer :: "'f entity_dict \<Rightarrow> string" where
  "shape_layer d = get_or (ed_layer d) ''0''"

definition shape_color :: "'f entity_dict \<Rightarrow> int" where
  "shape_color d = get_or (ed_color d) 256"

definition add_line :: "'f py_numbers \<Rightarrow> 'f entity_dict \<Rightarrow> 'f geometry2d \<Rightarrow> 'f geometry2d" where
  "add_line fl d geom =
     geom @ [Line (shape_layer d) (shape_color d)
                  (get_or (ed_start_point d) (zero_f fl, zero_f fl, zero_f fl))
                  (get_or (ed_end_point d) (zero_f fl, zero_f fl, zero_f fl))]"

definition add_circle :: "'f py_numbers \<Rightarrow> 'f entity_dict \<Rightarrow> 'f geometry2d \<Rightarrow> 'f geometry2d" where
  "add_circle fl d geom =
     geom @ [Circle (shape_layer d) (shape_color d)
                    (get_or (ed_center d) (zero_f fl, zero_f fl, zero_f fl))
                    (get_or (ed_radius d) (zero_f fl))]"

definition add_arc :: "'f py_numbers \<Rightarrow> 'f entity_dict \<Rightarrow> 'f geometry2d \<Rightarrow> 'f geometry2d" where
  "add_arc fl d geom =
     geom @ [Arc (shape_layer d) (shape_color d)
                 (get_or (ed_center d) (zero_f fl, zero_f fl, zero_f fl))
                 (get_or (ed_radius d) (zero_f fl))
                 (get_or (ed_start_angle d) (zero_f fl)) (get_or (ed_end_angle d) (f_360 fl))]"

definition add_lwpolyline :: "'f entity_dict \<Rightarrow> 'f geometry2d \<Rightarrow> 'f geometry2d" where
  "add_lwpolyline d geom =
     geom @ [LwPolyline (shape_layer d) (shape_color d)
                        (get_or (ed_vertices d) []) (get_or (ed_closed d) False)]"

definition add_text :: "'f py_numbers \<Rightarrow> 'f entity_dict \<Rightarrow> 'f geometry2d \<Rightarrow> 'f geometry2d" where
  "add_text fl d geom =
     geom @ [Text (shape_layer d) (shape_color d)
                  (get_or (ed_insertion_point d) (zero_f fl, zero_f fl, zero_f fl))
                  (get_or (ed_text_string d) [])
                  (get_or (ed_height d) (one_f fl))]"

definition get_number_of_shapes :: "'f geometry2d \<Rightarrow> nat" where
  "get_number_of_shapes geom = length geom"

section \<open>The DXF reader (acrilib/readers/dxf_reader.py)\<close>

unbundle bit_operations_syntax

type_synonym tag = "int \<times> string"

text \<open>
  \<open>_tag_generator\<close>: two lines are read per step; a pair whose code line is not an
  integer is skipped, and the stream ends when fewer than two lines are left.
\<close>

fun tag_generator :: "'f py_numbers \<Rightarrow> string list \<Rightarrow> tag list" where
  "tag_generator fl (code_line # value_line # rest) =
     (case int_of fl (strip code_line) of
        None \<Rightarrow> tag_generator fl rest
      | Some code \<Rightarrow> (code, strip value_line) # tag_generator fl rest)"
| "tag_generator fl _ = []"

text \<open>
  The working state of \<open>_process_entity_tags\<close>: the entity dictionary, the dictionary
  \<open>temp_coords\<close> and the list \<open>points\<close> of vertex dictionaries.
\<close>

type_synonym 'f entity_state =
  "'f entity_dict \<times> (string \<rightharpoonup> 'f) \<times> (string \<rightharpoonup> 'f) list"

text \<open>\<open>temp_coords[key] = float(value)\<close>; a ValueError leaves the state as it is.\<close>

definition set_coord ::
  "'f py_numbers \<Rightarrow> string \<Rightarrow> string \<Rightarrow> 'f entity_state \<Rightarrow> 'f entity_state" where
  "set_coord fl key val st =
     (case st of (d, tc, pts) \<Rightarrow>
        (case float_of fl val of None \<Rightarrow> st | Some x \<Rightarrow> (d, tc(key \<mapsto> x), pts)))"

definition set_float ::
  "'f py_numbers \<Rightarrow> ('f option \<Rightarrow> 'f entity_dict \<Rightarrow> 'f entity_dict) \<Rightarrow> string \<Rightarrow>
   'f entity_state \<Rightarrow> 'f entity_state" where
  "set_float fl upd val st =
     (case st of (d, tc, pts) \<Rightarrow>
        (case float_of fl val of None \<Rightarrow> st | Some x \<Rightarrow> (upd (Some x) d, tc, pts)))"

text \<open>
  The body of the loop over the tags of one entity, in the order of the source's
  \<open>if\<close>/\<open>elif\<close> chain. In the CIRCLE/ARC and TEXT branches the source runs two chains one
  after the other; their codes are disjoint, so an exception of the first never hides an
  effect of the second.
\<close>

definition process_tag ::
  "'f py_numbers \<Rightarrow> string \<Rightarrow> tag \<Rightarrow> 'f entity_state \<Rightarrow> 'f entity_state" where
  "process_tag fl entity_type_str t st =
     (case (t, st) of ((code, val), (d, tc, pts)) \<Rightarrow>
        if code = 8 then (d\<lparr>ed_layer := Some val\<rparr>, tc, pts)
        else if code = 62 then
          (case int_of fl val of None \<Rightarrow> st | Some n \<Rightarrow> (d\<lparr>ed_color := Some n\<rparr>, tc, pts))
        else if entity_type_str = ''LINE'' then
          (if code = 10 then set_coord fl ''x1'' val st
           else if code = 20 then set_coord fl ''y1'' val st
           else if code = 30 then set_coord fl ''z1'' val st
           else if code = 11 then set_coord fl ''x2'' val st
           else if code = 21 then set_coord fl ''y2'' val st
           else if code = 31 then set_coord fl ''z2'' val st
           else st)
        else if entity_type_str \<in> set [''CIRCLE'', ''ARC''] then
          (let st1 =
             (if code = 10 then set_coord fl ''cx'' val st
              else if code = 20 then set_coord fl ''cy'' val st
              else if code = 30 then set_coord fl ''cz'' val st
              else if code = 40 then set_float fl (\<lambda>x e. e\<lparr>ed_radius := x\<rparr>) val st
              else st)
           in if entity_type_str = ''ARC'' then
                (let st2 = (if code = 50 then set_float fl (\<lambda>x e. e\<lparr>ed_start_angle := x\<rparr>) val st1
                            else st1)
                 in if code = 51 then set_float fl (\<lambda>x e. e\<lparr>ed_end_angle := x\<rparr>) val st2
                    else st2)
              else st1)
        else if entity_type_str = ''TEXT'' then
          (let st1 = (if code = 1 then (d\<lparr>ed_text_string := Some val\<rparr>, tc, pts) else st)
           in if code = 10 then set_coord fl ''x'' val st1
              else if code = 20 then set_coord fl ''y'' val st1
              else if code = 40 then set_float fl (\<lambda>x e. e\<lparr>ed_height := x\<rparr>) val st1
              else st1)
        else if entity_type_str = ''LWPOLYLINE'' then
          (if code = 70 then
             (case int_of fl val of
                None \<Rightarrow> st
              | Some n \<Rightarrow> (d\<lparr>ed_closed := Some ((n AND 1) \<noteq> 0)\<rparr>, tc, pts))
           else if code = 10 then
             (case float_of fl val of
                None \<Rightarrow> st
              | Some x \<Rightarrow> (d, tc, pts @ [[''x'' \<mapsto> x]]))
           else if code = 20 then
             (if pts \<noteq> [] \<and> (last pts) ''y'' = None then
                (case float_of fl val of
                   None \<Rightarrow> st
                 | Some y \<Rightarrow> (d, tc, butlast pts @ [(last pts)(''y'' \<mapsto> y)]))
              else st)
           else st)
        else st)"

text \<open>\<open>_finalize_entity_geometry\<close>.\<close>

definition finalize_entity_geometry :: "'f py_numbers \<Rightarrow> 'f entity_state \<Rightarrow> 'f entity_dict" where
  "finalize_entity_geometry fl st =
     (case st of (d, tc, pts) \<Rightarrow>
        let entity_type = ed_type d in
        if entity_type = ''LINE'' then
          (let p1_z = get_or (tc ''z1'') (zero_f fl); p2_z = get_or (tc ''z2'') (zero_f fl)
           in d\<lparr>ed_start_point := Some (get_or (tc ''x1'') (zero_f fl), get_or (tc ''y1'') (zero_f fl), p1_z),
                ed_end_point := Some (get_or (tc ''x2'') (zero_f fl), get_or (tc ''y2'') (zero_f fl), p2_z)\<rparr>)
        else if entity_type \<in> set [''CIRCLE'', ''ARC''] then
          (let z = get_or (tc ''cz'') (zero_f fl)
           in d\<lparr>ed_center := Some (get_or (tc ''cx'') (zero_f fl), get_or (tc ''cy'') (zero_f fl), z)\<rparr>)
        else if entity_type = ''TEXT'' then
          (let z = get_or (tc ''z'') (zero_f fl)
           in d\<lparr>ed_insertion_point := Some (get_or (tc ''x'') (zero_f fl), get_or (tc ''y'') (zero_f fl), z)\<rparr>)
        else if entity_type = ''LWPOLYLINE'' then
          (let z = get_or (tc ''z'') (zero_f fl)
           in d\<lparr>ed_vertices :=
                  Some (map (\<lambda>p. (get_or (p ''x'') (zero_f fl), get_or (p ''y'') (zero_f fl), z))
                            (filter (\<lambda>p. p ''x'' \<noteq> None \<and> p ''y'' \<noteq> None) pts))\<rparr>)
        else d)"

text \<open>\<open>_process_entity_tags\<close>: the type is the value of the first tag, in upper case.\<close>

definition process_entity_tags ::
  "'f py_numbers \<Rightarrow> tag list \<Rightarrow> 'f geometry2d \<Rightarrow> 'f geometry2d" where
  "process_entity_tags fl tags geom =
     (case tags of
        [] \<Rightarrow> geom
      | first # _ \<Rightarrow>
          let entity_type_str = upper (snd first);
              st = foldl (\<lambda>s t. process_tag fl entity_type_str t s)
                         (new_entity_dict entity_type_str, Map.empty, []) tags;
              entity_dict = finalize_entity_geometry fl st
          in if entity_type_str = ''LINE'' then add_line fl entity_dict geom
             else if entity_type_str = ''CIRCLE'' then add_circle fl entity_dict geom
             else if entity_type_str = ''ARC'' then add_arc fl entity_dict geom
             else if entity_type_str = ''LWPOLYLINE'' then add_lwpolyline entity_dict geom
             else if entity_type_str = ''TEXT'' then add_text fl entity_dict geom
             else geom)"

text \<open>
  \<open>_parse\<close>, second loop: a tag of code 0 closes the entity collected so far and either
  ends the section (\<open>ENDSEC\<close>) or opens the next entity. When the stream ends without
  \<open>ENDSEC\<close>, the entity being collected is not processed.
\<close>

fun process_entities ::
  "'f py_numbers \<Rightarrow> tag list \<Rightarrow> tag list \<Rightarrow> 'f geometry2d \<Rightarrow> 'f geometry2d" where
  "process_entities fl [] current_entity_tags geom = geom"
| "process_entities fl ((code, val) # rest) current_entity_tags geom =
     (if code = 0 then
        (let geom' = (if current_entity_tags \<noteq> []
                      then process_entity_tags fl current_entity_tags geom
                      else geom)
         in if val = ''ENDSEC'' then geom'
            else process_entities fl rest [(code, val)] geom')
      else process_entities fl rest (current_entity_tags @ [(code, val)]) geom)"

text \<open>\<open>_parse\<close>, first loop: the tags up to and including \<open>(2, ENTITIES)\<close> are consumed.\<close>

definition parse_tags :: "'f py_numbers \<Rightarrow> tag list \<Rightarrow> 'f geometry2d" where
  "parse_tags fl tag_stream =
     (case dropWhile (\<lambda>t. \<not> (fst t = 2 \<and> snd t = ''ENTITIES'')) tag_stream of
        [] \<Rightarrow> []
      | _ # rest \<Rightarrow> process_entities fl rest [] [])"

definition parse :: "'f py_numbers \<Rightarrow> string list \<Rightarrow> 'f geometry2d" where
  "parse fl file_lines = parse_tags fl (tag_generator fl file_lines)"

text \<open>
  \<open>DxfReader(filepath).get_geometry()\<close>: the file system is a map from paths to the lines
  of each readable file; an unreadable file raises IOError.
\<close>

definition DxfReader ::
  "'f py_numbers \<Rightarrow> (string \<rightharpoonup> string list) \<Rightarrow> string \<Rightarrow> py_error + 'f geometry2d" where
  "DxfReader fl fs filepath =
     (case fs filepath of
        None \<Rightarrow> Inl (IOError (''Cannot open or read DXF file: '' @ filepath))
      | Some file_lines \<Rightarrow> Inr (parse fl file_lines))"

text \<open>
  The two parser scenarios of the specification, as tag lists, and the first of them as
  the lines of a file (each line ends with a line feed, as \<open>readlines\<close> returns it).
\<close>

definition line_entity_tags :: "tag list" where
  "line_entity_tags =
     [(0, ''LINE''), (8, ''0''), (10, ''1.0''), (20, ''2.0''), (30, ''0.0''),
      (11, ''3.0''), (21, ''4.0''), (31, ''0.0'')]"

definition lwpolyline_entity_tags :: "tag list" where
  "lwpolyline_entity_tags =
     [(0, ''LWPOLYLINE''), (70, ''1''), (10, ''0''), (20, ''0''), (10, ''1''), (20, ''0''),
      (10, ''1''), (20, ''1'')]"

definition line_entity_file :: "string list" where
  "line_entity_file =
     map (\<lambda>l. l @ [CHR 0x0A])
       [''  0'', ''SECTION'', ''  2'', ''ENTITIES'',
        ''  0'', ''LINE'', ''  8'', ''0'', '' 10'', ''1.0'', '' 20'', ''2.0'', '' 30'', ''0.0'',
        '' 11'', ''3.0'', '' 21'', ''4.0'', '' 31'', ''0.0'',
        ''  0'', ''ENDSEC'', ''  0'', ''EOF'']"

section \<open>The coordinate system manager (acrilib/threed/coords.py)\<close>

record local_coordinate_system =
  lcs_title :: string
  lcs_origin :: dvec3
  lcs_x_axis :: dvec3
  lcs_y_axis :: dvec3
  lcs_z_axis :: dvec3

record coordinate_system_manager =
  systems :: "string \<rightharpoonup> local_coordinate_system"
  active_cs_title :: string

text \<open>
  The Global system is written with the integers \<open>0\<close> and \<open>1\<close> in the source; they are held
  here as the floats of the same value, and no operation computes with them.
\<close>

definition new_manager :: coordinate_system_manager where
  "new_manager =
     \<lparr>systems = [''Global'' \<mapsto>
        \<lparr>lcs_title = ''Global'', lcs_origin = (Fin 0, Fin 0, Fin 0),
         lcs_x_axis = (Fin 1, Fin 0, Fin 0), lcs_y_axis = (Fin 0, Fin 1, Fin 0),
         lcs_z_axis = (Fin 0, Fin 0, Fin 1)\<rparr>],
      active_cs_title = ''Global''\<rparr>"

definition get_cs :: "coordinate_system_manager \<Rightarrow> string \<Rightarrow> local_coordinate_system option" where
  "get_cs m title = systems m title"

definition quoted :: "string \<Rightarrow> string" where
  "quoted s = [CHR 0x27] @ s @ [CHR 0x27]"

definition str_of_error :: "py_error \<Rightarrow> string" where
  "str_of_error e =
     (case e of ValueError msg \<Rightarrow> msg | KeyError k \<Rightarrow> quoted k
      | ZeroDivisionError \<Rightarrow> ''float division by zero'' | IOError msg \<Rightarrow> msg
      | AttributeError msg \<Rightarrow> msg | TypeError msg \<Rightarrow> msg
      | IndexError \<Rightarrow> ''list index out of range'')"

definition exists_error :: "string \<Rightarrow> py_error" where
  "exists_error title =
     ValueError (''A Coordinate System with the title '' @ quoted title @ '' already exists.'')"

text \<open>
  The three normalisations inside \<open>try\<close>: the first exception ends the block. The
  \<open>except\<close> clause rewords a ValueError and lets any other exception pass.
\<close>

definition reword :: "string \<Rightarrow> py_error \<Rightarrow> py_error" where
  "reword prefix e = (case e of ValueError msg \<Rightarrow> ValueError (prefix @ msg) | _ \<Rightarrow> e)"

definition axes_from :: "dvec3 \<Rightarrow> dvec3 \<Rightarrow> py_error + (dvec3 \<times> dvec3 \<times> dvec3)" where
  "axes_from x_raw in_plane =
     (case normalize_vec x_raw of
        Inl e \<Rightarrow> Inl e
      | Inr vec_x \<Rightarrow>
          (case normalize_vec (cross_product vec_x in_plane) of
             Inl e \<Rightarrow> Inl e
           | Inr vec_z \<Rightarrow>
               (case normalize_vec (cross_product vec_z vec_x) of
                  Inl e \<Rightarrow> Inl e
                | Inr vec_y \<Rightarrow> Inr (vec_x, vec_y, vec_z))))"

definition create_cs_from_3_points ::
  "coordinate_system_manager \<Rightarrow> string \<Rightarrow> dvec3 \<Rightarrow> dvec3 \<Rightarrow> dvec3 \<Rightarrow>
   py_error + (local_coordinate_system \<times> coordinate_system_manager)" where
  "create_cs_from_3_points m title origin point_on_x point_in_xy =
     (if title \<in> dom (systems m) then Inl (exists_error title)
      else
        (case axes_from (subtract_vectors point_on_x origin) (subtract_vectors point_in_xy origin) of
           Inl e \<Rightarrow>
             Inl (reword ''Invalid points provided (they may be collinear). Details: '' e)
         | Inr (vec_x, vec_y, vec_z) \<Rightarrow>
             (let cs = \<lparr>lcs_title = title, lcs_origin = origin, lcs_x_axis = vec_x,
                        lcs_y_axis = vec_y, lcs_z_axis = vec_z\<rparr>
              in Inr (cs, m\<lparr>systems := (systems m)(title \<mapsto> cs)\<rparr>))))"

definition create_cs_from_vectors ::
  "coordinate_system_manager \<Rightarrow> string \<Rightarrow> dvec3 \<Rightarrow> dvec3 \<Rightarrow> dvec3 \<Rightarrow>
   py_error + (local_coordinate_system \<times> coordinate_system_manager)" where
  "create_cs_from_vectors m title origin x_dir y_dir =
     (if title \<in> dom (systems m) then Inl (exists_error title)
      else
        (case axes_from x_dir y_dir of
           Inl e \<Rightarrow>
             Inl (reword ''Invalid vectors provided (they may be parallel or zero). Details: '' e)
         | Inr (vec_x, vec_y, vec_z) \<Rightarrow>
             (let cs = \<lparr>lcs_title = title, lcs_origin = origin, lcs_x_axis = vec_x,
                        lcs_y_axis = vec_y, lcs_z_axis = vec_z\<rparr>
              in Inr (cs, m\<lparr>systems := (systems m)(title \<mapsto> cs)\<rparr>))))"

definition set_active :: "coordinate_system_manager \<Rightarrow> string \<Rightarrow> py_error + coordinate_system_manager" where
  "set_active m title =
     (if title \<notin> dom (systems m)
      then Inl (ValueError (''CS with title '' @ quoted title @ '' not found.''))
      else Inr (m\<lparr>active_cs_title := title\<rparr>))"

text \<open>\<open>delete_cs\<close> returns whether the title was found, and the manager.\<close>

definition delete_cs :: "coordinate_system_manager \<Rightarrow> string \<Rightarrow> bool \<times> coordinate_system_manager" where
  "delete_cs m title =
     (if title \<in> dom (systems m) then (True, m\<lparr>systems := (systems m)(title := None)\<rparr>)
      else (False, m))"

definition rename_cs ::
  "coordinate_system_manager \<Rightarrow> string \<Rightarrow> string \<Rightarrow> py_error + coordinate_system_manager" where
  "rename_cs m old_title new_title =
     (if new_title \<in> dom (systems m) then Inl (exists_error new_title)
      else
        (case systems m old_title of
           None \<Rightarrow>
             Inl (ValueError (''The system to rename, '' @ quoted old_title @ '', was not found.''))
         | Some cs \<Rightarrow>
             (let m1 = m\<lparr>systems := ((systems m)(old_title := None))
                                        (new_title \<mapsto> cs\<lparr>lcs_title := new_title\<rparr>)\<rparr>
              in Inr (if active_cs_title m1 = old_title then m1\<lparr>active_cs_title := new_title\<rparr>
                      else m1))))"

definition reset :: "coordinate_system_manager \<Rightarrow> coordinate_system_manager" where
  "reset m = new_manager"

section \<open>The object browser (app/GUI/widgets.py)\<close>

text \<open>
  A tree item carries the texts of its two columns, the user data of its two columns and
  its children. The browser owns four top-level nodes and remembers the active plane and
  the active coordinate system.
\<close>

datatype item =
  Item (text0: string) (text1: string) (data0: "string option") (data1: "string option")
       (children: "item list")

record object_browser =
  primitives_node :: item
  imports_node :: item
  planes_node :: item
  coordinate_systems_node :: item
  ob_active_plane_id :: "string option"
  ob_active_cs_title :: string

definition top_level :: "object_browser \<Rightarrow> item list" where
  "top_level b = [primitives_node b, imports_node b, planes_node b, coordinate_systems_node b]"

definition set_top_level :: "object_browser \<Rightarrow> item list \<Rightarrow> object_browser" where
  "set_top_level b its =
     (case its of
        [p, i, pl, c] \<Rightarrow>
          b\<lparr>primitives_node := p, imports_node := i, planes_node := pl,
            coordinate_systems_node := c\<rparr>
      | _ \<Rightarrow> b)"

definition create_top_level_nodes :: "object_browser \<Rightarrow> object_browser" where
  "create_top_level_nodes b =
     b\<lparr>primitives_node := Item ''Primitives'' [] None None [],
       imports_node := Item ''Imports'' [] None None [],
       planes_node := Item ''Planes'' [] None None [],
       coordinate_systems_node := Item ''Coordinate Systems'' [] None None []\<rparr>"

definition new_object_browser :: object_browser where
  "new_object_browser =
     \<lparr>primitives_node = Item ''Primitives'' [] None None [],
      imports_node = Item ''Imports'' [] None None [],
      planes_node = Item ''Planes'' [] None None [],
      coordinate_systems_node = Item ''Coordinate Systems'' [] None None [],
      ob_active_plane_id = None, ob_active_cs_title = ''Global''\<rparr>"

text \<open>
  \<open>findItems(key, MatchExactly | MatchRecursive, 0)[0]\<close>: the first item in pre-order
  whose first column is the key, with its parent (\<open>None\<close> for a top-level node).
\<close>

fun find_first :: "string \<Rightarrow> item option \<Rightarrow> item list \<Rightarrow> (item option \<times> item) option" where
  "find_first key parent [] = None"
| "find_first key parent (Item t0 t1 d0 d1 ch # rest) =
     (if t0 = key then Some (parent, Item t0 t1 d0 d1 ch)
      else (case find_first key (Some (Item t0 t1 d0 d1 ch)) ch of
              Some r \<Rightarrow> Some r
            | None \<Rightarrow> find_first key parent rest))"

text \<open>The tree with the first match replaced (\<open>Some it\<close>) or taken out (\<open>None\<close>).\<close>

fun change_first :: "string \<Rightarrow> (item \<Rightarrow> item option) \<Rightarrow> item list \<Rightarrow> item list option" where
  "change_first key f [] = None"
| "change_first key f (Item t0 t1 d0 d1 ch # rest) =
     (if t0 = key then
        (case f (Item t0 t1 d0 d1 ch) of None \<Rightarrow> Some rest | Some it \<Rightarrow> Some (it # rest))
      else (case change_first key f ch of
              Some ch' \<Rightarrow> Some (Item t0 t1 d0 d1 ch' # rest)
            | None \<Rightarrow>
                (case change_first key f rest of
                   Some rest' \<Rightarrow> Some (Item t0 t1 d0 d1 ch # rest')
                 | None \<Rightarrow> None)))"

definition add_child :: "item \<Rightarrow> item \<Rightarrow> item" where
  "add_child child parent =
     Item (text0 parent) (text1 parent) (data0 parent) (data1 parent) (children parent @ [child])"

definition set_active_plane_id :: "object_browser \<Rightarrow> string option \<Rightarrow> object_browser" where
  "set_active_plane_id b obj_id = b\<lparr>ob_active_plane_id := obj_id\<rparr>"

definition set_active_cs_title :: "object_browser \<Rightarrow> string \<Rightarrow> object_browser" where
  "set_active_cs_title b title = b\<lparr>ob_active_cs_title := title\<rparr>"

definition clear :: "object_browser \<Rightarrow> object_browser" where
  "clear b = create_top_level_nodes b"

text \<open>
  \<open>add_object\<close>: the new item becomes the last child of the first item named \<open>parent_id\<close>
  when that is given and found, else of the node of its category.
\<close>

definition add_object ::
  "object_browser \<Rightarrow> string \<Rightarrow> string \<Rightarrow> string \<Rightarrow> string option \<Rightarrow> object_browser" where
  "add_object b obj_id obj_type category parent_id =
     (let new_item = Item obj_id (capitalize obj_type) (Some obj_id) (Some category) [];
          by_category =
            (if lower category = ''imports''
               then b\<lparr>imports_node := add_child new_item (imports_node b)\<rparr>
             else if lower category = ''planes''
               then b\<lparr>planes_node := add_child new_item (planes_node b)\<rparr>
             else if lower category = ''coordinate systems''
               then b\<lparr>coordinate_systems_node := add_child new_item (coordinate_systems_node b)\<rparr>
             else b\<lparr>primitives_node := add_child new_item (primitives_node b)\<rparr>);
          fallback =
            (if lower category = ''imports''
               then b\<lparr>imports_node := add_child new_item (imports_node b)\<rparr>
             else b\<lparr>primitives_node := add_child new_item (primitives_node b)\<rparr>)
      in case parent_id of
           None \<Rightarrow> by_category
         | Some pid \<Rightarrow>
             if pid = [] then by_category
             else (case change_first pid (\<lambda>it. Some (add_child new_item it)) (top_level b) of
                     None \<Rightarrow> fallback
                   | Some its \<Rightarrow> set_top_level b its))"

text \<open>
  \<open>remove_object\<close>: \<open>(items[0].parent() or self).removeChild(items[0])\<close>. For a top-level
  match the receiver is the tree widget, which has no \<open>removeChild\<close>: AttributeError.
\<close>

definition remove_object :: "object_browser \<Rightarrow> string \<Rightarrow> py_error + object_browser" where
  "remove_object b obj_id =
     (case find_first obj_id None (top_level b) of
        None \<Rightarrow> Inr b
      | Some (None, it) \<Rightarrow>
          Inl (AttributeError (quoted ''ObjectBrowser'' @ '' object has no attribute ''
                               @ quoted ''removeChild''))
      | Some (Some p, it) \<Rightarrow>
          (case change_first obj_id (\<lambda>it. None) (top_level b) of
             None \<Rightarrow> Inr b
           | Some its \<Rightarrow> Inr (set_top_level b its)))"

definition update_object_name :: "object_browser \<Rightarrow> string \<Rightarrow> string \<Rightarrow> object_browser" where
  "update_object_name b old_id new_id =
     (case change_first old_id
             (\<lambda>it. Some (Item new_id (text1 it) (Some new_id) (data1 it) (children it)))
             (top_level b) of
        None \<Rightarrow> b
      | Some its \<Rightarrow> set_top_level b its)"

section \<open>Actors, commands and the main window state (app/GUI)\<close>

text \<open>
  A VTK actor is an object with identity: the state keeps a store from references to the
  properties and the geometry of each actor, and every other structure holds references.
\<close>

record actor =
  a_color :: vec3
  a_opacity :: real
  a_visibility :: int
  a_point_size :: real
  a_line_width :: real
  a_wireframe :: bool
  a_position :: vec3
  a_points :: "vec3 list"
  a_cells :: "nat list list"
  a_cell_kind :: string

definition new_actor :: "vec3 list \<Rightarrow> nat list list \<Rightarrow> string \<Rightarrow> actor" where
  "new_actor ps cs kind =
     \<lparr>a_color = (1, 1, 1), a_opacity = 1, a_visibility = 1, a_point_size = 1,
      a_line_width = 1, a_wireframe = False, a_position = (0, 0, 0),
      a_points = ps, a_cells = cs, a_cell_kind = kind\<rparr>"

text \<open>The keyword arguments of \<open>CreateObjectCommand\<close>.\<close>

record properties =
  p_color :: "vec3 option"
  p_point_size :: "real option"
  p_line_width :: "real option"
  p_opacity :: "real option"
  p_representation :: "string option"
  p_category :: "string option"
  p_object_name :: "string option"

text \<open>The dictionary \<open>creation_data\<close> of \<open>CreateCuboidCommand\<close>.\<close>

record creation_data =
  cd_method :: "string option"
  cd_dimensions :: "vec3 option"
  cd_center :: "vec3 option"
  cd_orientation :: "(vec3 \<times> vec3 \<times> vec3) option"
  cd_p1 :: "vec3 option"
  cd_p2 :: "vec3 option"

record create_object_command =
  co_geom_data :: geom_data
  co_properties :: properties
  co_actor :: "actor_ref option"
  co_category :: string
  co_object_id :: string

record delete_object_command =
  do_obj_id :: string
  do_actor_to_delete :: "actor_ref option"
  do_actor :: "actor_ref option"
  do_category :: "string option"
  do_type :: string
  do_plane_def :: "plane_def option"

record rename_object_command =
  rn_old_id :: string
  rn_new_id :: string
  rn_actor :: "actor_ref option"

record toggle_visibility_command =
  tv_obj_id :: string
  tv_actor :: "actor_ref option"
  tv_previous_visibility_state :: int

record set_active_plane_command =
  sap_old_active_id :: "string option"
  sap_new_active_id :: "string option"
  sap_actor :: "actor_ref option"

record import_dxf_command =
  im_filepath :: string
  im_origin :: vec3
  im_plane_context :: plane_context
  im_group_name :: string
  im_created_actors :: "(string \<times> actor_ref) list"
  im_actor :: bool

record create_cuboid_command =
  cc_creation_data :: creation_data
  cc_actor :: "actor_ref option"
  cc_object_id :: string

datatype command =
    CreateObjectCommand create_object_command
  | DeleteObjectCommand delete_object_command
  | RenameObjectCommand rename_object_command
  | ToggleVisibilityCommand toggle_visibility_command
  | SetActivePlaneCommand set_active_plane_command
  | ImportDxfCommand import_dxf_command
  | CreateCuboidCommand create_cuboid_command

text \<open>\<open>command.__class__.__name__\<close>.\<close>

fun class_name :: "command \<Rightarrow> string" where
  "class_name (CreateObjectCommand _) = ''CreateObjectCommand''"
| "class_name (DeleteObjectCommand _) = ''DeleteObjectCommand''"
| "class_name (RenameObjectCommand _) = ''RenameObjectCommand''"
| "class_name (ToggleVisibilityCommand _) = ''ToggleVisibilityCommand''"
| "class_name (SetActivePlaneCommand _) = ''SetActivePlaneCommand''"
| "class_name (ImportDxfCommand _) = ''ImportDxfCommand''"
| "class_name (CreateCuboidCommand _) = ''CreateCuboidCommand''"

text \<open>
  \<open>getattr(command, 'actor', True)\<close> as a truth value: every command class sets the
  attribute; an actor is true, \<open>None\<close> and \<open>False\<close> are false.
\<close>

fun actor_truthy :: "command \<Rightarrow> bool" where
  "actor_truthy (CreateObjectCommand c) = (co_actor c \<noteq> None)"
| "actor_truthy (DeleteObjectCommand c) = (do_actor c \<noteq> None)"
| "actor_truthy (RenameObjectCommand c) = (rn_actor c \<noteq> None)"
| "actor_truthy (ToggleVisibilityCommand c) = (tv_actor c \<noteq> None)"
| "actor_truthy (SetActivePlaneCommand c) = (sap_actor c \<noteq> None)"
| "actor_truthy (ImportDxfCommand c) = im_actor c"
| "actor_truthy (CreateCuboidCommand c) = (cc_actor c \<noteq> None)"

text \<open>What the program reports: log records, printed lines and message boxes.\<close>

datatype report =
    LogInfo string
  | LogWarning string
  | LogError string
  | Printed string
  | MessageBox string string

text \<open>
  The state of \<open>MainWindow\<close> that the commands read and write. \<open>files\<close> is the file
  system the DXF reader reads from; \<open>actors\<close> is the store of actors and \<open>next_actor\<close> the
  reference the next created actor gets.
\<close>

record main_window =
  command_stack :: "command list"
  stack_pointer :: int
  actor_buffer :: "string \<rightharpoonup> actor_ref"
  plane_definitions :: "string \<rightharpoonup> plane_def"
  active_plane_id :: "string option"
  current_plane_origin :: vec3
  current_plane_u_axis :: vec3
  current_plane_v_axis :: vec3
  cs_manager :: coordinate_system_manager
  renderer :: "actor_ref list"
  object_browser :: object_browser
  actors :: "actor_ref \<Rightarrow> actor"
  next_actor :: actor_ref
  files :: "string \<rightharpoonup> string list"
  outputs :: "report list"

definition emit :: "report \<Rightarrow> main_window \<Rightarrow> main_window" where
  "emit out s = s\<lparr>outputs := outputs s @ [out]\<rparr>"

text \<open>\<open>vtkRenderer.AddActor\<close> adds an actor that is not yet present; \<open>RemoveActor\<close>.\<close>

definition AddActor :: "actor_ref \<Rightarrow> main_window \<Rightarrow> main_window" where
  "AddActor a s = (if a \<in> set (renderer s) then s else s\<lparr>renderer := renderer s @ [a]\<rparr>)"

definition RemoveActor :: "actor_ref \<Rightarrow> main_window \<Rightarrow> main_window" where
  "RemoveActor a s = s\<lparr>renderer := filter (\<lambda>x. x \<noteq> a) (renderer s)\<rparr>"

text \<open>A new actor object: it gets the next free reference.\<close>

definition alloc_actor :: "actor \<Rightarrow> main_window \<Rightarrow> actor_ref \<times> main_window" where
  "alloc_actor a s =
     (next_actor s, s\<lparr>actors := (actors s)(next_actor s := a), next_actor := Suc (next_actor s)\<rparr>)"

definition update_actor :: "actor_ref \<Rightarrow> (actor \<Rightarrow> actor) \<Rightarrow> main_window \<Rightarrow> main_window" where
  "update_actor r f s = s\<lparr>actors := (actors s)(r := f (actors s r))\<rparr>"

text \<open>Decimal text of a number, for the names built from \<open>id(self)\<close> and from indices.\<close>

definition digit_char :: "nat \<Rightarrow> char" where
  "digit_char d = ''0123456789'' ! d"

fun show_nat :: "nat \<Rightarrow> string" where
  "show_nat n =
     (if n < 10 then [digit_char n]
      else show_nat (n div 10) @ [digit_char (n mod 10)])"

declare show_nat.simps [simp del]

definition rstrip_s :: "string \<Rightarrow> string" where
  "rstrip_s s = rev (dropWhile (\<lambda>c. c = CHR ''s'') (rev s))"

text \<open>
  The constructors. \<open>self_id\<close> stands for \<open>id(self)\<close>, which the program uses to build
  default names.
\<close>

definition mk_CreateObjectCommand :: "nat \<Rightarrow> geom_data \<Rightarrow> properties \<Rightarrow> create_object_command" where
  "mk_CreateObjectCommand self_id geom kwargs =
     (let category = get_or (p_category kwargs) ''Primitives''
      in \<lparr>co_geom_data = geom, co_properties = kwargs, co_actor = None,
          co_category = category,
          co_object_id = get_or (p_object_name kwargs)
                           (rstrip_s category @ ''_'' @ show_nat self_id)\<rparr>)"

definition mk_DeleteObjectCommand :: "main_window \<Rightarrow> string \<Rightarrow> delete_object_command" where
  "mk_DeleteObjectCommand s obj_id =
     \<lparr>do_obj_id = obj_id, do_actor_to_delete = actor_buffer s obj_id,
      do_actor = actor_buffer s obj_id, do_category = None, do_type = ''Unknown'',
      do_plane_def = None\<rparr>"

definition mk_RenameObjectCommand :: "main_window \<Rightarrow> string \<Rightarrow> string \<Rightarrow> rename_object_command" where
  "mk_RenameObjectCommand s obj_id new_name =
     \<lparr>rn_old_id = obj_id, rn_new_id = new_name, rn_actor = actor_buffer s obj_id\<rparr>"

definition mk_ToggleVisibilityCommand :: "main_window \<Rightarrow> string \<Rightarrow> toggle_visibility_command" where
  "mk_ToggleVisibilityCommand s obj_id =
     \<lparr>tv_obj_id = obj_id, tv_actor = actor_buffer s obj_id,
      tv_previous_visibility_state =
        (case actor_buffer s obj_id of None \<Rightarrow> 0 | Some a \<Rightarrow> a_visibility (actors s a))\<rparr>"

text \<open>\<open>actor_buffer.get(new_active_plane_id)\<close>, where the identifier may be \<open>None\<close>.\<close>

definition buffer_get :: "main_window \<Rightarrow> string option \<Rightarrow> actor_ref option" where
  "buffer_get s oid = (case oid of None \<Rightarrow> None | Some i \<Rightarrow> actor_buffer s i)"

definition mk_SetActivePlaneCommand :: "main_window \<Rightarrow> string option \<Rightarrow> set_active_plane_command" where
  "mk_SetActivePlaneCommand s new_active_plane_id =
     \<lparr>sap_old_active_id = active_plane_id s, sap_new_active_id = new_active_plane_id,
      sap_actor = buffer_get s new_active_plane_id\<rparr>"

definition mk_ImportDxfCommand ::
  "nat \<Rightarrow> string \<Rightarrow> vec3 \<Rightarrow> plane_context \<Rightarrow> import_dxf_command" where
  "mk_ImportDxfCommand self_id filepath origin ctx =
     \<lparr>im_filepath = filepath, im_origin = origin, im_plane_context = ctx,
      im_group_name = ''DXF_Import_'' @ show_nat self_id, im_created_actors = [],
      im_actor = True\<rparr>"

definition mk_CreateCuboidCommand :: "nat \<Rightarrow> creation_data \<Rightarrow> create_cuboid_command" where
  "mk_CreateCuboidCommand self_id cd =
     \<lparr>cc_creation_data = cd, cc_actor = None, cc_object_id = ''Cuboid_'' @ show_nat self_id\<rparr>"

section \<open>The commands (app/GUI/commands.py)\<close>

text \<open>
  \<open>execute\<close> returns the exception that left it (if any), the command object as the
  call left it, and the state; what was written before an exception stays written.
  \<open>undo\<close> does not write to the command object.
\<close>

subsection \<open>CreateObjectCommand\<close>

definition apply_properties :: "properties \<Rightarrow> actor \<Rightarrow> actor" where
  "apply_properties kw a =
     (let a1 = a\<lparr>a_color := get_or (p_color kw) (1, 1, 1),
                 a_point_size := get_or (p_point_size kw) 5,
                 a_line_width := get_or (p_line_width kw) 2,
                 a_opacity := get_or (p_opacity kw) 1\<rparr>
      in if p_representation kw = Some ''wireframe'' then a1\<lparr>a_wireframe := True\<rparr> else a1)"

text \<open>
  The actor built from \<open>'points'\<close>, \<open>'type'\<close> and \<open>'cells'\<close>, read in this order; cells of
  a type other than verts, lines and polys are skipped.
\<close>

definition build_mesh_actor :: "geom_data \<Rightarrow> py_error + actor" where
  "build_mesh_actor g =
     (case gd_points g of
        None \<Rightarrow> Inl (KeyError ''points'')
      | Some ps \<Rightarrow>
          (case gd_type g of
             None \<Rightarrow> Inl (KeyError ''type'')
           | Some cell_type \<Rightarrow>
               (case gd_cells g of
                  None \<Rightarrow> Inl (KeyError ''cells'')
                | Some cs \<Rightarrow>
                    if cell_type \<in> set [''verts'', ''lines'', ''polys'']
                    then Inr (new_actor ps cs cell_type)
                    else Inr (new_actor ps [] []))))"

definition CreateObjectCommand_execute ::
  "create_object_command \<Rightarrow> main_window \<Rightarrow> py_error option \<times> create_object_command \<times> main_window" where
  "CreateObjectCommand_execute c s =
     (let g = co_geom_data c; oid = co_object_id c; cat = co_category c in
      case co_actor c of
        Some a \<Rightarrow>
          (let s1 = AddActor a s;
               s2 = s1\<lparr>actor_buffer := (actor_buffer s1)(oid \<mapsto> a)\<rparr>;
               s3 = s2\<lparr>object_browser :=
                       add_object (object_browser s2) oid (get_or (gd_type g) ''Import'') cat None\<rparr>
           in if cat = ''Planes'' then
                (case gd_definition g of
                   None \<Rightarrow> (Some (KeyError ''definition''), c, s3)
                 | Some d \<Rightarrow> (None, c, s3\<lparr>plane_definitions := (plane_definitions s3)(oid \<mapsto> d)\<rparr>))
              else (None, c, s3))
      | None \<Rightarrow>
          (case (case gd_actor g of
                   Some a \<Rightarrow> Inr (a, s)
                 | None \<Rightarrow>
                     (case build_mesh_actor g of
                        Inl e \<Rightarrow> Inl e
                      | Inr act \<Rightarrow> Inr (alloc_actor act s))) of
             Inl e \<Rightarrow>
               (None, c\<lparr>co_actor := None\<rparr>,
                emit (Printed (''Error executing CreateObjectCommand: '' @ str_of_error e)) s)
           | Inr (a, s1) \<Rightarrow>
               (let s2 = update_actor a (apply_properties (co_properties c)) s1;
                    s3 = AddActor a s2;
                    s4 = s3\<lparr>object_browser :=
                            add_object (object_browser s3) oid (get_or (gd_type g) ''Unknown'') cat
                              None\<rparr>;
                    s5 = s4\<lparr>actor_buffer := (actor_buffer s4)(oid \<mapsto> a)\<rparr>;
                    s6 = (case gd_definition g of
                            Some d \<Rightarrow>
                              if cat = ''Planes''
                              then s5\<lparr>plane_definitions := (plane_definitions s5)(oid \<mapsto> d)\<rparr>
                              else s5
                          | None \<Rightarrow> s5)
                in (None, c\<lparr>co_actor := Some a\<rparr>, s6))))"

definition CreateObjectCommand_undo ::
  "create_object_command \<Rightarrow> main_window \<Rightarrow> py_error option \<times> main_window" where
  "CreateObjectCommand_undo c s =
     (case co_actor c of
        None \<Rightarrow> (None, s)
      | Some a \<Rightarrow>
          (let s1 = RemoveActor a s in
           case remove_object (object_browser s1) (co_object_id c) of
             Inl e \<Rightarrow> (Some e, s1)
           | Inr b \<Rightarrow>
               (let s2 = s1\<lparr>object_browser := b\<rparr>;
                    s3 = s2\<lparr>actor_buffer := (actor_buffer s2)(co_object_id c := None)\<rparr>
                in (None, s3\<lparr>plane_definitions :=
                                (plane_definitions s3)(co_object_id c := None)\<rparr>))))"

subsection \<open>DeleteObjectCommand\<close>

definition DeleteObjectCommand_execute ::
  "delete_object_command \<Rightarrow> main_window \<Rightarrow> py_error option \<times> delete_object_command \<times> main_window" where
  "DeleteObjectCommand_execute c s =
     (case do_actor_to_delete c of
        None \<Rightarrow> (None, c, s)
      | Some a \<Rightarrow>
          (let oid = do_obj_id c;
               c1 = (case find_first oid None (top_level (object_browser s)) of
                       None \<Rightarrow> c
                     | Some (parent, it) \<Rightarrow>
                         c\<lparr>do_category :=
                              Some (case parent of None \<Rightarrow> ''Primitives'' | Some p \<Rightarrow> text0 p),
                           do_type := text1 it\<rparr>);
               c2 = (case plane_definitions s oid of
                       None \<Rightarrow> c1
                     | Some pd \<Rightarrow> c1\<lparr>do_plane_def := Some pd\<rparr>);
               s1 = s\<lparr>plane_definitions := (plane_definitions s)(oid := None)\<rparr>;
               s2 = RemoveActor a s1
           in case remove_object (object_browser s2) oid of
                Inl e \<Rightarrow> (Some e, c2, s2)
              | Inr b \<Rightarrow>
                  (let s3 = s2\<lparr>object_browser := b\<rparr>;
                       s4 = s3\<lparr>actor_buffer := (actor_buffer s3)(oid := None)\<rparr>
                   in (None, c2, emit (LogInfo (''Deleted object: '' @ oid)) s4))))"

definition DeleteObjectCommand_undo ::
  "delete_object_command \<Rightarrow> main_window \<Rightarrow> py_error option \<times> main_window" where
  "DeleteObjectCommand_undo c s =
     (case (do_actor_to_delete c, do_category c) of
        (Some a, Some cat) \<Rightarrow>
          if cat = [] then (None, s)
          else
            (let oid = do_obj_id c;
                 s1 = AddActor a s;
                 s2 = s1\<lparr>object_browser :=
                         add_object (object_browser s1) oid (do_type c) cat None\<rparr>;
                 s3 = s2\<lparr>actor_buffer := (actor_buffer s2)(oid \<mapsto> a)\<rparr>;
                 s4 = (case do_plane_def c of
                         None \<Rightarrow> s3
                       | Some pd \<Rightarrow> s3\<lparr>plane_definitions := (plane_definitions s3)(oid \<mapsto> pd)\<rparr>)
             in (None, emit (LogInfo (''Restored (Undo Delete): '' @ oid)) s4))
      | _ \<Rightarrow> (None, s))"

subsection \<open>RenameObjectCommand\<close>

text \<open>
  The renaming that \<open>execute\<close> does from \<open>old_id\<close> to \<open>new_id\<close> and \<open>undo\<close> does the other
  way round.
\<close>

definition rename_everywhere :: "string \<Rightarrow> string \<Rightarrow> main_window \<Rightarrow> main_window" where
  "rename_everywhere from_id to_id s =
     (let s1 = s\<lparr>object_browser := update_object_name (object_browser s) from_id to_id\<rparr>;
          s2 = (case actor_buffer s1 from_id of
                  None \<Rightarrow> s1
                | Some a \<Rightarrow> s1\<lparr>actor_buffer := ((actor_buffer s1)(from_id := None))(to_id \<mapsto> a)\<rparr>);
          s3 = (case plane_definitions s2 from_id of
                  None \<Rightarrow> s2
                | Some pd \<Rightarrow>
                    s2\<lparr>plane_definitions := ((plane_definitions s2)(from_id := None))(to_id \<mapsto> pd)\<rparr>)
      in if active_plane_id s3 = Some from_id then s3\<lparr>active_plane_id := Some to_id\<rparr> else s3)"

definition RenameObjectCommand_execute ::
  "rename_object_command \<Rightarrow> main_window \<Rightarrow> py_error option \<times> rename_object_command \<times> main_window" where
  "RenameObjectCommand_execute c s =
     (None, c,
      emit (LogInfo (''Renamed '' @ quoted (rn_old_id c) @ '' to '' @ quoted (rn_new_id c)))
        (rename_everywhere (rn_old_id c) (rn_new_id c) s))"

definition RenameObjectCommand_undo ::
  "rename_object_command \<Rightarrow> main_window \<Rightarrow> py_error option \<times> main_window" where
  "RenameObjectCommand_undo c s =
     (None,
      emit (LogInfo (''Undo rename: '' @ quoted (rn_new_id c) @ '' back to ''
                     @ quoted (rn_old_id c)))
        (rename_everywhere (rn_new_id c) (rn_old_id c) s))"

subsection \<open>ToggleVisibilityCommand\<close>

definition ToggleVisibilityCommand_execute ::
  "toggle_visibility_command \<Rightarrow> main_window \<Rightarrow>
   py_error option \<times> toggle_visibility_command \<times> main_window" where
  "ToggleVisibilityCommand_execute c s =
     (case tv_actor c of
        None \<Rightarrow> (None, c, s)
      | Some a \<Rightarrow>
          (let new_visibility = 1 - a_visibility (actors s a);
               s1 = update_actor a (\<lambda>x. x\<lparr>a_visibility := new_visibility\<rparr>) s
           in (None, c,
               emit (LogInfo (''Set visibility for '' @ tv_obj_id c @ '' to ''
                              @ (if new_visibility \<noteq> 0 then ''ON'' else ''OFF''))) s1)))"

definition ToggleVisibilityCommand_undo ::
  "toggle_visibility_command \<Rightarrow> main_window \<Rightarrow> py_error option \<times> main_window" where
  "ToggleVisibilityCommand_undo c s =
     (case tv_actor c of
        None \<Rightarrow> (None, s)
      | Some a \<Rightarrow>
          (None, update_actor a (\<lambda>x. x\<lparr>a_visibility := tv_previous_visibility_state c\<rparr>) s))"

subsection \<open>SetActivePlaneCommand\<close>

text \<open>
  \<open>vtkMath.Perpendiculars\<close>, a routine of the VTK library, is a parameter of the model:
  \<open>perpendiculars normal\<close> is the pair of axes it writes for a normal.
\<close>

definition update_plane_context ::
  "(vec3 \<Rightarrow> vec3 \<times> vec3) \<Rightarrow> plane_def \<Rightarrow> main_window \<Rightarrow> main_window" where
  "update_plane_context perpendiculars pd s =
     (case perpendiculars (pd_normal pd) of
        (u_axis, v_axis) \<Rightarrow>
          s\<lparr>current_plane_origin := pd_origin pd, current_plane_u_axis := u_axis,
            current_plane_v_axis := v_axis\<rparr>)"

text \<open>\<open>oid and oid in actor_buffer\<close>: the actor of a non-empty identifier in the buffer.\<close>

definition registered_actor :: "main_window \<Rightarrow> string option \<Rightarrow> actor_ref option" where
  "registered_actor s oid =
     (case oid of None \<Rightarrow> None | Some i \<Rightarrow> if i = [] then None else actor_buffer s i)"

text \<open>\<open>plane_definitions.get(oid)\<close>, where the identifier may be \<open>None\<close>.\<close>

definition definition_of :: "main_window \<Rightarrow> string option \<Rightarrow> plane_def option" where
  "definition_of s oid = (case oid of None \<Rightarrow> None | Some i \<Rightarrow> plane_definitions s i)"

definition str_of_id :: "string option \<Rightarrow> string" where
  "str_of_id oid = (case oid of None \<Rightarrow> ''None'' | Some i \<Rightarrow> i)"

definition SetActivePlaneCommand_execute ::
  "(vec3 \<Rightarrow> vec3 \<times> vec3) \<Rightarrow> set_active_plane_command \<Rightarrow> main_window \<Rightarrow>
   py_error option \<times> set_active_plane_command \<times> main_window" where
  "SetActivePlaneCommand_execute perpendiculars c s =
     (let s1 = (case registered_actor s (sap_old_active_id c) of
                  None \<Rightarrow> s
                | Some a \<Rightarrow>
                    update_actor a (\<lambda>x. x\<lparr>a_color := (8 / 10, 8 / 10, 1), a_opacity := 2 / 10\<rparr>) s)
      in case registered_actor s1 (sap_new_active_id c) of
           None \<Rightarrow> (None, c, s1)
         | Some new_a \<Rightarrow>
             (let s2 = update_actor new_a (\<lambda>x. x\<lparr>a_color := (0, 1, 1), a_opacity := 4 / 10\<rparr>) s1
              in case definition_of s2 (sap_new_active_id c) of
                   None \<Rightarrow> (None, c, s2)
                 | Some pd \<Rightarrow>
                     (let s3 = update_plane_context perpendiculars pd s2;
                          s4 = s3\<lparr>active_plane_id := sap_new_active_id c\<rparr>;
                          s5 = s4\<lparr>object_browser :=
                                  set_active_plane_id (object_browser s4) (sap_new_active_id c)\<rparr>
                      in (None, c,
                          emit (LogInfo (''Active plane set to: ''
                                         @ str_of_id (sap_new_active_id c))) s5))))"

definition SetActivePlaneCommand_undo ::
  "(vec3 \<Rightarrow> vec3 \<times> vec3) \<Rightarrow> set_active_plane_command \<Rightarrow> main_window \<Rightarrow>
   py_error option \<times> main_window" where
  "SetActivePlaneCommand_undo perpendiculars c s =
     (let redo_command =
            (mk_SetActivePlaneCommand s (sap_old_active_id c))
              \<lparr>sap_old_active_id := sap_new_active_id c\<rparr>
      in case SetActivePlaneCommand_execute perpendiculars redo_command s of
           (Some e, _, s1) \<Rightarrow> (Some e, s1)
         | (None, _, s1) \<Rightarrow>
             (None, emit (LogInfo (''Active plane reverted to: ''
                                   @ str_of_id (sap_old_active_id c))) s1))"

subsection \<open>ImportDxfCommand\<close>

text \<open>\<open>d[key] = value\<close> on a dictionary kept in insertion order.\<close>

fun dict_set :: "('k \<times> 'v) list \<Rightarrow> 'k \<Rightarrow> 'v \<Rightarrow> ('k \<times> 'v) list" where
  "dict_set [] k v = [(k, v)]"
| "dict_set ((k', v') # rest) k v =
     (if k' = k then (k, v) # rest else (k', v') # dict_set rest k v)"

definition viz_points :: "geom_data \<Rightarrow> py_error + vec3 list" where
  "viz_points g = (case gd_points g of None \<Rightarrow> Inl (KeyError ''points'') | Some ps \<Rightarrow> Inr ps)"

text \<open>
  The points of \<open>viz_data\<close> for a shape of a type the import draws (\<open>None\<close> for a text);
  circles and arcs use the default of 100 segments.
\<close>

definition shape_viz_points :: "plane_context \<Rightarrow> real shape \<Rightarrow> (py_error + vec3 list) option" where
  "shape_viz_points ctx sh =
     (case sh of
        Line _ _ p1 p2 \<Rightarrow>
          Some (viz_points (create_line (fst p1) (fst (snd p1)) (fst p2) (fst (snd p2)) ctx))
      | Circle _ _ c r \<Rightarrow>
          Some (case create_circle (fst c) (fst (snd c)) r ctx 100 of
                  Inl e \<Rightarrow> Inl e | Inr g \<Rightarrow> viz_points g)
      | Arc _ _ c r _ _ \<Rightarrow>
          Some (case create_circle (fst c) (fst (snd c)) r ctx 100 of
                  Inl e \<Rightarrow> Inl e | Inr g \<Rightarrow> viz_points g)
      | LwPolyline _ _ vs _ \<Rightarrow>
          Some (Inr (map (\<lambda>v. to_world (fst v) (fst (snd v)) ctx) vs))
      | Text _ _ _ _ _ \<Rightarrow> None)"

definition import_shape ::
  "nat \<Rightarrow> real shape \<Rightarrow> import_dxf_command \<Rightarrow> main_window \<Rightarrow>
   py_error option \<times> import_dxf_command \<times> main_window" where
  "import_shape i sh c s =
     (case shape_viz_points (im_plane_context c) sh of
        None \<Rightarrow> (None, c, s)
      | Some (Inl e) \<Rightarrow> (Some e, c, s)
      | Some (Inr pts) \<Rightarrow>
          (let act = (new_actor pts [[0 ..< length pts]] ''lines'')
                       \<lparr>a_position := im_origin c, a_color := (1, 4 / 10, 4 / 10)\<rparr>;
               obj_id = im_group_name c @ ''_Shape_'' @ show_nat i
           in case alloc_actor act s of
                (a, s1) \<Rightarrow>
                  (None, c\<lparr>im_created_actors := dict_set (im_created_actors c) obj_id a\<rparr>,
                   s1\<lparr>object_browser :=
                        add_object (object_browser s1) obj_id (get_type sh) ''Imports''
                          (Some (im_group_name c))\<rparr>)))"

fun import_shapes ::
  "nat \<Rightarrow> real shape list \<Rightarrow> import_dxf_command \<Rightarrow> main_window \<Rightarrow>
   py_error option \<times> import_dxf_command \<times> main_window" where
  "import_shapes i [] c s = (None, c, s)"
| "import_shapes i (sh # rest) c s =
     (case import_shape i sh c s of
        (Some e, c1, s1) \<Rightarrow> (Some e, c1, s1)
      | (None, c1, s1) \<Rightarrow> import_shapes (Suc i) rest c1 s1)"

definition show_created :: "(string \<times> actor_ref) list \<Rightarrow> main_window \<Rightarrow> main_window" where
  "show_created created s =
     foldl (\<lambda>st (obj_id, a).
              (let st1 = AddActor a st in st1\<lparr>actor_buffer := (actor_buffer st1)(obj_id \<mapsto> a)\<rparr>))
           s created"

definition import_failed ::
  "py_error \<Rightarrow> import_dxf_command \<Rightarrow> main_window \<Rightarrow>
   py_error option \<times> import_dxf_command \<times> main_window" where
  "import_failed e c s =
     (None, c\<lparr>im_actor := False\<rparr>, emit (LogError (''DXF Import failed: '' @ str_of_error e)) s)"

definition warn_if_empty :: "import_dxf_command \<Rightarrow> real geometry2d \<Rightarrow> main_window \<Rightarrow> main_window" where
  "warn_if_empty c geom s =
     (if get_number_of_shapes geom = 0
      then emit (LogWarning (''No supported geometry (LINE, CIRCLE, LWPOLYLINE) found in ''
                             @ quoted (im_filepath c) @ ''.'')) s
      else s)"

definition ImportDxfCommand_execute ::
  "import_dxf_command \<Rightarrow> main_window \<Rightarrow> py_error option \<times> import_dxf_command \<times> main_window" where
  "ImportDxfCommand_execute c s =
     (let group = im_group_name c;
          s1 = s\<lparr>object_browser :=
                  add_object (object_browser s) group ''DXF Group'' ''Imports'' None\<rparr>
      in if im_created_actors c \<noteq> [] then
           (None, c,
            foldl (\<lambda>st (obj_id, a).
                     (let st1 = AddActor a st;
                          st2 = st1\<lparr>actor_buffer := (actor_buffer st1)(obj_id \<mapsto> a)\<rparr>
                      in st2\<lparr>object_browser :=
                              add_object (object_browser st2) obj_id ''Shape'' ''Imports''
                                (Some group)\<rparr>))
                  s1 (im_created_actors c))
         else
           (case DxfReader py_numbers (files s1) (im_filepath c) of
              Inl e \<Rightarrow> import_failed e c s1
            | Inr geom_backend \<Rightarrow>
                (let s2 = warn_if_empty c geom_backend s1
                 in case import_shapes 0 geom_backend c s2 of
                      (Some e, c1, s3) \<Rightarrow> import_failed e c1 s3
                    | (None, c1, s3) \<Rightarrow> (None, c1, show_created (im_created_actors c1) s3))))"

definition ImportDxfCommand_undo ::
  "import_dxf_command \<Rightarrow> main_window \<Rightarrow> py_error option \<times> main_window" where
  "ImportDxfCommand_undo c s =
     (let s1 = foldl (\<lambda>st (obj_id, a).
                        (let st1 = RemoveActor a st
                         in st1\<lparr>actor_buffer := (actor_buffer st1)(obj_id := None)\<rparr>))
                     s (im_created_actors c)
      in case remove_object (object_browser s1) (im_group_name c) of
           Inl e \<Rightarrow> (Some e, s1)
         | Inr b \<Rightarrow> (None, s1\<lparr>object_browser := b\<rparr>))"

subsection \<open>CreateCuboidCommand\<close>

text \<open>
  The names that the module acrilib/primitives/factory.py binds: its imports and its
  definitions.
\<close>

definition factory_names :: "string list" where
  "factory_names =
     [''math'', ''Any'', ''Dict'', ''List'', ''np'', ''vtk'', ''transform_to_plane'',
      ''GeomData'', ''Vector3D'', ''create_plane_geometry_data'', ''create_point'',
      ''create_line'', ''create_triangle'', ''create_circle'', ''create_cuboid'',
      ''create_origin_marker'', ''_extract_polydata'', ''create_cube_data'',
      ''create_sphere_data'', ''create_cylinder_data'', ''create_cone_data'']"

text \<open>
  The call \<open>primitives.name(key=creation_data[key], ...)\<close>: the attribute is looked up
  first, then the arguments are read; none of the names the module binds takes the
  keywords of the cuboid calls, so the call of a bound name is a TypeError.
\<close>

definition factory_call ::
  "string \<Rightarrow> (string \<times> bool) list \<Rightarrow> py_error + geom_data" where
  "factory_call name args =
     (if name \<notin> set factory_names then
        Inl (AttributeError (''module '' @ quoted ''acrilib.primitives.factory''
                             @ '' has no attribute '' @ quoted name))
      else
        (case filter (\<lambda>kv. \<not> snd kv) args of
           kv # _ \<Rightarrow> Inl (KeyError (fst kv))
         | [] \<Rightarrow> Inl (TypeError (name @ ''() got an unexpected keyword argument''))))"

definition CreateCuboidCommand_execute ::
  "create_cuboid_command \<Rightarrow> main_window \<Rightarrow> py_error option \<times> create_cuboid_command \<times> main_window" where
  "CreateCuboidCommand_execute c s =
     (let oid = cc_object_id c; cd = cc_creation_data c in
      case cc_actor c of
        Some a \<Rightarrow>
          (let s1 = AddActor a s;
               s2 = s1\<lparr>actor_buffer := (actor_buffer s1)(oid \<mapsto> a)\<rparr>
           in (None, c,
               s2\<lparr>object_browser :=
                    add_object (object_browser s2) oid ''Cuboid'' ''Primitives'' None\<rparr>))
      | None \<Rightarrow>
          (case (case cd_method cd of
                   None \<Rightarrow> Inl (KeyError ''method'')
                 | Some method \<Rightarrow>
                     if method = ''dimensions'' then
                       factory_call ''create_cuboid_from_dimensions''
                         [(''dimensions'', cd_dimensions cd \<noteq> None),
                          (''center'', cd_center cd \<noteq> None),
                          (''orientation'', cd_orientation cd \<noteq> None)]
                     else if method = ''corners'' then
                       factory_call ''create_cuboid_from_corners''
                         [(''p1'', cd_p1 cd \<noteq> None), (''p2'', cd_p2 cd \<noteq> None)]
                     else Inl (ValueError (''Unknown cuboid creation method: '' @ method))) of
             Inl e \<Rightarrow>
               (None, c\<lparr>cc_actor := None\<rparr>,
                emit (LogError (''Failed to create cuboid: '' @ str_of_error e)) s)
           | Inr geom \<Rightarrow>
               (case (case gd_points geom of
                        None \<Rightarrow> Inl (KeyError ''points'')
                      | Some ps \<Rightarrow>
                          (case gd_cells geom of
                             None \<Rightarrow> Inl (KeyError ''cells'')
                           | Some cs \<Rightarrow> Inr (new_actor ps cs ''polys''))) of
                  Inl e \<Rightarrow>
                    (None, c\<lparr>cc_actor := None\<rparr>,
                     emit (LogError (''Failed to create cuboid: '' @ str_of_error e)) s)
                | Inr act \<Rightarrow>
                    (case alloc_actor (act\<lparr>a_color := (9 / 10, 4 / 10, 1 / 10)\<rparr>) s of
                       (a, s1) \<Rightarrow>
                         (let s2 = AddActor a s1;
                              s3 = s2\<lparr>actor_buffer := (actor_buffer s2)(oid \<mapsto> a)\<rparr>
                          in (None, c\<lparr>cc_actor := Some a\<rparr>,
                              s3\<lparr>object_browser :=
                                   add_object (object_browser s3) oid ''Cuboid'' ''Primitives''
                                     None\<rparr>))))))"

definition CreateCuboidCommand_undo ::
  "create_cuboid_command \<Rightarrow> main_window \<Rightarrow> py_error option \<times> main_window" where
  "CreateCuboidCommand_undo c s =
     (case cc_actor c of
        None \<Rightarrow> (None, s)
      | Some a \<Rightarrow>
          (let s1 = RemoveActor a s in
           case remove_object (object_browser s1) (cc_object_id c) of
             Inl e \<Rightarrow> (Some e, s1)
           | Inr b \<Rightarrow>
               (let s2 = s1\<lparr>object_browser := b\<rparr>
                in (None, s2\<lparr>actor_buffer := (actor_buffer s2)(cc_object_id c := None)\<rparr>))))"

subsection \<open>Dispatch on the command class\<close>

fun execute ::
  "(vec3 \<Rightarrow> vec3 \<times> vec3) \<Rightarrow> command \<Rightarrow> main_window \<Rightarrow> py_error option \<times> command \<times> main_window" where
  "execute perp (CreateObjectCommand c) s =
     (case CreateObjectCommand_execute c s of (e, c', s') \<Rightarrow> (e, CreateObjectCommand c', s'))"
| "execute perp (DeleteObjectCommand c) s =
     (case DeleteObjectCommand_execute c s of (e, c', s') \<Rightarrow> (e, DeleteObjectCommand c', s'))"
| "execute perp (RenameObjectCommand c) s =
     (case RenameObjectCommand_execute c s of (e, c', s') \<Rightarrow> (e, RenameObjectCommand c', s'))"
| "execute perp (ToggleVisibilityCommand c) s =
     (case ToggleVisibilityCommand_execute c s of
        (e, c', s') \<Rightarrow> (e, ToggleVisibilityCommand c', s'))"
| "execute perp (SetActivePlaneCommand c) s =
     (case SetActivePlaneCommand_execute perp c s of
        (e, c', s') \<Rightarrow> (e, SetActivePlaneCommand c', s'))"
| "execute perp (ImportDxfCommand c) s =
     (case ImportDxfCommand_execute c s of (e, c', s') \<Rightarrow> (e, ImportDxfCommand c', s'))"
| "execute perp (CreateCuboidCommand c) s =
     (case CreateCuboidCommand_execute c s of (e, c', s') \<Rightarrow> (e, CreateCuboidCommand c', s'))"

fun undo ::
  "(vec3 \<Rightarrow> vec3 \<times> vec3) \<Rightarrow> command \<Rightarrow> main_window \<Rightarrow> py_error option \<times> main_window" where
  "undo perp (CreateObjectCommand c) s = CreateObjectCommand_undo c s"
| "undo perp (DeleteObjectCommand c) s = DeleteObjectCommand_undo c s"
| "undo perp (RenameObjectCommand c) s = RenameObjectCommand_undo c s"
| "undo perp (ToggleVisibilityCommand c) s = ToggleVisibilityCommand_undo c s"
| "undo perp (SetActivePlaneCommand c) s = SetActivePlaneCommand_undo perp c s"
| "undo perp (ImportDxfCommand c) s = ImportDxfCommand_undo c s"
| "undo perp (CreateCuboidCommand c) s = CreateCuboidCommand_undo c s"

section \<open>The command history (app/GUI/main_window.py)\<close>

text \<open>The slice \<open>xs[:n]\<close> and the element \<open>xs[i]\<close> of Python, negative positions included.\<close>

definition py_slice_to :: "'a list \<Rightarrow> int \<Rightarrow> 'a list" where
  "py_slice_to xs n =
     (if 0 \<le> n then take (nat n) xs else take (nat (int (length xs) + n)) xs)"

definition py_position :: "'a list \<Rightarrow> int \<Rightarrow> nat option" where
  "py_position xs i =
     (let n = int (length xs); j = (if i < 0 then n + i else i)
      in if 0 \<le> j \<and> j < n then Some (nat j) else None)"

text \<open>
  \<open>execute_command\<close>: the history is cut to the cursor first, then the command runs; a
  command that raised or whose \<open>actor\<close> attribute is false afterwards is reported and not
  recorded.
\<close>

definition truncate_history :: "main_window \<Rightarrow> main_window" where
  "truncate_history s =
     (if stack_pointer s < int (length (command_stack s)) - 1
      then s\<lparr>command_stack := py_slice_to (command_stack s) (stack_pointer s + 1)\<rparr>
      else s)"

definition execute_command ::
  "(vec3 \<Rightarrow> vec3 \<times> vec3) \<Rightarrow> command \<Rightarrow> main_window \<Rightarrow> main_window" where
  "execute_command perp cmd s =
     (case execute perp cmd (truncate_history s) of
        (Some e, cmd', s1) \<Rightarrow>
          emit (LogError (''Failed to execute command '' @ class_name cmd @ '': ''
                          @ str_of_error e)) s1
      | (None, cmd', s1) \<Rightarrow>
          if \<not> actor_truthy cmd' then
            emit (LogError (''Command '' @ class_name cmd @ '' failed execution.'')) s1
          else s1\<lparr>command_stack := command_stack s1 @ [cmd'],
                  stack_pointer := stack_pointer s1 + 1\<rparr>)"

text \<open>Whether \<open>execute_command\<close> takes one of its two failure exits for a command.\<close>

definition command_fails ::
  "(vec3 \<Rightarrow> vec3 \<times> vec3) \<Rightarrow> command \<Rightarrow> main_window \<Rightarrow> bool" where
  "command_fails perp cmd s =
     (case execute perp cmd (truncate_history s) of
        (Some e, cmd', s1) \<Rightarrow> True
      | (None, cmd', s1) \<Rightarrow> \<not> actor_truthy cmd')"

text \<open>
  \<open>on_undo\<close> and \<open>on_redo\<close> have no handler of their own for an exception of the command:
  it leaves the method with the state as written so far. \<open>on_redo\<close> runs the command
  object that is in the history, which keeps what the run writes to it.
\<close>

definition on_undo ::
  "(vec3 \<Rightarrow> vec3 \<times> vec3) \<Rightarrow> main_window \<Rightarrow> py_error option \<times> main_window" where
  "on_undo perp s =
     (if 0 \<le> stack_pointer s then
        (case py_position (command_stack s) (stack_pointer s) of
           None \<Rightarrow> (Some IndexError, s)
         | Some i \<Rightarrow>
             (let cmd = command_stack s ! i in
              case undo perp cmd s of
                (Some e, s1) \<Rightarrow> (Some e, s1)
              | (None, s1) \<Rightarrow>
                  (None, emit (LogInfo (''Undo: '' @ class_name cmd))
                           (s1\<lparr>stack_pointer := stack_pointer s1 - 1\<rparr>))))
      else (None, emit (LogWarning ''Nothing to undo.'') s))"

definition on_redo ::
  "(vec3 \<Rightarrow> vec3 \<times> vec3) \<Rightarrow> main_window \<Rightarrow> py_error option \<times> main_window" where
  "on_redo perp s =
     (if stack_pointer s < int (length (command_stack s)) - 1 then
        (let s1 = s\<lparr>stack_pointer := stack_pointer s + 1\<rparr> in
         case py_position (command_stack s1) (stack_pointer s1) of
           None \<Rightarrow> (Some IndexError, s1)
         | Some i \<Rightarrow>
             (let cmd = command_stack s1 ! i in
              case execute perp cmd s1 of
                (e, cmd', s2) \<Rightarrow>
                  (let s3 = s2\<lparr>command_stack := (command_stack s2)[i := cmd']\<rparr>
                   in case e of
                        Some err \<Rightarrow> (Some err, s3)
                      | None \<Rightarrow> (None, emit (LogInfo (''Redo: '' @ class_name cmd)) s3))))
      else (None, emit (LogWarning ''Nothing to redo.'') s))"

section \<open>The handlers of the main window and the context menu of the browser\<close>

text \<open>
  A handler returns the exception that left it, if any, and the state. The answer of an
  input dialog (\<open>QInputDialog.getText\<close>: the text and whether it was accepted) is an
  argument of the handler that opens it.
\<close>

definition on_delete_object_requested ::
  "(vec3 \<Rightarrow> vec3 \<times> vec3) \<Rightarrow> main_window \<Rightarrow> string \<Rightarrow> string \<Rightarrow> py_error option \<times> main_window" where
  "on_delete_object_requested perp s obj_id category =
     (if category = ''Coordinate Systems'' then
        (case delete_cs (cs_manager s) obj_id of
           (True, m) \<Rightarrow>
             (let s1 = s\<lparr>cs_manager := m\<rparr> in
              case remove_object (object_browser s1) obj_id of
                Inl e \<Rightarrow> (Some e, s1)
              | Inr b \<Rightarrow>
                  (None, emit (LogInfo (''Deleted Coordinate System: '' @ quoted obj_id))
                           (s1\<lparr>object_browser := b\<rparr>)))
         | (False, m) \<Rightarrow>
             (None, emit (LogError (''Could not find LCS '' @ quoted obj_id @ '' to delete.'')) s))
      else if Some obj_id = active_plane_id s then
        (None, emit (MessageBox ''Action Denied'' ''Cannot delete the active working plane.'') s)
      else if obj_id \<in> dom (actor_buffer s) then
        (None, execute_command perp (DeleteObjectCommand (mk_DeleteObjectCommand s obj_id)) s)
      else
        (None, emit (LogError (''Could not find object '' @ quoted obj_id @ '' to delete.'')) s))"

definition on_rename_object_requested ::
  "(vec3 \<Rightarrow> vec3 \<times> vec3) \<Rightarrow> main_window \<Rightarrow> string \<Rightarrow> string \<Rightarrow> string \<times> bool \<Rightarrow>
   py_error option \<times> main_window" where
  "on_rename_object_requested perp s obj_id category answer =
     (case answer of (new_name, ok) \<Rightarrow>
        if category = ''Coordinate Systems'' then
          (if ok \<and> new_name \<noteq> [] \<and> new_name \<noteq> obj_id then
             (case rename_cs (cs_manager s) obj_id new_name of
                Inl e \<Rightarrow> (None, emit (MessageBox ''Rename Failed'' (str_of_error e)) s)
              | Inr m \<Rightarrow>
                  (let s1 = s\<lparr>cs_manager := m\<rparr>;
                       b1 = update_object_name (object_browser s1) obj_id new_name;
                       b2 = (if ob_active_cs_title b1 = obj_id then set_active_cs_title b1 new_name
                             else b1)
                   in (None, emit (LogInfo (''Renamed CS '' @ quoted obj_id @ '' to ''
                                            @ quoted new_name))
                               (s1\<lparr>object_browser := b2\<rparr>))))
           else (None, s))
        else if ok \<and> new_name \<noteq> [] \<and> new_name \<noteq> obj_id then
          (if new_name \<in> dom (actor_buffer s) then
             (None, emit (MessageBox ''Rename Failed''
                            ''An object with this name already exists.'') s)
           else
             (None, execute_command perp
                      (RenameObjectCommand (mk_RenameObjectCommand s obj_id new_name)) s))
        else (None, s))"

definition on_set_active_cs_requested :: "main_window \<Rightarrow> string \<Rightarrow> py_error option \<times> main_window" where
  "on_set_active_cs_requested s title =
     (case set_active (cs_manager s) title of
        Inl e \<Rightarrow> (None, emit (LogError (''Failed to set active CS: '' @ str_of_error e)) s)
      | Inr m \<Rightarrow>
          (None, emit (LogInfo (''Active coordinate system set to: '' @ quoted title))
                   (s\<lparr>cs_manager := m,
                      object_browser := set_active_cs_title (object_browser s) title\<rparr>)))"

definition on_visibility_toggle_requested ::
  "(vec3 \<Rightarrow> vec3 \<times> vec3) \<Rightarrow> main_window \<Rightarrow> string \<Rightarrow> py_error option \<times> main_window" where
  "on_visibility_toggle_requested perp s obj_id =
     (if obj_id \<in> dom (actor_buffer s) then
        (None, execute_command perp
                 (ToggleVisibilityCommand (mk_ToggleVisibilityCommand s obj_id)) s)
      else
        (None, emit (LogWarning (''Visibility toggle requested for non-existent object ID: ''
                                 @ quoted obj_id)) s))"

text \<open>The data that the coordinate system dialog sends to \<open>handle_cs_creation\<close>.\<close>

record cs_creation_data =
  csd_title :: string
  csd_origin :: dvec3
  csd_point_on_x :: dvec3
  csd_point_in_xy :: dvec3
  csd_x_dir :: dvec3
  csd_y_dir :: dvec3
  csd_set_active :: bool

text \<open>
  \<open>handle_cs_creation\<close>: its \<open>except\<close> clause handles a ValueError; another exception
  leaves the method. The report of a created system names its title only: numbers are
  not rendered in this model.
\<close>

definition handle_cs_creation ::
  "main_window \<Rightarrow> string \<Rightarrow> cs_creation_data \<Rightarrow> py_error option \<times> main_window" where
  "handle_cs_creation s method data =
     (let cs_title = csd_title data;
          s0 = emit (LogInfo (''Attempting to create CS (Title: '' @ quoted cs_title @ '') via ''
                              @ quoted method @ '' method.'')) s
      in case (if method = ''3_points'' then
                 create_cs_from_3_points (cs_manager s0) cs_title (csd_origin data)
                   (csd_point_on_x data) (csd_point_in_xy data)
               else if method = ''origin_vectors'' then
                 create_cs_from_vectors (cs_manager s0) cs_title (csd_origin data)
                   (csd_x_dir data) (csd_y_dir data)
               else Inl (ValueError (''Unknown creation method: '' @ method))) of
           Inl e \<Rightarrow>
             (case e of
                ValueError msg \<Rightarrow>
                  (None, emit (LogError (''LCS Creation Failed: '' @ msg))
                           (emit (MessageBox ''LCS Creation Error'' msg) s0))
              | _ \<Rightarrow> (Some e, s0))
         | Inr (new_cs, m) \<Rightarrow>
             (let s1 = emit (LogInfo (''Successfully created: '' @ lcs_title new_cs))
                         (s0\<lparr>cs_manager := m\<rparr>);
                  s2 = s1\<lparr>object_browser :=
                          add_object (object_browser s1) cs_title ''LCS'' ''Coordinate Systems''
                            None\<rparr>
              in if csd_set_active data then
                   (case set_active (cs_manager s2) cs_title of
                      Inl e \<Rightarrow>
                        (None, emit (LogError (''LCS Creation Failed: '' @ str_of_error e))
                                 (emit (MessageBox ''LCS Creation Error'' (str_of_error e)) s2))
                    | Inr m2 \<Rightarrow>
                        (let s3 = emit (LogInfo (''System '' @ quoted cs_title
                                          @ '' is now the active coordinate system.''))
                                    (s2\<lparr>cs_manager := m2\<rparr>)
                         in (None, s3\<lparr>object_browser :=
                                        set_active_cs_title (object_browser s3) cs_title\<rparr>)))
                 else (None, s2)))"

text \<open>
  The item under the pointer is given by its path of child positions from the top
  level; an item of the top level has no parent.
\<close>

fun item_at :: "item list \<Rightarrow> nat list \<Rightarrow> item option" where
  "item_at its [] = None"
| "item_at its [i] = (if i < length its then Some (its ! i) else None)"
| "item_at its (i # j # path) =
     (if i < length its then item_at (children (its ! i)) (j # path) else None)"

datatype menu_action = SetActiveAction | RenameAction | DeleteAction | ShowHideAction

text \<open>
  \<open>contextMenuEvent\<close>: the menu is built for the item, some actions are disabled or
  hidden, the user picks one or none, and the signal of the picked action reaches the
  handler connected to it. The menu never returns an action that is disabled, hidden or
  not in the menu.
\<close>

definition contextMenuEvent ::
  "(vec3 \<Rightarrow> vec3 \<times> vec3) \<Rightarrow> main_window \<Rightarrow> nat list \<Rightarrow> menu_action option \<Rightarrow> string \<times> bool \<Rightarrow>
   py_error option \<times> main_window" where
  "contextMenuEvent perp s path choice answer =
     (let b = object_browser s in
      case item_at (top_level b) path of
        None \<Rightarrow> (None, s)
      | Some it \<Rightarrow>
          if length path < 2 then (None, s)
          else
            (case data0 it of
               None \<Rightarrow> (None, s)
             | Some obj_id \<Rightarrow>
                 if obj_id = [] then (None, s)
                 else
                   (let category = get_or (data1 it) [];
                        is_lcs = (category = ''Coordinate Systems'');
                        is_plane = (category = ''Planes'');
                        rename_enabled = \<not> (is_lcs \<and> obj_id = ''Global'');
                        delete_enabled =
                          (\<not> (is_lcs \<and> obj_id = ''Global'')
                           \<and> \<not> (is_lcs \<and> obj_id = ob_active_cs_title b)
                           \<and> \<not> (is_plane \<and> Some obj_id = ob_active_plane_id b));
                        set_active_enabled = (is_lcs \<and> obj_id \<noteq> ob_active_cs_title b);
                        toggle_visible = (\<not> is_lcs)
                    in case choice of
                         None \<Rightarrow> (None, s)
                       | Some DeleteAction \<Rightarrow>
                           if delete_enabled
                           then on_delete_object_requested perp s obj_id category
                           else (None, s)
                       | Some RenameAction \<Rightarrow>
                           if rename_enabled
                           then on_rename_object_requested perp s obj_id category answer
                           else (None, s)
                       | Some ShowHideAction \<Rightarrow>
                           if toggle_visible
                           then on_visibility_toggle_requested perp s obj_id
                           else (None, s)
                       | Some SetActiveAction \<Rightarrow>
                           if set_active_enabled
                           then on_set_active_cs_requested s obj_id
                           else (None, s))))"

text \<open>
  What a user can do to the document: a choice in the context menu of an item, the
  creation of a coordinate system from its dialog, a command handed to
  \<open>execute_command\<close> by one of the creation or import handlers, undo and redo. A run
  handles the events in turn and ends at the first exception that leaves a handler.
\<close>

datatype user_event =
    ContextMenu "nat list" "menu_action option" "string \<times> bool"
  | CreateCs string cs_creation_data
  | Execute command
  | Undo
  | Redo

fun handle_event ::
  "(vec3 \<Rightarrow> vec3 \<times> vec3) \<Rightarrow> main_window \<Rightarrow> user_event \<Rightarrow> py_error option \<times> main_window" where
  "handle_event perp s (ContextMenu path choice answer) = contextMenuEvent perp s path choice answer"
| "handle_event perp s (CreateCs method data) = handle_cs_creation s method data"
| "handle_event perp s (Execute cmd) = (None, execute_command perp cmd s)"
| "handle_event perp s Undo = on_undo perp s"
| "handle_event perp s Redo = on_redo perp s"

fun run_events :: "(vec3 \<Rightarrow> vec3 \<times> vec3) \<Rightarrow> user_event list \<Rightarrow> main_window \<Rightarrow> main_window" where
  "run_events perp [] s = s"
| "run_events perp (ev # evs) s =
     (case handle_event perp s ev of
        (Some e, s1) \<Rightarrow> s1
      | (None, s1) \<Rightarrow> run_events perp evs s1)"

text \<open>
  The fields of \<open>MainWindow.__init__\<close> with the \<open>Global\<close> entry of the browser, before
  the start-up plane is created, over a file system \<open>fs\<close>.
\<close>

definition new_main_window :: "(string \<rightharpoonup> string list) \<Rightarrow> main_window" where
  "new_main_window fs =
     \<lparr>command_stack = [], stack_pointer = - 1, actor_buffer = Map.empty,
      plane_definitions = Map.empty, active_plane_id = None,
      current_plane_origin = (0, 0, 0), current_plane_u_axis = (1, 0, 0),
      current_plane_v_axis = (0, 1, 0), cs_manager = new_manager, renderer = [],
      object_browser =
        add_object new_object_browser ''Global'' ''LCS'' ''Coordinate Systems'' None,
      actors = (\<lambda>r. new_actor [] [] []), next_actor = 0, files = fs, outputs = []\<rparr>"

section \<open>Notions used in the statements\<close>

text \<open>
  A float whose square rounds to zero: a zero, or a finite float of absolute value at
  most \<open>2^-537.5\<close>, about \<open>1.5e-162\<close>. A float that is a square or a sum of squares is
  zero, at least the least positive float, \<open>inf\<close> or \<open>nan\<close>.
\<close>

definition underflows :: "double \<Rightarrow> bool" where
  "underflows a \<longleftrightarrow> a \<noteq> NaN \<and> \<not> is_inf a \<and> fval a * fval a \<le> 2 powr (- 1075)"

definition of_squares :: "double \<Rightarrow> bool" where
  "of_squares a \<longleftrightarrow>
     a = NaN \<or> a = PosInf \<or> a = Fin 0 \<or> (\<exists>r. a = Fin r \<and> 2 powr (- 1074) \<le> r)"

text \<open>
  What no command touches: the history and its cursor, the coordinate system manager and
  the browser's record of the active coordinate system.
\<close>

definition kept :: "main_window \<Rightarrow> main_window \<Rightarrow> bool" where
  "kept s s' \<longleftrightarrow>
     command_stack s' = command_stack s \<and> stack_pointer s' = stack_pointer s
     \<and> cs_manager s' = cs_manager s
     \<and> ob_active_cs_title (object_browser s') = ob_active_cs_title (object_browser s)"

text \<open>The command object as its run under \<open>execute_command\<close> leaves it.\<close>

definition executed :: "(vec3 \<Rightarrow> vec3 \<times> vec3) \<Rightarrow> command \<Rightarrow> main_window \<Rightarrow> command" where
  "executed perp cmd s = fst (snd (execute perp cmd (truncate_history s)))"

text \<open>
  The command that \<open>on_create_point\<close> hands to \<open>execute_command\<close> for the point \<open>(u, v)\<close> of
  a plane, and the data of a solid cuboid given by its dimensions.
\<close>

definition point_command :: "nat \<Rightarrow> real \<Rightarrow> real \<Rightarrow> plane_context \<Rightarrow> command" where
  "point_command self_id u v ctx =
     CreateObjectCommand
       (mk_CreateObjectCommand self_id (create_point u v ctx)
          \<lparr>p_color = Some (1, 0, 0), p_point_size = Some 15, p_line_width = None,
           p_opacity = None, p_representation = None, p_category = Some ''Primitives'',
           p_object_name = None\<rparr>)"

definition cuboid_by_dimensions :: creation_data where
  "cuboid_by_dimensions =
     \<lparr>cd_method = Some ''dimensions'', cd_dimensions = Some (2, 3, 4),
      cd_center = Some (0, 0, 0),
      cd_orientation = Some ((1, 0, 0), (0, 1, 0), (0, 0, 1)),
      cd_p1 = None, cd_p2 = None\<rparr>"

definition cuboid_by_corners :: creation_data where
  "cuboid_by_corners =
     \<lparr>cd_method = Some ''corners'', cd_dimensions = None, cd_center = None,
      cd_orientation = None, cd_p1 = Some (0, 0, 0), cd_p2 = Some (1, 1, 1)\<rparr>"

text \<open>A stand-in for \<open>vtkMath.Perpendiculars\<close> in concrete runs.\<close>

definition fixed_axes :: "vec3 \<Rightarrow> vec3 \<times> vec3" where
  "fixed_axes normal = ((1, 0, 0), (0, 1, 0))"

text \<open>The invariant of the cursor: it points at an entry of the history or is \<open>-1\<close>.\<close>

definition cursor_in_range :: "main_window \<Rightarrow> bool" where
  "cursor_in_range s \<longleftrightarrow>
     - 1 \<le> stack_pointer s \<and> stack_pointer s \<le> int (length (command_stack s)) - 1"

text \<open>
  A session on a new window without files: a point is created (A), its visibility is
  toggled (B), the toggle is undone, and a second point is created (C).
\<close>

definition cmd_A :: command where
  "cmd_A = point_command 1 0 0 xy_plane_context"

definition run_A :: main_window where
  "run_A = execute_command fixed_axes cmd_A (new_main_window Map.empty)"

definition cmd_B :: command where
  "cmd_B = ToggleVisibilityCommand (mk_ToggleVisibilityCommand run_A ''Primitive_1'')"

definition run_AB :: main_window where
  "run_AB = execute_command fixed_axes cmd_B run_A"

definition run_ABu :: main_window where
  "run_ABu = snd (on_undo fixed_axes run_AB)"

definition cmd_C :: command where
  "cmd_C = point_command 2 1 1 xy_plane_context"

definition run_ABuC :: main_window where
  "run_ABuC = execute_command fixed_axes cmd_C run_ABu"

text \<open>
  The two commands that \<open>on_plane_data_received\<close> builds for a new plane named \<open>Plane_1\<close>,
  both before either of them runs, with a square as the geometry of the plane; and the
  import of a file that does not exist.
\<close>

definition plane_geometry :: geom_data where
  "plane_geometry =
     (mk_geom [(- 10, - 10, 0), (10, - 10, 0), (- 10, 10, 0), (10, 10, 0)] [[0, 1, 3, 2]] ''polys'')
       \<lparr>gd_definition := Some \<lparr>pd_origin = (0, 0, 0), pd_normal = (0, 0, 1)\<rparr>\<rparr>"

definition create_plane_cmd :: command where
  "create_plane_cmd =
     CreateObjectCommand
       (mk_CreateObjectCommand 1 plane_geometry
          \<lparr>p_color = Some (8 / 10, 8 / 10, 1), p_point_size = None, p_line_width = None,
           p_opacity = Some (2 / 10), p_representation = Some ''wireframe'',
           p_category = Some ''Planes'', p_object_name = Some ''Plane_1''\<rparr>)"

definition set_active_cmd :: command where
  "set_active_cmd =
     SetActivePlaneCommand (mk_SetActivePlaneCommand (new_main_window Map.empty) (Some ''Plane_1''))"

definition run_plane :: main_window where
  "run_plane = execute_command fixed_axes create_plane_cmd (new_main_window Map.empty)"

definition import_missing_cmd :: command where
  "import_missing_cmd =
     ImportDxfCommand (mk_ImportDxfCommand 3 ''missing.dxf'' (0, 0, 0) xy_plane_context)"

definition cuboid_cmd :: command where
  "cuboid_cmd = CreateCuboidCommand (mk_CreateCuboidCommand 4 cuboid_by_dimensions)"

text \<open>
  The run of a \<open>SetActivePlaneCommand\<close>, however it was built, on a target that is
  registered and has no plane definition: the two highlight steps and nothing else.
\<close>

definition highlight :: "set_active_plane_command \<Rightarrow> main_window \<Rightarrow> main_window" where
  "highlight c s =
     (let s1 = (case registered_actor s (sap_old_active_id c) of
                  None \<Rightarrow> s
                | Some b \<Rightarrow>
                    update_actor b (\<lambda>x. x\<lparr>a_color := (8 / 10, 8 / 10, 1), a_opacity := 2 / 10\<rparr>) s)
      in case registered_actor s1 (sap_new_active_id c) of
           None \<Rightarrow> s1
         | Some a \<Rightarrow> update_actor a (\<lambda>x. x\<lparr>a_color := (0, 1, 1), a_opacity := 4 / 10\<rparr>) s1)"

section \<open>Verified properties\<close>

subsection \<open>Vector normalisation\<close>

lemma round_half_even_zero_iff:
  assumes "0 \<le> r"
  shows "round_half_even r = 0 \<longleftrightarrow> r \<le> 1 / 2"
proof (cases "r < 1")
  case True
  then have f: "\<lfloor>r\<rfloor> = 0" using assms by (simp add: floor_eq_iff)
  show ?thesis by (simp add: round_half_even_def Let_def f)
next
  case False
  then have "1 \<le> \<lfloor>r\<rfloor>" by (simp add: le_floor_iff)
  then have "1 \<le> round_half_even r" by (simp add: round_half_even_def Let_def)
  then show ?thesis using False by simp
qed

lemma round_half_even_nonneg:
  assumes "0 \<le> r"
  shows "0 \<le> round_half_even r"
proof -
  have "0 \<le> \<lfloor>r\<rfloor>" using assms by simp
  then show ?thesis by (simp add: round_half_even_def Let_def)
qed

lemma quantum_pos: "0 < quantum m"
  by (simp add: quantum_def)

lemma quantum_ge: "2 powr (- 1074) \<le> quantum m"
  unfolding quantum_def by (rule powr_mono) simp_all

lemma quantum_normal:
  assumes "0 < m" "- 1022 \<le> expo m"
  shows "quantum m * 2 powr 52 \<le> m"
proof -
  have "2 powr (real_of_int (expo m) - 52) * 2 powr 52 =
      2 powr (real_of_int (expo m) - 52 + 52)"
    by (simp only: powr_add)
  then have "quantum m * 2 powr 52 = 2 powr real_of_int (expo m)"
    using assms(2) by (simp add: quantum_def max_def)
  also have "\<dots> \<le> 2 powr (log 2 m)"
    unfolding expo_def by (rule powr_mono) simp_all
  also have "\<dots> = m" using assms(1) by simp
  finally show ?thesis .
qed

lemma quantum_subnormal:
  assumes "expo m < - 1022"
  shows "quantum m = 2 powr (- 1074)"
  using assms by (simp add: quantum_def max_def)

lemma expo_small:
  assumes "0 < m" "m \<le> 2 powr (- 1075)"
  shows "expo m < - 1022"
proof -
  have "log 2 m \<le> - 1075" using assms by (subst log_le_iff) simp_all
  then have "\<lfloor>log 2 m\<rfloor> \<le> - 1075" by (simp add: floor_le_iff)
  then show ?thesis by (simp add: expo_def)
qed

text \<open>A magnitude rounds to zero exactly when it is at most half the least float.\<close>

lemma rnd_mag_zero_iff:
  assumes "0 \<le> m"
  shows "rnd_mag m = 0 \<longleftrightarrow> m \<le> 2 powr (- 1075)"
proof (cases "m = 0")
  case True
  then show ?thesis by (simp add: rnd_mag_def)
next
  case False
  then have pos: "0 < m" using assms by simp
  have q: "0 < quantum m" by (rule quantum_pos)
  have nn: "0 \<le> m / quantum m" using pos q by simp
  have z: "rnd_mag m = 0 \<longleftrightarrow> m / quantum m \<le> 1 / 2"
    using False q round_half_even_zero_iff [OF nn] by (simp add: rnd_mag_def)
  show ?thesis
  proof (cases "expo m < - 1022")
    case True
    have "(2::real) powr (- 1075) * 2 powr 1 = 2 powr (- 1075 + 1)"
      by (simp only: powr_add)
    then have h: "2 powr (- 1075) = 2 powr (- 1074) / (2::real)" by simp
    show ?thesis unfolding z quantum_subnormal [OF True] h
      by (simp add: field_simps)
  next
    case False
    then have e: "- 1022 \<le> expo m" by simp
    have big: "2 powr 52 \<le> m / quantum m"
      using quantum_normal [OF pos e] q by (simp add: field_simps)
    have "(1::real) < 2 powr 52" by simp
    then have l: "\<not> m / quantum m \<le> 1 / 2" using big by linarith
    have r: "\<not> m \<le> 2 powr (- 1075)" using expo_small [OF pos] False by blast
    show ?thesis unfolding z using l r by simp
  qed
qed

lemma rnd_mag_nonneg:
  assumes "0 \<le> m"
  shows "0 \<le> rnd_mag m"
proof -
  have "0 \<le> m / quantum m" using assms quantum_pos [of m] by simp
  then have "0 \<le> round_half_even (m / quantum m)" by (rule round_half_even_nonneg)
  then show ?thesis using quantum_pos [of m] by (simp add: rnd_mag_def)
qed

text \<open>A magnitude that does not round to zero rounds to the least float at least.\<close>

lemma rnd_mag_least:
  assumes "0 \<le> m" "rnd_mag m \<noteq> 0"
  shows "2 powr (- 1074) \<le> rnd_mag m"
proof -
  have m: "m \<noteq> 0" using assms(2) by (auto simp add: rnd_mag_def)
  have "0 \<le> m / quantum m" using assms quantum_pos [of m] by simp
  then have "0 \<le> round_half_even (m / quantum m)" by (rule round_half_even_nonneg)
  moreover have "round_half_even (m / quantum m) \<noteq> 0"
    using assms(2) m by (auto simp add: rnd_mag_def)
  ultimately have "1 \<le> round_half_even (m / quantum m)" by linarith
  then have "(1::real) \<le> real_of_int (round_half_even (m / quantum m))" by simp
  then have "1 * quantum m \<le> real_of_int (round_half_even (m / quantum m)) * quantum m"
    using quantum_pos [of m] by (intro mult_right_mono) simp_all
  then show ?thesis using quantum_ge [of m] m by (simp add: rnd_mag_def)
qed

lemma round_to_cases:
  assumes "0 \<le> r"
  shows "(r \<le> 2 powr (- 1075) \<and> round_to False r = Fin 0)
    \<or> (2 powr (- 1075) < r \<and>
        (round_to False r = PosInf \<or> (\<exists>m. round_to False r = Fin m \<and> 2 powr (- 1074) \<le> m)))"
proof (cases "r \<le> 2 powr (- 1075)")
  case True
  then have z: "rnd_mag r = 0" using rnd_mag_zero_iff [OF assms] by simp
  show ?thesis using True assms by (simp add: round_to_def z signed_zero_def)
next
  case False
  then have nz: "rnd_mag r \<noteq> 0" using rnd_mag_zero_iff [OF assms] by simp
  note l = rnd_mag_least [OF assms nz]
  show ?thesis using False assms nz l
    by (simp add: round_to_def Let_def infinity_def)
qed

lemma least_pos: "(0::real) < 2 powr (- 1074)" "(2::real) powr (- 1075) < 2 powr (- 1074)"
  by simp_all

lemma ge_least:
  assumes "2 powr (- 1074) \<le> (r::real)"
  shows "0 < r" "0 \<le> r" "r \<noteq> 0" "\<not> r < 0" "2 powr (- 1075) < r"
proof -
  show "0 < r" by (rule less_le_trans [OF least_pos(1) assms])
  then show "0 \<le> r" "r \<noteq> 0" "\<not> r < 0" by simp_all
  show "2 powr (- 1075) < r" by (rule less_le_trans [OF least_pos(2) assms])
qed

lemma of_squares_not_eq0:
  assumes "of_squares a" "\<not> eq0 a"
  shows "a = NaN \<or> a = PosInf \<or> (\<exists>r. a = Fin r \<and> 2 powr (- 1074) \<le> r)"
  using assms by (auto simp add: of_squares_def eq0_def)

lemma fmul_self:
  "of_squares (fmul a a)" "eq0 (fmul a a) \<longleftrightarrow> underflows a"
proof -
  have "of_squares (fmul a a) \<and> (eq0 (fmul a a) \<longleftrightarrow> underflows a)"
  proof (cases a)
    case (Fin r)
    have nn: "0 \<le> r * r" by simp
    show ?thesis using round_to_cases [OF nn]
      by (auto simp add: Fin fmul_def is_inf_def fval_def underflows_def of_squares_def eq0_def
          dest: ge_least(3))
  next
    case NegZero
    have nn: "(0::real) \<le> 0" by simp
    show ?thesis using round_to_cases [OF nn]
      by (auto simp add: NegZero fmul_def is_inf_def fval_def underflows_def of_squares_def
          eq0_def is_neg_def)
  qed (simp_all add: fmul_def is_inf_def underflows_def of_squares_def eq0_def is_neg_def
       infinity_def)
  then show "of_squares (fmul a a)" "eq0 (fmul a a) \<longleftrightarrow> underflows a" by simp_all
qed

lemma fadd_of_squares:
  assumes "of_squares a" "of_squares b"
  shows "of_squares (fadd a b)" "eq0 (fadd a b) \<longleftrightarrow> eq0 a \<and> eq0 b"
proof -
  have "of_squares (fadd a b) \<and> (eq0 (fadd a b) \<longleftrightarrow> eq0 a \<and> eq0 b)"
  proof (cases "a = NaN \<or> b = NaN \<or> a = PosInf \<or> b = PosInf")
    case True
    then show ?thesis using assms
      by (auto simp add: fadd_def is_inf_def of_squares_def eq0_def)
  next
    case False
    then obtain r1 r2 where a: "a = Fin r1" and b: "b = Fin r2"
      and r1: "r1 = 0 \<or> 2 powr (- 1074) \<le> r1" and r2: "r2 = 0 \<or> 2 powr (- 1074) \<le> r2"
      using assms by (auto simp add: of_squares_def)
    have p1: "0 \<le> r1" and p2: "0 \<le> r2" using r1 r2 ge_least(2) by auto
    have nn: "0 \<le> r1 + r2" using p1 p2 by simp
    show ?thesis
    proof (cases "r1 + r2 = 0")
      case True
      then have "r1 = 0 \<and> r2 = 0" using p1 p2 by linarith
      then show ?thesis
        by (simp add: a b fadd_def is_inf_def fval_def is_neg_def signed_zero_def of_squares_def
            eq0_def)
    next
      case False
      have "2 powr (- 1075) < r1 \<or> 2 powr (- 1075) < r2"
        using r1 r2 False ge_least(5) by auto
      then have big: "2 powr (- 1075) < r1 + r2" using p1 p2 by linarith
      have n: "\<not> r1 + r2 < 0" using nn by simp
      have ne: "\<not> r1 + r2 \<le> 2 powr (- 1075)" using big by simp
      show ?thesis using round_to_cases [OF nn] ne False n
        by (auto simp add: a b fadd_def is_inf_def fval_def of_squares_def eq0_def
            dest: ge_least(3))
    qed
  qed
  then show "of_squares (fadd a b)" "eq0 (fadd a b) \<longleftrightarrow> eq0 a \<and> eq0 b" by simp_all
qed

lemma sqrt_least: "2 powr (- 1075) < sqrt (2 powr (- 1074))"
proof -
  have "sqrt (2 powr (- 1074)) = (2 powr (- 1074)) powr (1 / 2)"
    by (simp add: powr_half_sqrt)
  also have "\<dots> = 2 powr (- 537)" by (simp add: powr_powr)
  finally show ?thesis by simp
qed

lemma fsqrt_of_squares:
  assumes "of_squares a"
  shows "\<exists>m. fsqrt a = Inr m \<and> (eq0 m \<longleftrightarrow> eq0 a)"
proof (cases "eq0 a")
  case True
  then have "a = Fin 0" using assms by (auto simp add: of_squares_def eq0_def)
  then show ?thesis using round_to_cases [of 0]
    by (auto simp add: fsqrt_def eq0_def)
next
  case False
  from of_squares_not_eq0 [OF assms False] show ?thesis
  proof (elim disjE exE conjE)
    fix r assume a: "a = Fin r" and r: "2 powr (- 1074) \<le> r"
    have nn: "0 \<le> sqrt r" using ge_least(2) [OF r] by simp
    have "sqrt (2 powr (- 1074)) \<le> sqrt r" using r by simp
    then have big: "2 powr (- 1075) < sqrt r" using sqrt_least by linarith
    have n: "\<not> r < 0" by (rule ge_least(4) [OF r])
    have ne: "\<not> sqrt r \<le> 2 powr (- 1075)" using big by simp
    show ?thesis using round_to_cases [OF nn] ne n ge_least(3) [OF r]
      by (auto simp add: a fsqrt_def eq0_def dest: ge_least(3))
  qed (simp_all add: fsqrt_def eq0_def)
qed

lemma magnitude_total:
  "\<exists>m. magnitude (x, y, z) = Inr m
       \<and> (eq0 m \<longleftrightarrow> underflows x \<and> underflows y \<and> underflows z)"
proof -
  let ?s = "fadd (fadd (fmul x x) (fmul y y)) (fmul z z)"
  have s1: "of_squares (fadd (fmul x x) (fmul y y))"
    and e1: "eq0 (fadd (fmul x x) (fmul y y)) \<longleftrightarrow> underflows x \<and> underflows y"
    using fadd_of_squares [OF fmul_self(1) fmul_self(1), of x y] by (simp_all add: fmul_self(2))
  have s2: "of_squares ?s" and e2: "eq0 ?s \<longleftrightarrow> underflows x \<and> underflows y \<and> underflows z"
    using fadd_of_squares [OF s1 fmul_self(1), of z] by (simp_all add: e1 fmul_self(2))
  from fsqrt_of_squares [OF s2] obtain m where "fsqrt ?s = Inr m" "eq0 m \<longleftrightarrow> eq0 ?s" by blast
  then show ?thesis by (simp add: magnitude_def dot_product_def e2)
qed

lemma normalize_vec_by_magnitude:
  assumes "magnitude (x, y, z) = Inr m"
  shows "normalize_vec (x, y, z) =
     (if eq0 m then Inl (ValueError ''Cannot normalize a zero-magnitude vector.'')
      else Inr (quot x m, quot y m, quot z m))"
  using assms by (simp add: normalize_vec_def fdiv_def)

text \<open>Powers of two from \<open>2^-1074\<close> on are their own rounding.\<close>

lemma round_half_even_of_int: "round_half_even (real_of_int n) = n"
  by (simp add: round_half_even_def)

lemma rnd_mag_pow2:
  assumes "- 1074 \<le> i"
  shows "rnd_mag (2 powr real_of_int i) = 2 powr real_of_int i"
proof -
  define k where "k = i - (max i (- 1022) - 52)"
  have k: "0 \<le> k" using assms by (simp add: k_def max_def)
  have e: "expo (2 powr real_of_int i) = i" by (simp add: expo_def)
  have q: "quantum (2 powr real_of_int i) = 2 powr real_of_int (max i (- 1022) - 52)"
    by (simp only: quantum_def e)
  have "2 powr real_of_int i / 2 powr real_of_int (max i (- 1022) - 52) =
      2 powr (real_of_int i - real_of_int (max i (- 1022) - 52))"
    by (simp only: powr_diff)
  also have "\<dots> = 2 powr real_of_int k" by (simp add: k_def)
  also have "\<dots> = 2 powr real (nat k)" using k by simp
  also have "\<dots> = 2 ^ nat k" by (simp only: powr_realpow zero_less_numeral)
  also have "\<dots> = real_of_int (2 ^ nat k)" by simp
  finally have d: "2 powr real_of_int i / 2 powr real_of_int (max i (- 1022) - 52) =
      real_of_int (2 ^ nat k)" .
  have "real_of_int (2 ^ nat k) = 2 powr real_of_int k"
    using k by (simp add: powr_realpow [symmetric])
  then have "real_of_int (2 ^ nat k) * 2 powr real_of_int (max i (- 1022) - 52) =
      2 powr (real_of_int k + real_of_int (max i (- 1022) - 52))"
    by (simp only: powr_add)
  also have "\<dots> = 2 powr real_of_int i" by (simp add: k_def)
  finally have p: "real_of_int (2 ^ nat k) * 2 powr real_of_int (max i (- 1022) - 52) =
      2 powr real_of_int i" .
  have "rnd_mag (2 powr real_of_int i) =
      real_of_int (round_half_even (2 powr real_of_int i / quantum (2 powr real_of_int i)))
        * quantum (2 powr real_of_int i)"
    by (simp add: rnd_mag_def)
  also have "\<dots> = real_of_int (2 ^ nat k) * 2 powr real_of_int (max i (- 1022) - 52)"
    by (simp only: q d round_half_even_of_int)
  finally show ?thesis using p by simp
qed

lemma round_to_pow2:
  assumes "- 1074 \<le> i" "i \<le> 1023"
  shows "round_to False (2 powr real_of_int i) = Fin (2 powr real_of_int i)"
proof -
  have a: "\<bar>2 powr real_of_int i\<bar> = 2 powr real_of_int i" by simp
  have l: "\<not> (2::real) powr 1024 \<le> 2 powr real_of_int i"
    using assms(2) by (simp only: powr_le_cancel_iff)
  have n: "(2::real) powr real_of_int i \<noteq> 0" by simp
  show ?thesis unfolding round_to_def a rnd_mag_pow2 [OF assms(1)] Let_def using l n by simp
qed

lemma round_to_pow2_overflow:
  assumes "1024 \<le> i"
  shows "round_to False (2 powr real_of_int i) = PosInf"
proof -
  have a: "\<bar>2 powr real_of_int i\<bar> = 2 powr real_of_int i" by simp
  have i: "- 1074 \<le> i" using assms by simp
  have l: "(2::real) powr 1024 \<le> 2 powr real_of_int i"
    using assms by (simp only: powr_le_cancel_iff)
  show ?thesis unfolding round_to_def a rnd_mag_pow2 [OF i] Let_def using l
    by (simp add: infinity_def)
qed

lemma round_to_zero: "round_to neg 0 = signed_zero neg"
  by (simp add: round_to_def rnd_mag_def)

lemma round_to_small:
  assumes "i \<le> - 1075"
  shows "round_to False (2 powr real_of_int i) = Fin 0"
proof -
  have "(2::real) powr real_of_int i \<le> 2 powr (- 1075)"
    using assms by (simp only: powr_le_cancel_iff)
  then show ?thesis using round_to_cases [of "2 powr real_of_int i"] by auto
qed

text \<open>The floats of two runs: \<open>(2^-30, 0, 0)\<close> and \<open>(2^600, 0, 0)\<close>.\<close>

lemma float_steps:
  "round_to False (1 / 2 ^ 60) = Fin (1 / 2 ^ 60)"
  "round_to False (1 / 2 ^ 30) = Fin (1 / 2 ^ 30)"
  "round_to False 1 = Fin 1"
  "round_to False 2 = Fin 2"
  "round_to False 4 = Fin 4"
  "round_to False (2 ^ 1200) = PosInf"
  using round_to_pow2 [of "- 60"] round_to_pow2 [of "- 30"] round_to_pow2 [of 0]
    round_to_pow2 [of 1] round_to_pow2 [of 2] round_to_pow2_overflow [of 1200]
  by (simp_all add: powr_minus_divide)

lemma sqrt_steps: "sqrt (1 / 2 ^ 60) = 1 / 2 ^ 30" "sqrt 4 = 2"
proof -
  have "((1::real) / 2 ^ 30)\<^sup>2 = 1 / 2 ^ 60" by (simp add: power2_eq_square)
  then show "sqrt (1 / 2 ^ 60) = 1 / 2 ^ 30" by (intro real_sqrt_unique) simp_all
  have "(2::real)\<^sup>2 = 4" by simp
  then show "sqrt 4 = 2" by (intro real_sqrt_unique) simp_all
qed

lemma fsqrt_steps:
  "fsqrt (Fin (1 / 2 ^ 60)) = Inr (Fin (1 / 2 ^ 30))" "fsqrt (Fin 4) = Inr (Fin 2)"
  "fsqrt PosInf = Inr PosInf"
proof -
  have "fsqrt (Fin (1 / 2 ^ 60)) = Inr (round_to False (sqrt (1 / 2 ^ 60)))"
    by (simp add: fsqrt_def)
  then show "fsqrt (Fin (1 / 2 ^ 60)) = Inr (Fin (1 / 2 ^ 30))"
    by (simp only: sqrt_steps float_steps)
  have "fsqrt (Fin 4) = Inr (round_to False (sqrt 4))" by (simp add: fsqrt_def)
  then show "fsqrt (Fin 4) = Inr (Fin 2)" by (simp only: sqrt_steps float_steps)
  show "fsqrt PosInf = Inr PosInf" by (simp add: fsqrt_def)
qed

lemma magnitude_tiny: "magnitude (Fin (1 / 2 ^ 30), Fin 0, Fin 0) = Inr (Fin (1 / 2 ^ 30))"
  using float_steps fsqrt_steps
  by (simp add: magnitude_def dot_product_def fmul_def fadd_def is_inf_def is_neg_def
      fval_def round_to_zero signed_zero_def)

lemma magnitude_huge: "magnitude (Fin (2 ^ 600), Fin 0, Fin 0) = Inr PosInf"
  using float_steps fsqrt_steps
  by (simp add: magnitude_def dot_product_def fmul_def fadd_def is_inf_def is_neg_def
      fval_def round_to_zero signed_zero_def)

lemma magnitude_two: "magnitude (Fin 0, Fin 0, Fin 2) = Inr (Fin 2)"
  using float_steps fsqrt_steps
  by (simp add: magnitude_def dot_product_def fmul_def fadd_def is_inf_def is_neg_def
      fval_def round_to_zero signed_zero_def)

text \<open>
  C4, as stated: \<open>normalize\<close> fails exactly when the magnitude is below \<open>1e-6\<close>, and returns
  a vector of unit length otherwise. The code compares the computed magnitude with zero
  only: the vector \<open>(2^-30, 0, 0)\<close>, of magnitude about \<open>9.3e-10\<close>, is normalised to
  \<open>(1, 0, 0)\<close>; and for \<open>(2^600, 0, 0)\<close> the square overflows, the computed magnitude is
  \<open>inf\<close>, and the result is the zero vector.
\<close>

theorem normalize_threshold_counterexample:
  "magnitude (Fin (1 / 2 ^ 30), Fin 0, Fin 0) = Inr (Fin (1 / 2 ^ 30))
   \<and> (0::real) < 1 / 2 ^ 30 \<and> (1::real) / 2 ^ 30 < 1 / 10 ^ 6
   \<and> normalize_vec (Fin (1 / 2 ^ 30), Fin 0, Fin 0) = Inr (Fin 1, Fin 0, Fin 0)
   \<and> magnitude (Fin (2 ^ 600), Fin 0, Fin 0) = Inr PosInf
   \<and> normalize_vec (Fin (2 ^ 600), Fin 0, Fin 0) = Inr (Fin 0, Fin 0, Fin 0)"
proof -
  have a: "normalize_vec (Fin (1 / 2 ^ 30), Fin 0, Fin 0) = Inr (Fin 1, Fin 0, Fin 0)"
    unfolding normalize_vec_by_magnitude [OF magnitude_tiny]
    using float_steps
    by (simp add: eq0_def quot_def is_inf_def is_neg_def fval_def round_to_zero signed_zero_def)
  have b: "normalize_vec (Fin (2 ^ 600), Fin 0, Fin 0) = Inr (Fin 0, Fin 0, Fin 0)"
    unfolding normalize_vec_by_magnitude [OF magnitude_huge]
    by (simp add: eq0_def quot_def is_inf_def is_neg_def signed_zero_def)
  show ?thesis using a b magnitude_tiny magnitude_huge by simp
qed

text \<open>
  C4, amended: for every vector of floats, \<open>normalize\<close> fails, with the ValueError of a
  zero magnitude, exactly when the computed magnitude \<open>sqrt(v . v)\<close> is zero, and that is
  exactly when the square of every component rounds to zero (every component is a zero
  or a finite float with \<open>x * x \<le> 2^-1075\<close>, that is of absolute value below about
  \<open>1.5e-162\<close>). The computation of the magnitude itself raises nothing. For every other
  vector, those of magnitude between zero and \<open>1e-6\<close> included, the result is the vector
  of the rounded quotients of the components by the computed magnitude.
\<close>

theorem normalize_fails_iff_squares_underflow:
  "(normalize_vec (x, y, z) = Inl (ValueError ''Cannot normalize a zero-magnitude vector.'')
      \<longleftrightarrow> underflows x \<and> underflows y \<and> underflows z)
   \<and> (\<exists>m. magnitude (x, y, z) = Inr m
          \<and> (eq0 m \<longleftrightarrow> underflows x \<and> underflows y \<and> underflows z)
          \<and> normalize_vec (x, y, z) =
              (if eq0 m then Inl (ValueError ''Cannot normalize a zero-magnitude vector.'')
               else Inr (quot x m, quot y m, quot z m)))"
proof -
  from magnitude_total [of x y z] obtain m where m: "magnitude (x, y, z) = Inr m"
    and e: "eq0 m \<longleftrightarrow> underflows x \<and> underflows y \<and> underflows z" by blast
  note n = normalize_vec_by_magnitude [OF m]
  have "normalize_vec (x, y, z) = Inl (ValueError ''Cannot normalize a zero-magnitude vector.'')
      \<longleftrightarrow> eq0 m"
    unfolding n by simp
  then show ?thesis using m e n by auto
qed

theorem normalize_fails_iff_squares_underflow_witness:
  "underflows (Fin 0) \<and> underflows (Fin (1 / 2 ^ 600)) \<and> \<not> underflows (Fin 2)
   \<and> normalize_vec (Fin (1 / 2 ^ 600), Fin 0, Fin 0) =
       Inl (ValueError ''Cannot normalize a zero-magnitude vector.'')
   \<and> magnitude (Fin 0, Fin 0, Fin 2) = Inr (Fin 2)
   \<and> normalize_vec (Fin 0, Fin 0, Fin 2) = Inr (Fin 0, Fin 0, Fin 1)"
proof -
  have u: "underflows (Fin 0)" "underflows (Fin (1 / 2 ^ 600))" "\<not> underflows (Fin 2)"
    by (simp_all add: underflows_def is_inf_def fval_def powr_minus_divide)
  have q: "quot (Fin 0) (Fin 2) = Fin 0" "quot (Fin 2) (Fin 2) = Fin 1"
    using float_steps
    by (simp_all add: quot_def is_inf_def is_neg_def fval_def round_to_zero signed_zero_def)
  show ?thesis
    using normalize_fails_iff_squares_underflow [of "Fin (1 / 2 ^ 600)" "Fin 0" "Fin 0"]
      normalize_fails_iff_squares_underflow [of "Fin 0" "Fin 0" "Fin 2"]
      u q magnitude_two
    by (auto simp add: eq0_def)
qed

subsection \<open>Indices of generated meshes\<close>

lemma create_circle_indices:
  assumes "1 \<le> segments"
  shows "\<exists>g. create_circle cu cv r ctx segments = Inr g \<and> indices_in_range g"
  using assms
  by (simp add: create_circle_def indices_in_range_def mk_geom_def list_all_iff py_range_def)

text \<open>
  C9: in the mesh of every primitive generator (point, line, triangle, circle with at
  least one segment, cuboid wireframe, solid cube, the three meshes of the origin marker)
  each index of each cell is below the number of points.
\<close>

theorem mesh_indices_in_range:
  "indices_in_range (create_point u v ctx)
   \<and> indices_in_range (create_line u1 v1 u2 v2 ctx)
   \<and> indices_in_range (create_triangle u1 v1 u2 v2 u3 v3 ctx)
   \<and> (1 \<le> segments \<longrightarrow>
        (\<exists>g. create_circle cu cv r ctx segments = Inr g \<and> indices_in_range g))
   \<and> indices_in_range (create_cuboid sz ctx)
   \<and> indices_in_range (create_cube_data side ctx)
   \<and> list_all indices_in_range (create_origin_marker sz)"
  by (simp add: create_circle_indices)
     (simp add: indices_in_range_def mk_geom_def create_point_def create_line_def
        create_triangle_def create_cuboid_def create_cube_data_def create_origin_marker_def
        Let_def)

theorem mesh_indices_in_range_witness:
  "(1::int) \<le> 4
   \<and> (\<exists>g. create_circle 0 0 1 xy_plane_context 4 = Inr g \<and> indices_in_range g)"
  using mesh_indices_in_range [of 0 0 xy_plane_context 0 0 0 0 0 0 4 0 0 1 0 0] by simp

subsection \<open>The DXF reader on a LINE entity\<close>

lemmas conversion_defs = py_float_def read_sign_def read_mantissa_def digitpart_def is_digit_def
  digit_val_def read_exponent_def nat_of_digits_def pow10_def py_int_def

lemma py_float_literals:
  "py_float ''0'' = Some 0" "py_float ''1'' = Some 1" "py_float ''5'' = Some 5"
  "py_float ''0.0'' = Some 0" "py_float ''1.0'' = Some 1" "py_float ''2.0'' = Some 2"
  "py_float ''3.0'' = Some 3" "py_float ''4.0'' = Some 4"
  by (simp_all add: conversion_defs)

lemma py_int_literals: "py_int ''1'' = Some 1" "py_int ''2'' = Some 2"
  by (simp_all add: conversion_defs)

lemma py_numbers_fields:
  "int_of py_numbers = py_int" "float_of py_numbers = py_float"
  "zero_f py_numbers = 0" "one_f py_numbers = 1" "f_360 py_numbers = 360"
  by (simp_all add: py_numbers_def)

lemma process_tag_LINE:
  "process_tag fl ''LINE'' (0, v) st = st"
  "process_tag fl ''LINE'' (8, v) (d, tc, pts) = (d\<lparr>ed_layer := Some v\<rparr>, tc, pts)"
  "process_tag fl ''LINE'' (10, v) st = set_coord fl ''x1'' v st"
  "process_tag fl ''LINE'' (20, v) st = set_coord fl ''y1'' v st"
  "process_tag fl ''LINE'' (30, v) st = set_coord fl ''z1'' v st"
  "process_tag fl ''LINE'' (11, v) st = set_coord fl ''x2'' v st"
  "process_tag fl ''LINE'' (21, v) st = set_coord fl ''y2'' v st"
  "process_tag fl ''LINE'' (31, v) st = set_coord fl ''z2'' v st"
  by (cases st; simp add: process_tag_def)+

lemma foldl_line_entity_tags:
  "foldl (\<lambda>s t. process_tag py_numbers ''LINE'' t s) (new_entity_dict ''LINE'', Map.empty, [])
     line_entity_tags =
   ((new_entity_dict ''LINE'')\<lparr>ed_layer := Some ''0''\<rparr>,
    [''x1'' \<mapsto> 1, ''y1'' \<mapsto> 2, ''z1'' \<mapsto> 0, ''x2'' \<mapsto> 3, ''y2'' \<mapsto> 4, ''z2'' \<mapsto> 0], [])"
  by (simp add: line_entity_tags_def process_tag_LINE set_coord_def py_float_literals
      py_numbers_fields)

lemma process_entity_tags_LINE:
  assumes "upper (snd first) = ''LINE''"
  shows "process_entity_tags fl (first # rest) geom =
     add_line fl (finalize_entity_geometry fl (foldl (\<lambda>s t. process_tag fl ''LINE'' t s)
        (new_entity_dict ''LINE'', Map.empty, []) (first # rest))) geom"
  using assms by (simp add: process_entity_tags_def Let_def del: foldl_Cons)

lemma process_line_entity_tags:
  "process_entity_tags py_numbers line_entity_tags geom =
     geom @ [Line ''0'' 256 (1, 2, 0) (3, 4, 0)]"
proof -
  have u: "upper (snd (0::int, ''LINE'')) = ''LINE''" by (simp add: upper_def upper_char_def)
  have "process_entity_tags py_numbers line_entity_tags geom =
      add_line py_numbers (finalize_entity_geometry py_numbers
        (foldl (\<lambda>s t. process_tag py_numbers ''LINE'' t s)
           (new_entity_dict ''LINE'', Map.empty, []) line_entity_tags)) geom"
    unfolding line_entity_tags_def by (rule process_entity_tags_LINE [OF u])
  also have "\<dots> = geom @ [Line ''0'' 256 (1, 2, 0) (3, 4, 0)]"
    unfolding foldl_line_entity_tags
    by (simp add: finalize_entity_geometry_def new_entity_dict_def add_line_def get_or_def
        shape_layer_def shape_color_def py_numbers_fields)
  finally show ?thesis .
qed

lemma parse_tags_line_section:
  assumes "\<forall>t \<in> set pre. \<not> (fst t = 2 \<and> snd t = ''ENTITIES'')"
  shows "parse_tags py_numbers (pre @ (2, ''ENTITIES'') # line_entity_tags @ (0, ''ENDSEC'') # post) =
           [Line ''0'' 256 (1, 2, 0) (3, 4, 0)]"
proof -
  have d: "dropWhile (\<lambda>t. \<not> (fst t = 2 \<and> snd t = ''ENTITIES''))
             (pre @ (2, ''ENTITIES'') # line_entity_tags @ (0, ''ENDSEC'') # post) =
           (2, ''ENTITIES'') # line_entity_tags @ (0, ''ENDSEC'') # post"
    using assms by (simp add: dropWhile_append2)
  have p: "process_entities py_numbers (line_entity_tags @ (0, ''ENDSEC'') # post) [] [] =
           process_entity_tags py_numbers line_entity_tags []"
    by (simp add: line_entity_tags_def)
  show ?thesis unfolding parse_tags_def d by (simp add: p process_line_entity_tags)
qed

lemma tag_generator_line_entity_file:
  "tag_generator py_numbers line_entity_file =
     [(0, ''SECTION'')] @ (2, ''ENTITIES'') # line_entity_tags @ (0, ''ENDSEC'') # [(0, ''EOF'')]"
  by (simp add: line_entity_file_def line_entity_tags_def strip_def py_isspace_def
      conversion_defs py_numbers_fields)

text \<open>
  C6: a tag stream whose ENTITIES section holds the tags
  \<open>0/LINE, 8/0, 10/1.0, 20/2.0, 30/0.0, 11/3.0, 21/4.0, 31/0.0\<close> and then \<open>0/ENDSEC\<close>
  parses to a container of exactly one shape, the line from \<open>(1, 2, 0)\<close> to \<open>(3, 4, 0)\<close>,
  whatever precedes the section and follows it; so does the file that spells these tags
  out line by line.
\<close>

theorem parse_line_entity:
  "((\<forall>t \<in> set pre. \<not> (fst t = 2 \<and> snd t = ''ENTITIES'')) \<longrightarrow>
      parse_tags py_numbers
          (pre @ (2, ''ENTITIES'') # line_entity_tags @ (0, ''ENDSEC'') # post) =
        [Line ''0'' 256 (1, 2, 0) (3, 4, 0)])
   \<and> parse py_numbers line_entity_file = [Line ''0'' 256 (1, 2, 0) (3, 4, 0)]"
proof -
  have "parse py_numbers line_entity_file = [Line ''0'' 256 (1, 2, 0) (3, 4, 0)]"
    unfolding parse_def tag_generator_line_entity_file
    by (rule parse_tags_line_section) simp
  then show ?thesis using parse_tags_line_section by blast
qed

theorem parse_line_entity_witness:
  "\<not> (fst (0::int, ''SECTION'') = 2 \<and> snd (0::int, ''SECTION'') = ''ENTITIES'')
   \<and> parse_tags py_numbers ([(0, ''SECTION'')] @ (2, ''ENTITIES'') # line_entity_tags
                  @ (0, ''ENDSEC'') # [(0, ''EOF'')]) =
       [Line ''0'' 256 (1, 2, 0) (3, 4, 0)]"
  using parse_line_entity [of "[(0, ''SECTION'')]" "[(0, ''EOF'')]"] by simp

subsection \<open>The DXF reader on a LWPOLYLINE entity\<close>

lemma process_tag_LWPOLYLINE_10:
  "process_tag fl ''LWPOLYLINE'' (10, v) (d, tc, pts) =
     (case float_of fl v of
        None \<Rightarrow> (d, tc, pts)
      | Some x \<Rightarrow> (d, tc, pts @ [[''x'' \<mapsto> x]]))"
  by (simp add: process_tag_def)

lemma process_tag_LWPOLYLINE_20:
  "process_tag fl ''LWPOLYLINE'' (20, v) (d, tc, pts) =
     (if pts \<noteq> [] \<and> last pts ''y'' = None
      then (case float_of fl v of
              None \<Rightarrow> (d, tc, pts)
            | Some y \<Rightarrow> (d, tc, butlast pts @ [(last pts)(''y'' \<mapsto> y)]))
      else (d, tc, pts))"
  by (simp add: process_tag_def)

lemma process_tag_LWPOLYLINE_70:
  "process_tag fl ''LWPOLYLINE'' (70, v) (d, tc, pts) =
     (case int_of fl v of
        None \<Rightarrow> (d, tc, pts)
      | Some n \<Rightarrow> (d\<lparr>ed_closed := Some (odd n)\<rparr>, tc, pts))"
  by (simp add: process_tag_def and_one_eq mod2_eq_if split: option.splits)

lemma process_tag_LWPOLYLINE_0: "process_tag fl ''LWPOLYLINE'' (0, v) st = st"
  by (cases st) (simp add: process_tag_def)

lemma finalize_LWPOLYLINE_partial:
  assumes "ed_type d = ''LWPOLYLINE''"
  shows "ed_vertices (finalize_entity_geometry fl (d, tc, pts @ [[''x'' \<mapsto> x]])) =
         ed_vertices (finalize_entity_geometry fl (d, tc, pts))"
  using assms by (simp add: finalize_entity_geometry_def)

lemma finalize_LWPOLYLINE_full:
  assumes "ed_type d = ''LWPOLYLINE''"
  shows "ed_vertices (finalize_entity_geometry fl (d, tc, pts @ [[''x'' \<mapsto> x, ''y'' \<mapsto> y]])) =
     Some (get_or (ed_vertices (finalize_entity_geometry fl (d, tc, pts))) []
           @ [(x, y, get_or (tc ''z'') (zero_f fl))])"
  using assms by (simp add: finalize_entity_geometry_def get_or_def)

lemma process_entity_tags_LWPOLYLINE:
  assumes "upper (snd first) = ''LWPOLYLINE''"
  shows "process_entity_tags fl (first # rest) geom =
     add_lwpolyline (finalize_entity_geometry fl
        (foldl (\<lambda>s t. process_tag fl ''LWPOLYLINE'' t s)
           (new_entity_dict ''LWPOLYLINE'', Map.empty, []) (first # rest))) geom"
  using assms by (simp add: process_entity_tags_def Let_def del: foldl_Cons)

text \<open>The state after the tags of the scenario, whatever the three texts convert to.\<close>

lemma foldl_lwpolyline_entity_tags:
  assumes "float_of fl ''0'' = Some c0" "float_of fl ''1'' = Some c1" "int_of fl ''1'' = Some 1"
  shows "foldl (\<lambda>s t. process_tag fl ''LWPOLYLINE'' t s)
     (new_entity_dict ''LWPOLYLINE'', Map.empty, []) (lwpolyline_entity_tags @ extra) =
   foldl (\<lambda>s t. process_tag fl ''LWPOLYLINE'' t s)
     ((new_entity_dict ''LWPOLYLINE'')\<lparr>ed_closed := Some True\<rparr>, Map.empty,
      [[''x'' \<mapsto> c0, ''y'' \<mapsto> c0], [''x'' \<mapsto> c1, ''y'' \<mapsto> c0], [''x'' \<mapsto> c1, ''y'' \<mapsto> c1]]) extra"
  using assms
  by (simp add: lwpolyline_entity_tags_def process_tag_LWPOLYLINE_0 process_tag_LWPOLYLINE_10
      process_tag_LWPOLYLINE_20 process_tag_LWPOLYLINE_70)

lemma finalize_three_vertices:
  "add_lwpolyline (finalize_entity_geometry fl
      ((new_entity_dict ''LWPOLYLINE'')\<lparr>ed_closed := Some True\<rparr>, Map.empty,
       [[''x'' \<mapsto> c0, ''y'' \<mapsto> c0], [''x'' \<mapsto> c1, ''y'' \<mapsto> c0], [''x'' \<mapsto> c1, ''y'' \<mapsto> c1]] @ open_x))
      geom =
   geom @ [LwPolyline ''0'' 256
             ([(c0, c0, zero_f fl), (c1, c0, zero_f fl), (c1, c1, zero_f fl)]
              @ map (\<lambda>p. (get_or (p ''x'') (zero_f fl), get_or (p ''y'') (zero_f fl), zero_f fl))
                  (filter (\<lambda>p. p ''x'' \<noteq> None \<and> p ''y'' \<noteq> None) open_x))
             True]"
  by (simp add: finalize_entity_geometry_def new_entity_dict_def add_lwpolyline_def get_or_def
      shape_layer_def shape_color_def)

lemma process_lwpolyline_entity_tags:
  assumes "float_of fl ''0'' = Some c0" "float_of fl ''1'' = Some c1" "int_of fl ''1'' = Some 1"
  shows "process_entity_tags fl lwpolyline_entity_tags geom =
     geom @ [LwPolyline ''0'' 256
               [(c0, c0, zero_f fl), (c1, c0, zero_f fl), (c1, c1, zero_f fl)] True]"
proof -
  have u: "upper (snd (0::int, ''LWPOLYLINE'')) = ''LWPOLYLINE''"
    by (simp add: upper_def upper_char_def)
  have "process_entity_tags fl lwpolyline_entity_tags geom =
      add_lwpolyline (finalize_entity_geometry fl
        (foldl (\<lambda>s t. process_tag fl ''LWPOLYLINE'' t s)
           (new_entity_dict ''LWPOLYLINE'', Map.empty, []) (lwpolyline_entity_tags @ []))) geom"
    unfolding lwpolyline_entity_tags_def append_Nil2
    by (rule process_entity_tags_LWPOLYLINE [OF u])
  also have "\<dots> = geom @ [LwPolyline ''0'' 256
               [(c0, c0, zero_f fl), (c1, c0, zero_f fl), (c1, c1, zero_f fl)] True]"
    unfolding foldl_lwpolyline_entity_tags [OF assms]
    using finalize_three_vertices [of fl c0 c1 "[]" geom] by simp
  finally show ?thesis .
qed

lemma process_lwpolyline_entity_tags_trailing_x:
  assumes "float_of fl ''0'' = Some c0" "float_of fl ''1'' = Some c1" "int_of fl ''1'' = Some 1"
  shows "process_entity_tags fl (lwpolyline_entity_tags @ [(10, v)]) geom =
     geom @ [LwPolyline ''0'' 256
               [(c0, c0, zero_f fl), (c1, c0, zero_f fl), (c1, c1, zero_f fl)] True]"
proof -
  have u: "upper (snd (0::int, ''LWPOLYLINE'')) = ''LWPOLYLINE''"
    by (simp add: upper_def upper_char_def)
  have "process_entity_tags fl (lwpolyline_entity_tags @ [(10, v)]) geom =
      add_lwpolyline (finalize_entity_geometry fl
        (foldl (\<lambda>s t. process_tag fl ''LWPOLYLINE'' t s)
           (new_entity_dict ''LWPOLYLINE'', Map.empty, []) (lwpolyline_entity_tags @ [(10, v)])))
        geom"
    unfolding lwpolyline_entity_tags_def append_Cons append_Nil
    by (rule process_entity_tags_LWPOLYLINE [OF u])
  also have "\<dots> = geom @ [LwPolyline ''0'' 256
               [(c0, c0, zero_f fl), (c1, c0, zero_f fl), (c1, c1, zero_f fl)] True]"
  proof (cases "float_of fl v")
    case None
    then show ?thesis
      unfolding foldl_lwpolyline_entity_tags [OF assms]
      using finalize_three_vertices [of fl c0 c1 "[]" geom]
      by (simp add: process_tag_LWPOLYLINE_10)
  next
    case (Some x)
    then show ?thesis
      unfolding foldl_lwpolyline_entity_tags [OF assms]
      using finalize_three_vertices [of fl c0 c1 "[[''x'' \<mapsto> x]]" geom]
      by (simp add: process_tag_LWPOLYLINE_10)
  qed
  finally show ?thesis .
qed

text \<open>
  C7: in a LWPOLYLINE entity, whatever the builtins \<open>float\<close> and \<open>int\<close> accept and return,
  a tag of code 10 whose value \<open>float\<close> converts opens a new vertex with that x, and one
  whose value raises ValueError is skipped; a tag of code 20 gives its y to the last
  opened vertex, and only when there is one and it has no y yet; code 70 sets the closed
  flag from bit 0 of its integer value; a vertex that never got a y yields no entry of
  the final vertex list, a vertex with both coordinates yields one with the z of the
  entity. With \<open>c0\<close> and \<open>c1\<close> the floats of the texts \<open>0\<close> and \<open>1\<close>, the tags
  \<open>70/1, 10/0, 20/0, 10/1, 20/0, 10/1, 20/1\<close> give the three vertices \<open>(c0, c0)\<close>, \<open>(c1, c0)\<close>,
  \<open>(c1, c1)\<close> and a closed polyline, also when an x of any value follows them without a y.
\<close>

theorem lwpolyline_vertex_pairing:
  "process_tag fl ''LWPOLYLINE'' (10, v) (d, tc, pts) =
     (case float_of fl v of
        None \<Rightarrow> (d, tc, pts)
      | Some x \<Rightarrow> (d, tc, pts @ [[''x'' \<mapsto> x]]))
   \<and> process_tag fl ''LWPOLYLINE'' (20, v) (d, tc, pts) =
     (if pts \<noteq> [] \<and> last pts ''y'' = None
      then (case float_of fl v of
              None \<Rightarrow> (d, tc, pts)
            | Some y \<Rightarrow> (d, tc, butlast pts @ [(last pts)(''y'' \<mapsto> y)]))
      else (d, tc, pts))
   \<and> process_tag fl ''LWPOLYLINE'' (70, v) (d, tc, pts) =
     (case int_of fl v of
        None \<Rightarrow> (d, tc, pts)
      | Some n \<Rightarrow> (d\<lparr>ed_closed := Some (odd n)\<rparr>, tc, pts))
   \<and> (ed_type d = ''LWPOLYLINE'' \<longrightarrow>
      ed_vertices (finalize_entity_geometry fl (d, tc, pts @ [[''x'' \<mapsto> x]])) =
        ed_vertices (finalize_entity_geometry fl (d, tc, pts))
      \<and> ed_vertices (finalize_entity_geometry fl (d, tc, pts @ [[''x'' \<mapsto> x, ''y'' \<mapsto> y]])) =
        Some (get_or (ed_vertices (finalize_entity_geometry fl (d, tc, pts))) []
              @ [(x, y, get_or (tc ''z'') (zero_f fl))]))
   \<and> (float_of fl ''0'' = Some c0 \<and> float_of fl ''1'' = Some c1 \<and> int_of fl ''1'' = Some 1 \<longrightarrow>
      process_entity_tags fl lwpolyline_entity_tags [] =
        [LwPolyline ''0'' 256
           [(c0, c0, zero_f fl), (c1, c0, zero_f fl), (c1, c1, zero_f fl)] True]
      \<and> process_entity_tags fl (lwpolyline_entity_tags @ [(10, w)]) [] =
        [LwPolyline ''0'' 256
           [(c0, c0, zero_f fl), (c1, c0, zero_f fl), (c1, c1, zero_f fl)] True])"
  using process_tag_LWPOLYLINE_10 [of fl v d tc pts]
    process_tag_LWPOLYLINE_20 [of fl v d tc pts]
    process_tag_LWPOLYLINE_70 [of fl v d tc pts]
    finalize_LWPOLYLINE_partial [of d fl tc pts x]
    finalize_LWPOLYLINE_full [of d fl tc pts x y]
    process_lwpolyline_entity_tags [of fl c0 c1 "[]"]
    process_lwpolyline_entity_tags_trailing_x [of fl c0 c1 w "[]"]
  by simp

theorem lwpolyline_vertex_pairing_witness:
  "float_of py_numbers ''0'' = Some 0 \<and> float_of py_numbers ''1'' = Some 1
   \<and> int_of py_numbers ''1'' = Some 1
   \<and> ed_type (new_entity_dict ''LWPOLYLINE'' :: real entity_dict) = ''LWPOLYLINE''
   \<and> process_tag py_numbers ''LWPOLYLINE'' (10, ''1'')
         (new_entity_dict ''LWPOLYLINE'', Map.empty, [[''x'' \<mapsto> 0]]) =
       (new_entity_dict ''LWPOLYLINE'', Map.empty, [[''x'' \<mapsto> 0], [''x'' \<mapsto> 1]])
   \<and> process_tag py_numbers ''LWPOLYLINE'' (20, ''1'')
         (new_entity_dict ''LWPOLYLINE'', Map.empty, [[''x'' \<mapsto> 0]]) =
       (new_entity_dict ''LWPOLYLINE'', Map.empty, [[''x'' \<mapsto> 0, ''y'' \<mapsto> 1]])
   \<and> process_tag py_numbers ''LWPOLYLINE'' (70, ''1'')
         (new_entity_dict ''LWPOLYLINE'', Map.empty, [[''x'' \<mapsto> 0]]) =
       ((new_entity_dict ''LWPOLYLINE'')\<lparr>ed_closed := Some True\<rparr>, Map.empty, [[''x'' \<mapsto> 0]])
   \<and> ed_vertices (finalize_entity_geometry py_numbers
         (new_entity_dict ''LWPOLYLINE'', Map.empty, [[''x'' \<mapsto> 0], [''x'' \<mapsto> 1]])) =
       ed_vertices (finalize_entity_geometry py_numbers
         (new_entity_dict ''LWPOLYLINE'', Map.empty, [[''x'' \<mapsto> 0]]))
   \<and> process_entity_tags py_numbers lwpolyline_entity_tags [] =
       [LwPolyline ''0'' 256 [(0, 0, 0), (1, 0, 0), (1, 1, 0)] True]
   \<and> process_entity_tags py_numbers (lwpolyline_entity_tags @ [(10, ''5'')]) [] =
       [LwPolyline ''0'' 256 [(0, 0, 0), (1, 0, 0), (1, 1, 0)] True]"
proof -
  have f: "float_of py_numbers ''0'' = Some 0" "float_of py_numbers ''1'' = Some 1"
    and i: "int_of py_numbers ''1'' = Some 1"
    by (simp_all add: py_numbers_fields py_float_literals py_int_literals)
  have t: "ed_type (new_entity_dict ''LWPOLYLINE'' :: real entity_dict) = ''LWPOLYLINE''"
    by (simp add: new_entity_dict_def)
  show ?thesis
    using lwpolyline_vertex_pairing
            [of py_numbers "''1''" "new_entity_dict ''LWPOLYLINE''" Map.empty "[[''x'' \<mapsto> 0]]"
               1 1 0 1 "''5''"]
          f i t
    by (simp add: py_numbers_fields)
qed

subsection \<open>What the commands leave alone\<close>

lemma kept_refl: "kept s s" by (simp add: kept_def)
lemma kept_trans: "kept s s1 \<Longrightarrow> kept s1 s2 \<Longrightarrow> kept s s2" by (simp add: kept_def)

lemma set_top_level_title [simp]: "ob_active_cs_title (set_top_level b its) = ob_active_cs_title b"
  by (simp add: set_top_level_def split: list.splits)

lemma add_object_title [simp]: "ob_active_cs_title (add_object b i t c p) = ob_active_cs_title b"
  by (simp add: add_object_def Let_def split: option.splits)

lemma remove_object_title: "remove_object b i = Inr b' \<Longrightarrow> ob_active_cs_title b' = ob_active_cs_title b"
  by (auto simp add: remove_object_def split: option.splits)

lemma update_object_name_title [simp]: "ob_active_cs_title (update_object_name b i j) = ob_active_cs_title b"
  by (simp add: update_object_name_def split: option.splits)

lemma set_active_plane_id_title [simp]: "ob_active_cs_title (set_active_plane_id b i) = ob_active_cs_title b"
  by (simp add: set_active_plane_id_def)

lemma proj_emit [simp]:
  "command_stack (emit r s) = command_stack s" "stack_pointer (emit r s) = stack_pointer s"
  "cs_manager (emit r s) = cs_manager s" "object_browser (emit r s) = object_browser s"
  by (simp_all add: emit_def)

lemma proj_AddActor [simp]:
  "command_stack (AddActor a s) = command_stack s" "stack_pointer (AddActor a s) = stack_pointer s"
  "cs_manager (AddActor a s) = cs_manager s" "object_browser (AddActor a s) = object_browser s"
  by (simp_all add: AddActor_def)

lemma proj_RemoveActor [simp]:
  "command_stack (RemoveActor a s) = command_stack s" "stack_pointer (RemoveActor a s) = stack_pointer s"
  "cs_manager (RemoveActor a s) = cs_manager s" "object_browser (RemoveActor a s) = object_browser s"
  by (simp_all add: RemoveActor_def)

lemma proj_update_actor [simp]:
  "command_stack (update_actor a f s) = command_stack s" "stack_pointer (update_actor a f s) = stack_pointer s"
  "cs_manager (update_actor a f s) = cs_manager s" "object_browser (update_actor a f s) = object_browser s"
  by (simp_all add: update_actor_def)

lemma proj_alloc_actor [simp]:
  "command_stack (snd (alloc_actor a s)) = command_stack s" "stack_pointer (snd (alloc_actor a s)) = stack_pointer s"
  "cs_manager (snd (alloc_actor a s)) = cs_manager s" "object_browser (snd (alloc_actor a s)) = object_browser s"
  by (simp_all add: alloc_actor_def)

lemma alloc_snd: "alloc_actor a s = (r, s') \<Longrightarrow> s' = snd (alloc_actor a s)" by simp

lemma co_kept: "CreateObjectCommand_execute c s = (e, c', s') \<Longrightarrow> kept s s'"
  by (auto simp add: CreateObjectCommand_execute_def Let_def kept_def dest!: alloc_snd split: option.splits sum.splits if_splits prod.splits)

lemma co_undo_kept: "CreateObjectCommand_undo c s = (e, s') \<Longrightarrow> kept s s'"
  by (auto simp add: CreateObjectCommand_undo_def Let_def kept_def dest: remove_object_title split: option.splits sum.splits)

lemma do_kept: "DeleteObjectCommand_execute c s = (e, c', s') \<Longrightarrow> kept s s'"
  by (auto simp add: DeleteObjectCommand_execute_def Let_def kept_def dest: remove_object_title split: option.splits sum.splits)

lemma do_undo_kept: "DeleteObjectCommand_undo c s = (e, s') \<Longrightarrow> kept s s'"
  by (auto simp add: DeleteObjectCommand_undo_def Let_def kept_def split: option.splits sum.splits if_splits)


lemma rename_everywhere_kept: "kept s (rename_everywhere a b s)"
  by (simp add: rename_everywhere_def Let_def kept_def split: option.splits)

lemma rn_kept: "RenameObjectCommand_execute c s = (e, c', s') \<Longrightarrow> kept s s'"
  using rename_everywhere_kept [of s "rn_old_id c" "rn_new_id c"]
  by (auto simp add: RenameObjectCommand_execute_def kept_def)

lemma rn_undo_kept: "RenameObjectCommand_undo c s = (e, s') \<Longrightarrow> kept s s'"
  using rename_everywhere_kept [of s "rn_new_id c" "rn_old_id c"]
  by (auto simp add: RenameObjectCommand_undo_def kept_def)

lemma tv_kept: "ToggleVisibilityCommand_execute c s = (e, c', s') \<Longrightarrow> kept s s'"
  by (auto simp add: ToggleVisibilityCommand_execute_def Let_def kept_def split: option.splits)

lemma tv_undo_kept: "ToggleVisibilityCommand_undo c s = (e, s') \<Longrightarrow> kept s s'"
  by (auto simp add: ToggleVisibilityCommand_undo_def Let_def kept_def split: option.splits)

lemma proj_update_plane_context [simp]:
  "command_stack (update_plane_context p d s) = command_stack s" "stack_pointer (update_plane_context p d s) = stack_pointer s"
  "cs_manager (update_plane_context p d s) = cs_manager s" "object_browser (update_plane_context p d s) = object_browser s"
  by (simp_all add: update_plane_context_def split: prod.splits)

lemma sap_kept: "SetActivePlaneCommand_execute perp c s = (e, c', s') \<Longrightarrow> kept s s'"
  by (auto simp add: SetActivePlaneCommand_execute_def Let_def kept_def split: option.splits)

lemma sap_undo_kept: "SetActivePlaneCommand_undo perp c s = (e, s') \<Longrightarrow> kept s s'"
  by (auto simp add: SetActivePlaneCommand_undo_def Let_def kept_def dest!: sap_kept split: option.splits prod.splits)


lemma import_shape_kept:
  assumes "import_shape i sh c s = (e, c', s')"
  shows "kept s s'"
proof (cases "shape_viz_points (im_plane_context c) sh")
  case None
  then show ?thesis using assms by (simp add: import_shape_def kept_refl)
next
  case (Some r)
  show ?thesis
  proof (cases r)
    case (Inl err)
    then show ?thesis using assms Some by (simp add: import_shape_def kept_refl)
  next
    case (Inr pts)
    then have "s' = (snd (alloc_actor ((new_actor pts [[0 ..< length pts]] ''lines'')
                       \<lparr>a_position := im_origin c, a_color := (1, 4 / 10, 4 / 10)\<rparr>) s))
                  \<lparr>object_browser := add_object (object_browser s) (im_group_name c @ ''_Shape_'' @ show_nat i)
                     (get_type sh) ''Imports'' (Some (im_group_name c))\<rparr>"
      using assms Some by (auto simp add: import_shape_def Let_def split: prod.splits dest!: alloc_snd)
    then show ?thesis by (simp add: kept_def)
  qed
qed

lemma import_shapes_kept: "import_shapes i shs c s = (e, c', s') \<Longrightarrow> kept s s'"
proof (induction shs arbitrary: i c s)
  case Nil
  then show ?case by (simp add: kept_refl)
next
  case (Cons sh shs)
  obtain e1 c1 s1 where st: "import_shape i sh c s = (e1, c1, s1)" by (cases "import_shape i sh c s") auto
  have k1: "kept s s1" using st by (rule import_shape_kept)
  show ?case
  proof (cases e1)
    case None
    then have "import_shapes (Suc i) shs c1 s1 = (e, c', s')" using Cons.prems st by simp
    then have "kept s1 s'" by (rule Cons.IH)
    with k1 show ?thesis by (rule kept_trans)
  next
    case (Some err)
    then have "s' = s1" using Cons.prems st by simp
    with k1 show ?thesis by simp
  qed
qed

lemma foldl_kept:
  assumes "\<And>st x. kept st (f st x)"
  shows "kept s (foldl f s xs)"
proof (induction xs arbitrary: s)
  case Nil
  show ?case by (simp add: kept_refl)
next
  case (Cons x xs)
  have "kept s (f s x)" by (rule assms)
  moreover have "kept (f s x) (foldl f (f s x) xs)" by (rule Cons.IH)
  ultimately show ?case by (simp add: kept_trans)
qed

lemma show_created_kept: "kept s (show_created cr s)"
  unfolding show_created_def
  by (rule foldl_kept) (simp add: kept_def Let_def split: prod.splits)

lemma redo_fold_kept:
  "kept s (foldl (\<lambda>st (obj_id, a).
                     (let st1 = AddActor a st;
                          st2 = st1\<lparr>actor_buffer := (actor_buffer st1)(obj_id \<mapsto> a)\<rparr>
                      in st2\<lparr>object_browser :=
                              add_object (object_browser st2) obj_id t cat g\<rparr>)) s cr)"
  by (rule foldl_kept) (simp add: kept_def Let_def split: prod.splits)

lemma undo_fold_kept:
  "kept s (foldl (\<lambda>st (obj_id, a).
                        (let st1 = RemoveActor a st
                         in st1\<lparr>actor_buffer := (actor_buffer st1)(obj_id := None)\<rparr>)) s cr)"
  by (rule foldl_kept) (simp add: kept_def Let_def split: prod.splits)

lemma import_failed_kept: "import_failed err c s1 = (e, c', s') \<Longrightarrow> kept s s1 \<Longrightarrow> kept s s'"
  by (auto simp add: import_failed_def kept_def)


lemma im_exec_redo:
  assumes "im_created_actors c \<noteq> []"
  shows "ImportDxfCommand_execute c s = (None, c,
            foldl (\<lambda>st (obj_id, a).
                     (let st1 = AddActor a st;
                          st2 = st1\<lparr>actor_buffer := (actor_buffer st1)(obj_id \<mapsto> a)\<rparr>
                      in st2\<lparr>object_browser :=
                              add_object (object_browser st2) obj_id ''Shape'' ''Imports''
                                (Some (im_group_name c))\<rparr>))
                  (s\<lparr>object_browser := add_object (object_browser s) (im_group_name c) ''DXF Group'' ''Imports'' None\<rparr>) (im_created_actors c))"
  using assms by (simp add: ImportDxfCommand_execute_def Let_def)

lemma im_exec_ioerror:
  assumes "im_created_actors c = []" "DxfReader py_numbers (files s) (im_filepath c) = Inl err"
  shows "ImportDxfCommand_execute c s = import_failed err c
     (s\<lparr>object_browser := add_object (object_browser s) (im_group_name c) ''DXF Group'' ''Imports'' None\<rparr>)"
  using assms by (simp add: ImportDxfCommand_execute_def Let_def)

lemma im_exec_read:
  assumes "im_created_actors c = []" "DxfReader py_numbers (files s) (im_filepath c) = Inr geom"
  shows "ImportDxfCommand_execute c s = 
     (case import_shapes 0 geom c (warn_if_empty c geom (s\<lparr>object_browser := add_object (object_browser s) (im_group_name c) ''DXF Group'' ''Imports'' None\<rparr>)) of
                      (Some e, c1, s3) \<Rightarrow> import_failed e c1 s3
                    | (None, c1, s3) \<Rightarrow> (None, c1, show_created (im_created_actors c1) s3))"
  using assms by (simp add: ImportDxfCommand_execute_def Let_def)

lemma im_kept:
  assumes "ImportDxfCommand_execute c s = (e, c', s')"
  shows "kept s s'"
proof -
  let ?s1 = "s\<lparr>object_browser := add_object (object_browser s) (im_group_name c) ''DXF Group'' ''Imports'' None\<rparr>"
  have k1: "kept s ?s1" by (simp add: kept_def)
  show ?thesis
  proof (cases "im_created_actors c \<noteq> []")
    case True
    show ?thesis using assms kept_trans [OF k1 redo_fold_kept] unfolding im_exec_redo [OF True] by auto
  next
    case False
    then have emp: "im_created_actors c = []" by simp
    show ?thesis
    proof (cases "DxfReader py_numbers (files s) (im_filepath c)")
      case (Inl err)
      show ?thesis using assms k1 unfolding im_exec_ioerror [OF emp Inl] by (rule import_failed_kept)
    next
      case (Inr geom)
      let ?s2 = "warn_if_empty c geom ?s1"
      have k2: "kept s ?s2" by (simp add: kept_def warn_if_empty_def)
      obtain e3 c3 s3 where st: "import_shapes 0 geom c ?s2 = (e3, c3, s3)"
        by (cases "import_shapes 0 geom c ?s2") auto
      have k3: "kept s s3" using kept_trans [OF k2 import_shapes_kept [OF st]] .
      show ?thesis
      proof (cases e3)
        case None
        then have "s' = show_created (im_created_actors c3) s3"
          using assms unfolding im_exec_read [OF emp Inr] st by auto
        then show ?thesis using kept_trans [OF k3 show_created_kept] by simp
      next
        case (Some err)
        then have "import_failed err c3 s3 = (e, c', s')"
          using assms unfolding im_exec_read [OF emp Inr] st by simp
        then show ?thesis using k3 by (rule import_failed_kept)
      qed
    qed
  qed
qed

lemma im_undo_kept: "ImportDxfCommand_undo c s = (e, s') \<Longrightarrow> kept s s'"
  using undo_fold_kept [of s "im_created_actors c"]
  by (auto simp add: ImportDxfCommand_undo_def Let_def kept_def dest: remove_object_title split: sum.splits)

lemma factory_call_fails:
  assumes "name \<notin> set factory_names"
  shows "factory_call name args = Inl (AttributeError (''module '' @ quoted ''acrilib.primitives.factory''
                             @ '' has no attribute '' @ quoted name))"
  using assms by (simp add: factory_call_def)

lemma cuboid_names: "''create_cuboid_from_dimensions'' \<notin> set factory_names" "''create_cuboid_from_corners'' \<notin> set factory_names"
  by (simp_all add: factory_names_def)

lemma cc_exec_fresh:
  assumes "cc_actor c = None"
  shows "\<exists>err. CreateCuboidCommand_execute c s = (None, c, emit (LogError (''Failed to create cuboid: '' @ str_of_error err)) s)"
proof -
  have c: "c\<lparr>cc_actor := None\<rparr> = c" using assms by simp
  show ?thesis
    unfolding CreateCuboidCommand_execute_def Let_def
    by (auto simp add: assms c factory_call_fails [OF cuboid_names(1)] factory_call_fails [OF cuboid_names(2)] split: option.splits)
qed

lemma cc_exec_redo:
  assumes "cc_actor c = Some a"
  shows "CreateCuboidCommand_execute c s = (None, c,
     (AddActor a s)\<lparr>actor_buffer := (actor_buffer (AddActor a s))(cc_object_id c \<mapsto> a),
        object_browser := add_object (object_browser s) (cc_object_id c) ''Cuboid'' ''Primitives'' None\<rparr>)"
  using assms by (simp add: CreateCuboidCommand_execute_def Let_def)

lemma cc_kept: "CreateCuboidCommand_execute c s = (e, c', s') \<Longrightarrow> kept s s'"
proof (cases "cc_actor c")
  case None
  assume a: "CreateCuboidCommand_execute c s = (e, c', s')"
  from cc_exec_fresh [OF None, of s] obtain err where
    "CreateCuboidCommand_execute c s = (None, c, emit (LogError (''Failed to create cuboid: '' @ str_of_error err)) s)" by blast
  with a show ?thesis by (auto simp add: kept_def)
next
  case (Some a)
  assume "CreateCuboidCommand_execute c s = (e, c', s')"
  then show ?thesis unfolding cc_exec_redo [OF Some] by (auto simp add: kept_def)
qed

lemma cc_undo_kept: "CreateCuboidCommand_undo c s = (e, s') \<Longrightarrow> kept s s'"
  by (auto simp add: CreateCuboidCommand_undo_def Let_def kept_def dest: remove_object_title split: option.splits sum.splits)

lemma execute_kept: "execute perp cmd s = (e, cmd', s') \<Longrightarrow> kept s s'"
  by (cases cmd) (auto dest: co_kept do_kept rn_kept tv_kept sap_kept im_kept cc_kept split: prod.splits)

lemma undo_kept: "undo perp cmd s = (e, s') \<Longrightarrow> kept s s'"
  by (cases cmd) (auto dest: co_undo_kept do_undo_kept rn_undo_kept tv_undo_kept sap_undo_kept im_undo_kept cc_undo_kept)

subsection \<open>Recording of commands\<close>

lemma execute_command_failed:
  assumes "command_fails perp cmd s"
  shows "kept (truncate_history s) (execute_command perp cmd s)"
proof -
  obtain e c' s1 where ex: "execute perp cmd (truncate_history s) = (e, c', s1)"
    by (cases "execute perp cmd (truncate_history s)") auto
  have k: "kept (truncate_history s) s1" using ex by (rule execute_kept)
  show ?thesis using assms k
    by (cases e) (auto simp add: execute_command_def command_fails_def ex kept_def)
qed

lemma execute_command_recorded:
  assumes "\<not> command_fails perp cmd s"
  shows "command_stack (execute_command perp cmd s) =
           command_stack (truncate_history s) @ [executed perp cmd s]
         \<and> stack_pointer (execute_command perp cmd s) = stack_pointer s + 1
         \<and> cs_manager (execute_command perp cmd s) = cs_manager s
         \<and> ob_active_cs_title (object_browser (execute_command perp cmd s)) = ob_active_cs_title (object_browser s)"
proof -
  obtain e c' s1 where ex: "execute perp cmd (truncate_history s) = (e, c', s1)"
    by (cases "execute perp cmd (truncate_history s)") auto
  have k: "kept (truncate_history s) s1" using ex by (rule execute_kept)
  have t: "stack_pointer (truncate_history s) = stack_pointer s" "cs_manager (truncate_history s) = cs_manager s"
     "object_browser (truncate_history s) = object_browser s"
    by (simp_all add: truncate_history_def)
  show ?thesis using assms k t
    by (cases e) (auto simp add: execute_command_def command_fails_def executed_def ex kept_def)
qed

lemma truncate_history_stack:
  "command_stack (truncate_history s) =
     (if stack_pointer s < int (length (command_stack s)) - 1
      then py_slice_to (command_stack s) (stack_pointer s + 1) else command_stack s)"
  by (simp add: truncate_history_def)

subsection \<open>A command that fails\<close>

text \<open>
  C1, amended: a command that fails during execute is not appended to the history and the
  cursor does not advance; the history is what the cut to the cursor leaves (the first
  cursor + 1 entries when the cursor was not at the last entry, the whole history
  otherwise). What execute wrote to the rest of the document before it failed stays.
\<close>

theorem failed_command_not_recorded:
  assumes "command_fails perp cmd s"
  shows "command_stack (execute_command perp cmd s) =
           (if stack_pointer s < int (length (command_stack s)) - 1
            then py_slice_to (command_stack s) (stack_pointer s + 1) else command_stack s)
         \<and> stack_pointer (execute_command perp cmd s) = stack_pointer s"
  using execute_command_failed [OF assms] truncate_history_stack [of s]
  by (simp add: kept_def truncate_history_def)

subsection \<open>The solid cuboid command\<close>

text \<open>
  C5: the factory module binds neither \<open>create_cuboid_from_dimensions\<close> nor
  \<open>create_cuboid_from_corners\<close>, so for every creation data the first run of
  \<open>CreateCuboidCommand\<close> ends in the handler of its \<open>try\<close> block: no mesh data is produced,
  the command is marked as failed and no object is registered.
\<close>

theorem create_cuboid_fails:
  "(cd_method cd = Some ''dimensions'' \<longrightarrow>
      CreateCuboidCommand_execute (mk_CreateCuboidCommand self_id cd) s =
        (None, mk_CreateCuboidCommand self_id cd,
         emit (LogError (''Failed to create cuboid: module '' @ quoted ''acrilib.primitives.factory''
                @ '' has no attribute '' @ quoted ''create_cuboid_from_dimensions'')) s))
   \<and> (cd_method cd = Some ''corners'' \<longrightarrow>
      CreateCuboidCommand_execute (mk_CreateCuboidCommand self_id cd) s =
        (None, mk_CreateCuboidCommand self_id cd,
         emit (LogError (''Failed to create cuboid: module '' @ quoted ''acrilib.primitives.factory''
                @ '' has no attribute '' @ quoted ''create_cuboid_from_corners'')) s))
   \<and> command_fails perp (CreateCuboidCommand (mk_CreateCuboidCommand self_id cd)) s
   \<and> actor_buffer (execute_command perp (CreateCuboidCommand (mk_CreateCuboidCommand self_id cd)) s) = actor_buffer s"
proof -
  let ?c = "mk_CreateCuboidCommand self_id cd"
  have n: "cc_actor ?c = None" and cd: "cc_creation_data ?c = cd" by (simp_all add: mk_CreateCuboidCommand_def)
  have u: "?c\<lparr>cc_actor := None\<rparr> = ?c" by (simp add: mk_CreateCuboidCommand_def)
  have d: "cd_method cd = Some ''dimensions'' \<Longrightarrow> CreateCuboidCommand_execute ?c s =
        (None, ?c, emit (LogError (''Failed to create cuboid: module '' @ quoted ''acrilib.primitives.factory''
                @ '' has no attribute '' @ quoted ''create_cuboid_from_dimensions'')) s)"
    unfolding CreateCuboidCommand_execute_def Let_def
    by (simp add: n cd u factory_call_fails [OF cuboid_names(1)] str_of_error_def)
  have c: "cd_method cd = Some ''corners'' \<Longrightarrow> CreateCuboidCommand_execute ?c s =
        (None, ?c, emit (LogError (''Failed to create cuboid: module '' @ quoted ''acrilib.primitives.factory''
                @ '' has no attribute '' @ quoted ''create_cuboid_from_corners'')) s)"
    unfolding CreateCuboidCommand_execute_def Let_def
    by (simp add: n cd u factory_call_fails [OF cuboid_names(2)] str_of_error_def)
  from cc_exec_fresh [OF n, of "truncate_history s"] obtain err where
    e: "CreateCuboidCommand_execute ?c (truncate_history s) = (None, ?c, emit (LogError (''Failed to create cuboid: '' @ str_of_error err)) (truncate_history s))"
    by blast
  have f: "command_fails perp (CreateCuboidCommand ?c) s"
    by (simp add: command_fails_def e n)
  have t: "actor_buffer (truncate_history s) = actor_buffer s" by (simp add: truncate_history_def)
  have b: "actor_buffer (execute_command perp (CreateCuboidCommand ?c) s) = actor_buffer s"
    by (simp add: execute_command_def e n emit_def t)
  show ?thesis using d c f b by blast
qed

subsection \<open>Fields that the cut of the history leaves alone\<close>

lemma truncate_history_fields [simp]:
  "stack_pointer (truncate_history s) = stack_pointer s"
  "actor_buffer (truncate_history s) = actor_buffer s"
  "plane_definitions (truncate_history s) = plane_definitions s"
  "active_plane_id (truncate_history s) = active_plane_id s"
  "current_plane_origin (truncate_history s) = current_plane_origin s"
  "current_plane_u_axis (truncate_history s) = current_plane_u_axis s"
  "current_plane_v_axis (truncate_history s) = current_plane_v_axis s"
  "cs_manager (truncate_history s) = cs_manager s"
  "renderer (truncate_history s) = renderer s"
  "object_browser (truncate_history s) = object_browser s"
  "actors (truncate_history s) = actors s"
  "next_actor (truncate_history s) = next_actor s"
  "files (truncate_history s) = files s"
  "outputs (truncate_history s) = outputs s"
  by (simp_all add: truncate_history_def)

subsection \<open>The history under execute, undo and redo\<close>

lemma point_command_execute:
  "execute perp (point_command n u v ctx) s =
     (None,
      CreateObjectCommand ((mk_CreateObjectCommand n (create_point u v ctx)
          \<lparr>p_color = Some (1, 0, 0), p_point_size = Some 15, p_line_width = None,
           p_opacity = None, p_representation = None, p_category = Some ''Primitives'',
           p_object_name = None\<rparr>)\<lparr>co_actor := Some (next_actor s)\<rparr>),
      (AddActor (next_actor s)
         (update_actor (next_actor s)
            (apply_properties \<lparr>p_color = Some (1, 0, 0), p_point_size = Some 15, p_line_width = None,
               p_opacity = None, p_representation = None, p_category = Some ''Primitives'',
               p_object_name = None\<rparr>)
            (snd (alloc_actor (new_actor [to_world u v ctx] [[0]] ''verts'') s))))
       \<lparr>object_browser := add_object (object_browser s) (''Primitive_'' @ show_nat n) ''verts'' ''Primitives'' None,
        actor_buffer := (actor_buffer s)(''Primitive_'' @ show_nat n \<mapsto> next_actor s)\<rparr>)"
  by (simp add: point_command_def mk_CreateObjectCommand_def CreateObjectCommand_execute_def
      create_point_def mk_geom_def build_mesh_actor_def get_or_def rstrip_s_def Let_def
      alloc_actor_def update_actor_def AddActor_def)

lemma point_command_succeeds: "\<not> command_fails perp (point_command n u v ctx) s"
  by (simp add: command_fails_def point_command_execute)

lemma point_command_registers:
  "actor_buffer (execute_command perp (point_command n u v ctx) s) =
     (actor_buffer s)(''Primitive_'' @ show_nat n \<mapsto> next_actor s)"
  "plane_definitions (execute_command perp (point_command n u v ctx) s) = plane_definitions s"
  "active_plane_id (execute_command perp (point_command n u v ctx) s) = active_plane_id s"
  by (simp_all add: execute_command_def point_command_execute AddActor_def update_actor_def alloc_actor_def)


lemma truncate_history_in_range:
  assumes "cursor_in_range s"
  shows "command_stack (truncate_history s) = take (nat (stack_pointer s + 1)) (command_stack s)"
    and "int (length (command_stack (truncate_history s))) = stack_pointer s + 1"
  using assms by (auto simp add: cursor_in_range_def truncate_history_def py_slice_to_def)

lemma execute_command_stack:
  assumes "cursor_in_range s"
  shows "command_stack (execute_command perp cmd s) =
           take (nat (stack_pointer s + 1)) (command_stack s)
           @ (if command_fails perp cmd s then [] else [executed perp cmd s])"
    and "stack_pointer (execute_command perp cmd s) =
           (if command_fails perp cmd s then stack_pointer s else stack_pointer s + 1)"
    and "stack_pointer (execute_command perp cmd s) =
           int (length (command_stack (execute_command perp cmd s))) - 1"
    and "cursor_in_range (execute_command perp cmd s)"
proof -
  let ?s' = "execute_command perp cmd s"
  let ?p = "take (nat (stack_pointer s + 1)) (command_stack s)"
  have tp: "command_stack (truncate_history s) = ?p"
    by (rule truncate_history_in_range(1) [OF assms])
  have lp: "int (length ?p) = stack_pointer s + 1"
    using truncate_history_in_range(2) [OF assms] unfolding tp .
  have ts: "stack_pointer (truncate_history s) = stack_pointer s"
    by (simp add: truncate_history_def)
  have f: "command_fails perp cmd s \<Longrightarrow>
             command_stack ?s' = ?p \<and> stack_pointer ?s' = stack_pointer s"
    using execute_command_failed [of perp cmd s] tp ts unfolding kept_def by simp
  have r: "\<not> command_fails perp cmd s \<Longrightarrow>
             command_stack ?s' = ?p @ [executed perp cmd s] \<and> stack_pointer ?s' = stack_pointer s + 1"
    using execute_command_recorded [of perp cmd s] tp by simp
  have a: "command_stack ?s' = ?p @ (if command_fails perp cmd s then [] else [executed perp cmd s])"
    using f r by (cases "command_fails perp cmd s") simp_all
  have b: "stack_pointer ?s' = (if command_fails perp cmd s then stack_pointer s else stack_pointer s + 1)"
    using f r by (cases "command_fails perp cmd s") simp_all
  show "command_stack ?s' = ?p @ (if command_fails perp cmd s then [] else [executed perp cmd s])"
    by (rule a)
  show "stack_pointer ?s' = (if command_fails perp cmd s then stack_pointer s else stack_pointer s + 1)"
    by (rule b)
  have "int (length (command_stack ?s')) =
          stack_pointer s + 1 + (if command_fails perp cmd s then 0 else 1)"
    unfolding a using lp by simp
  then show c: "stack_pointer ?s' = int (length (command_stack ?s')) - 1"
    unfolding b by simp
  show "cursor_in_range ?s'"
    unfolding cursor_in_range_def using c b assms by (simp add: cursor_in_range_def)
qed

lemma on_redo_at_end:
  assumes "stack_pointer s = int (length (command_stack s)) - 1"
  shows "on_redo perp s = (None, emit (LogWarning ''Nothing to redo.'') s)"
  using assms by (simp add: on_redo_def)

lemma on_undo_done:
  assumes "on_undo perp s = (None, s')" "0 \<le> stack_pointer s"
  shows "command_stack s' = command_stack s \<and> stack_pointer s' = stack_pointer s - 1"
proof -
  obtain i where i: "py_position (command_stack s) (stack_pointer s) = Some i"
    using assms by (cases "py_position (command_stack s) (stack_pointer s)") (auto simp add: on_undo_def)
  obtain e s1 where u: "undo perp (command_stack s ! i) s = (e, s1)"
    by (cases "undo perp (command_stack s ! i) s") auto
  have k: "kept s s1" using u by (rule undo_kept)
  show ?thesis using assms i u k
    by (cases e) (auto simp add: on_undo_def Let_def kept_def)
qed

subsection \<open>A session with an undo and the redo branch\<close>

lemma show_nat_digits:
  "show_nat (Suc 0) = ''1''" "show_nat 1 = ''1''" "show_nat 2 = ''2''" "show_nat 3 = ''3''"
  by (simp_all add: show_nat.simps digit_char_def)

lemma new_window_history:
  "command_stack (new_main_window fs) = []" "stack_pointer (new_main_window fs) = - 1"
  "cursor_in_range (new_main_window fs)"
  by (simp_all add: new_main_window_def cursor_in_range_def)

lemma toggle_succeeds:
  assumes "tv_actor c \<noteq> None"
  shows "\<not> command_fails perp (ToggleVisibilityCommand c) s"
    and "executed perp (ToggleVisibilityCommand c) s = ToggleVisibilityCommand c"
  using assms
  by (auto simp add: command_fails_def executed_def ToggleVisibilityCommand_execute_def Let_def
      split: option.splits)

lemma point_command_executed:
  "\<exists>c. executed perp (point_command n u v ctx) s = CreateObjectCommand c"
  by (simp add: executed_def point_command_execute)

lemma on_undo_toggle:
  assumes "0 \<le> stack_pointer s" "stack_pointer s < int (length (command_stack s))"
    and "command_stack s ! nat (stack_pointer s) = ToggleVisibilityCommand c"
  shows "fst (on_undo perp s) = None"
  using assms
  by (simp add: on_undo_def py_position_def Let_def ToggleVisibilityCommand_undo_def
      split: option.splits)

lemma run_A_facts:
  "cursor_in_range run_A" "stack_pointer run_A = 0"
  "command_stack run_A = [executed fixed_axes cmd_A (new_main_window Map.empty)]"
  "actor_buffer run_A ''Primitive_1'' = Some 0"
  "plane_definitions run_A ''Primitive_1'' = None"
proof -
  note r = new_window_history(3) [of Map.empty]
  show "cursor_in_range run_A" unfolding run_A_def by (rule execute_command_stack(4) [OF r])
  show "stack_pointer run_A = 0"
    unfolding run_A_def execute_command_stack(2) [OF r] cmd_A_def
    by (simp add: point_command_succeeds new_window_history)
  show "command_stack run_A = [executed fixed_axes cmd_A (new_main_window Map.empty)]"
    unfolding run_A_def execute_command_stack(1) [OF r] cmd_A_def
    by (simp add: point_command_succeeds new_window_history)
  show "actor_buffer run_A ''Primitive_1'' = Some 0"
    unfolding run_A_def cmd_A_def point_command_registers
    by (simp add: show_nat_digits new_main_window_def)
  show "plane_definitions run_A ''Primitive_1'' = None"
    unfolding run_A_def cmd_A_def point_command_registers
    by (simp add: new_main_window_def)
qed

lemma cmd_B_actor: "tv_actor (mk_ToggleVisibilityCommand run_A ''Primitive_1'') \<noteq> None"
  by (simp add: mk_ToggleVisibilityCommand_def run_A_facts)

lemma run_AB_facts:
  "cursor_in_range run_AB" "stack_pointer run_AB = 1"
  "command_stack run_AB = [executed fixed_axes cmd_A (new_main_window Map.empty), cmd_B]"
  "\<not> command_fails fixed_axes cmd_B run_A"
proof -
  note r = run_A_facts(1)
  show f: "\<not> command_fails fixed_axes cmd_B run_A"
    unfolding cmd_B_def by (rule toggle_succeeds(1) [OF cmd_B_actor])
  have e: "executed fixed_axes cmd_B run_A = cmd_B"
    unfolding cmd_B_def by (rule toggle_succeeds(2) [OF cmd_B_actor])
  show "cursor_in_range run_AB" unfolding run_AB_def by (rule execute_command_stack(4) [OF r])
  show "stack_pointer run_AB = 1"
    unfolding run_AB_def execute_command_stack(2) [OF r] using f by (simp add: run_A_facts)
  show "command_stack run_AB = [executed fixed_axes cmd_A (new_main_window Map.empty), cmd_B]"
    unfolding run_AB_def execute_command_stack(1) [OF r] using f by (simp add: run_A_facts e)
qed

lemma run_ABu_facts:
  "on_undo fixed_axes run_AB = (None, run_ABu)"
  "cursor_in_range run_ABu" "stack_pointer run_ABu = 0"
  "command_stack run_ABu = [executed fixed_axes cmd_A (new_main_window Map.empty), cmd_B]"
proof -
  have "fst (on_undo fixed_axes run_AB) = None"
    by (rule on_undo_toggle [of _ "mk_ToggleVisibilityCommand run_A ''Primitive_1''"])
       (simp_all add: run_AB_facts cmd_B_def)
  then show u: "on_undo fixed_axes run_AB = (None, run_ABu)"
    unfolding run_ABu_def by (cases "on_undo fixed_axes run_AB") simp
  have p: "0 \<le> stack_pointer run_AB" by (simp add: run_AB_facts)
  note d = on_undo_done [OF u p]
  show "stack_pointer run_ABu = 0" using d by (simp add: run_AB_facts)
  show "command_stack run_ABu = [executed fixed_axes cmd_A (new_main_window Map.empty), cmd_B]"
    using d by (simp add: run_AB_facts)
  then show "cursor_in_range run_ABu"
    using d by (simp add: cursor_in_range_def run_AB_facts)
qed

text \<open>
  C2, as stated: after applying A and B, undoing once and applying C, a redo must fail
  with an error. In the session above every step succeeds, and the redo neither raises
  nor runs a command: \<open>on_redo\<close> returns normally after the warning
  \<open>Nothing to redo.\<close>, with the state otherwise as it was.
\<close>

theorem redo_without_error_counterexample:
  "\<not> command_fails fixed_axes cmd_A (new_main_window Map.empty)
   \<and> \<not> command_fails fixed_axes cmd_B run_A
   \<and> on_undo fixed_axes run_AB = (None, run_ABu)
   \<and> \<not> command_fails fixed_axes cmd_C run_ABu
   \<and> on_redo fixed_axes run_ABuC = (None, emit (LogWarning ''Nothing to redo.'') run_ABuC)"
proof -
  have a: "\<not> command_fails fixed_axes cmd_A (new_main_window Map.empty)"
    and c: "\<not> command_fails fixed_axes cmd_C run_ABu"
    unfolding cmd_A_def cmd_C_def by (rule point_command_succeeds)+
  have "stack_pointer run_ABuC = int (length (command_stack run_ABuC)) - 1"
    unfolding run_ABuC_def by (rule execute_command_stack(3) [OF run_ABu_facts(2)])
  then have "on_redo fixed_axes run_ABuC = (None, emit (LogWarning ''Nothing to redo.'') run_ABuC)"
    by (rule on_redo_at_end)
  then show ?thesis using a c run_AB_facts(4) run_ABu_facts(1) by simp
qed

text \<open>
  C2, amended: applying a command when the cursor is not at the last entry of the history
  first cuts the history to its first cursor + 1 entries; so after applying A and B,
  undoing once and applying C, the history is the old prefix followed by A and C, B is no
  longer in it, the cursor is at C, and a redo changes nothing: it reports the warning
  \<open>Nothing to redo.\<close> and raises no error.
\<close>

theorem redo_branch_discarded:
  assumes "cursor_in_range s0"
    and "\<not> command_fails perp A s0" and "s1 = execute_command perp A s0"
    and "\<not> command_fails perp B s1" and "s2 = execute_command perp B s1"
    and "on_undo perp s2 = (None, s3)"
    and "\<not> command_fails perp C s3" and "s4 = execute_command perp C s3"
  shows "(cursor_in_range s \<and> stack_pointer s < int (length (command_stack s)) - 1 \<longrightarrow>
            command_stack (execute_command perp cmd s) =
              take (nat (stack_pointer s + 1)) (command_stack s)
              @ (if command_fails perp cmd s then [] else [executed perp cmd s]))
       \<and> command_stack s2 =
           take (nat (stack_pointer s0 + 1)) (command_stack s0)
           @ [executed perp A s0, executed perp B s1]
       \<and> command_stack s3 = command_stack s2 \<and> stack_pointer s3 = stack_pointer s0 + 1
       \<and> command_stack s4 =
           take (nat (stack_pointer s0 + 1)) (command_stack s0)
           @ [executed perp A s0, executed perp C s3]
       \<and> stack_pointer s4 = stack_pointer s0 + 2
       \<and> on_redo perp s4 = (None, emit (LogWarning ''Nothing to redo.'') s4)"
proof -
  let ?p = "take (nat (stack_pointer s0 + 1)) (command_stack s0)"
  have lp: "int (length ?p) = stack_pointer s0 + 1"
    using assms(1) by (auto simp add: cursor_in_range_def)
  have c1: "command_stack s1 = ?p @ [executed perp A s0]"
    unfolding assms(3) execute_command_stack(1) [OF assms(1)] using assms(2) by simp
  have p1: "stack_pointer s1 = stack_pointer s0 + 1"
    unfolding assms(3) execute_command_stack(2) [OF assms(1)] using assms(2) by simp
  have r1: "cursor_in_range s1"
    unfolding assms(3) by (rule execute_command_stack(4) [OF assms(1)])
  have t1: "take (nat (stack_pointer s1 + 1)) (?p @ [executed perp A s0]) =
              ?p @ [executed perp A s0]"
    unfolding p1 using lp by simp
  have "command_stack s2 =
          take (nat (stack_pointer s1 + 1)) (command_stack s1) @ [executed perp B s1]"
    unfolding assms(5) execute_command_stack(1) [OF r1] using assms(4) by simp
  then have c2: "command_stack s2 = ?p @ [executed perp A s0, executed perp B s1]"
    unfolding c1 t1 by simp
  have p2: "stack_pointer s2 = stack_pointer s0 + 2"
    unfolding assms(5) execute_command_stack(2) [OF r1] p1 using assms(4) by simp
  have n2: "0 \<le> stack_pointer s2" unfolding p2 using assms(1) by (simp add: cursor_in_range_def)
  have c3: "command_stack s3 = command_stack s2" and p3: "stack_pointer s3 = stack_pointer s0 + 1"
    using on_undo_done [OF assms(6) n2] p2 by simp_all
  have r3: "cursor_in_range s3"
    unfolding cursor_in_range_def c3 p3 c2 using lp by simp
  have d: "nat (stack_pointer s0 + 1 + 1) = Suc (nat (stack_pointer s0 + 1))"
    using assms(1) unfolding cursor_in_range_def by linarith
  have l: "min (length (command_stack s0)) (nat (stack_pointer s0 + 1)) =
             nat (stack_pointer s0 + 1)"
    using assms(1) unfolding cursor_in_range_def by linarith
  have t3: "take (nat (stack_pointer s3 + 1)) (command_stack s3) = ?p @ [executed perp A s0]"
    unfolding c3 p3 c2 d by (simp add: l)
  have "command_stack s4 =
          take (nat (stack_pointer s3 + 1)) (command_stack s3) @ [executed perp C s3]"
    unfolding assms(8) execute_command_stack(1) [OF r3] using assms(7) by simp
  then have c4: "command_stack s4 = ?p @ [executed perp A s0, executed perp C s3]"
    unfolding t3 by simp
  have p4: "stack_pointer s4 = stack_pointer s0 + 2"
    unfolding assms(8) execute_command_stack(2) [OF r3] p3 using assms(7) by simp
  have e4: "stack_pointer s4 = int (length (command_stack s4)) - 1"
    unfolding c4 p4 using lp by simp
  have g: "cursor_in_range s \<Longrightarrow>
            command_stack (execute_command perp cmd s) =
              take (nat (stack_pointer s + 1)) (command_stack s)
              @ (if command_fails perp cmd s then [] else [executed perp cmd s])"
    by (rule execute_command_stack(1))
  show ?thesis using g c2 c3 p3 c4 p4 on_redo_at_end [OF e4] by blast
qed


theorem redo_branch_discarded_witness:
  "cursor_in_range (new_main_window Map.empty)
   \<and> \<not> command_fails fixed_axes cmd_A (new_main_window Map.empty)
   \<and> \<not> command_fails fixed_axes cmd_B run_A
   \<and> on_undo fixed_axes run_AB = (None, run_ABu)
   \<and> \<not> command_fails fixed_axes cmd_C run_ABu
   \<and> cursor_in_range run_ABu
   \<and> stack_pointer run_ABu < int (length (command_stack run_ABu)) - 1
   \<and> command_stack (execute_command fixed_axes cmd_C run_ABu) =
       take (nat (stack_pointer run_ABu + 1)) (command_stack run_ABu)
       @ [executed fixed_axes cmd_C run_ABu]
   \<and> command_stack run_AB =
       [executed fixed_axes cmd_A (new_main_window Map.empty), executed fixed_axes cmd_B run_A]
   \<and> stack_pointer run_ABu = 0
   \<and> command_stack run_ABuC =
       [executed fixed_axes cmd_A (new_main_window Map.empty), executed fixed_axes cmd_C run_ABu]
   \<and> stack_pointer run_ABuC = 1
   \<and> on_redo fixed_axes run_ABuC = (None, emit (LogWarning ''Nothing to redo.'') run_ABuC)"
proof -
  have a: "\<not> command_fails fixed_axes cmd_A (new_main_window Map.empty)"
    and c: "\<not> command_fails fixed_axes cmd_C run_ABu"
    unfolding cmd_A_def cmd_C_def by (rule point_command_succeeds)+
  have l: "stack_pointer run_ABu < int (length (command_stack run_ABu)) - 1"
    by (simp add: run_ABu_facts)
  show ?thesis
    using redo_branch_discarded [where s = run_ABu and cmd = cmd_C,
        OF new_window_history(3) [of Map.empty] a run_A_def
        run_AB_facts(4) run_AB_def run_ABu_facts(1) c run_ABuC_def]
      new_window_history [of Map.empty] a c l run_AB_facts(4) run_ABu_facts(1,2)
    by simp
qed

subsection \<open>Commands that fail after writing to the document\<close>

lemma create_plane_cmd_run:
  "\<not> command_fails fixed_axes create_plane_cmd (new_main_window Map.empty)"
  "actor_buffer run_plane ''Plane_1'' = Some 0"
  "plane_definitions run_plane ''Plane_1'' = Some \<lparr>pd_origin = (0, 0, 0), pd_normal = (0, 0, 1)\<rparr>"
  "active_plane_id run_plane = None"
proof -
  have e: "\<exists>c s'. execute fixed_axes create_plane_cmd (truncate_history (new_main_window Map.empty)) =
            (None, CreateObjectCommand c, s') \<and> co_actor c = Some 0
            \<and> actor_buffer s' ''Plane_1'' = Some 0
            \<and> plane_definitions s' ''Plane_1'' = Some \<lparr>pd_origin = (0, 0, 0), pd_normal = (0, 0, 1)\<rparr>
            \<and> active_plane_id s' = None"
    by (simp add: create_plane_cmd_def mk_CreateObjectCommand_def CreateObjectCommand_execute_def
        plane_geometry_def mk_geom_def build_mesh_actor_def get_or_def Let_def
        alloc_actor_def update_actor_def AddActor_def new_main_window_def truncate_history_def)
  then obtain c s' where
    x: "execute fixed_axes create_plane_cmd (truncate_history (new_main_window Map.empty)) =
            (None, CreateObjectCommand c, s')" "co_actor c = Some 0"
       "actor_buffer s' ''Plane_1'' = Some 0"
       "plane_definitions s' ''Plane_1'' = Some \<lparr>pd_origin = (0, 0, 0), pd_normal = (0, 0, 1)\<rparr>"
       "active_plane_id s' = None"
    by blast
  show "\<not> command_fails fixed_axes create_plane_cmd (new_main_window Map.empty)"
    by (simp add: command_fails_def x)
  show "actor_buffer run_plane ''Plane_1'' = Some 0"
    by (simp add: run_plane_def execute_command_def x)
  show "plane_definitions run_plane ''Plane_1'' = Some \<lparr>pd_origin = (0, 0, 0), pd_normal = (0, 0, 1)\<rparr>"
    by (simp add: run_plane_def execute_command_def x)
  show "active_plane_id run_plane = None"
    by (simp add: run_plane_def execute_command_def x)
qed

lemma set_active_cmd_run:
  "command_fails fixed_axes set_active_cmd run_plane"
  "active_plane_id (execute_command fixed_axes set_active_cmd run_plane) = Some ''Plane_1''"
proof -
  let ?c = "mk_SetActivePlaneCommand (new_main_window Map.empty) (Some ''Plane_1'')"
  have c: "sap_old_active_id ?c = None" "sap_new_active_id ?c = Some ''Plane_1''" "sap_actor ?c = None"
    by (simp_all add: mk_SetActivePlaneCommand_def new_main_window_def buffer_get_def)
  have e: "\<exists>s'. SetActivePlaneCommand_execute fixed_axes ?c (truncate_history run_plane) = (None, ?c, s')
            \<and> active_plane_id s' = Some ''Plane_1''"
    unfolding SetActivePlaneCommand_execute_def c Let_def
    by (simp add: registered_actor_def definition_of_def create_plane_cmd_run update_actor_def
        update_plane_context_def fixed_axes_def emit_def)
  then obtain s' where
    x: "SetActivePlaneCommand_execute fixed_axes ?c (truncate_history run_plane) = (None, ?c, s')"
       "active_plane_id s' = Some ''Plane_1''"
    by blast
  show "command_fails fixed_axes set_active_cmd run_plane"
    by (simp add: command_fails_def set_active_cmd_def x c)
  show "active_plane_id (execute_command fixed_axes set_active_cmd run_plane) = Some ''Plane_1''"
    by (simp add: execute_command_def set_active_cmd_def x c emit_def)
qed


lemma cuboid_command_fails:
  "command_fails perp (CreateCuboidCommand (mk_CreateCuboidCommand n cd)) s"
proof -
  let ?c = "mk_CreateCuboidCommand n cd"
  have n: "cc_actor ?c = None" by (simp add: mk_CreateCuboidCommand_def)
  from cc_exec_fresh [OF n, of "truncate_history s"] obtain err where
    "CreateCuboidCommand_execute ?c (truncate_history s) =
       (None, ?c, emit (LogError (''Failed to create cuboid: '' @ str_of_error err))
                    (truncate_history s))"
    by blast
  then show ?thesis by (simp add: command_fails_def n)
qed

lemma import_missing_run:
  "command_fails fixed_axes import_missing_cmd (new_main_window Map.empty)"
  "children (imports_node (object_browser
     (execute_command fixed_axes import_missing_cmd (new_main_window Map.empty)))) =
   [Item ''DXF_Import_3'' ''Dxf group'' (Some ''DXF_Import_3'') (Some ''Imports'') []]"
  "children (imports_node (object_browser (new_main_window Map.empty))) = []"
proof -
  let ?c = "mk_ImportDxfCommand 3 ''missing.dxf'' (0, 0, 0) xy_plane_context"
  let ?s = "truncate_history (new_main_window Map.empty)"
  have c: "im_created_actors ?c = []" by (simp add: mk_ImportDxfCommand_def)
  have r: "DxfReader py_numbers (files ?s) (im_filepath ?c) =
             Inl (IOError (''Cannot open or read DXF file: '' @ ''missing.dxf''))"
    by (simp add: DxfReader_def mk_ImportDxfCommand_def new_main_window_def)
  note x = im_exec_ioerror [OF c r]
  show "command_fails fixed_axes import_missing_cmd (new_main_window Map.empty)"
    by (simp add: command_fails_def import_missing_cmd_def x import_failed_def)
  show "children (imports_node (object_browser (new_main_window Map.empty))) = []"
    by (simp add: new_main_window_def add_object_def new_object_browser_def Let_def lower_def
        lower_char_def)
  show "children (imports_node (object_browser
     (execute_command fixed_axes import_missing_cmd (new_main_window Map.empty)))) =
   [Item ''DXF_Import_3'' ''Dxf group'' (Some ''DXF_Import_3'') (Some ''Imports'') []]"
  proof -
    have "object_browser
            (execute_command fixed_axes import_missing_cmd (new_main_window Map.empty)) =
          add_object (object_browser (new_main_window Map.empty)) (im_group_name ?c)
            ''DXF Group'' ''Imports'' None"
      by (simp add: execute_command_def import_missing_cmd_def x import_failed_def)
    then show ?thesis
      by (simp add: mk_ImportDxfCommand_def show_nat_digits new_main_window_def add_object_def
          new_object_browser_def Let_def lower_def lower_char_def capitalize_def upper_char_def
          add_child_def)
  qed
qed

text \<open>
  C1, as stated: a command that fails leaves the whole document as it was. Three failing
  commands that do not: the \<open>SetActivePlaneCommand\<close> built before its plane exists (as
  \<open>on_plane_data_received\<close> builds it) has no actor, so it counts as failed, yet its run has
  made the plane active; the import of a missing file leaves its group entry in the
  browser; and a failing command given while a redo branch exists removes that branch
  from the history.
\<close>

theorem failed_command_side_effects_counterexample:
  "command_fails fixed_axes set_active_cmd run_plane
   \<and> active_plane_id run_plane = None
   \<and> active_plane_id (execute_command fixed_axes set_active_cmd run_plane) = Some ''Plane_1''
   \<and> command_fails fixed_axes import_missing_cmd (new_main_window Map.empty)
   \<and> object_browser (execute_command fixed_axes import_missing_cmd (new_main_window Map.empty))
       \<noteq> object_browser (new_main_window Map.empty)
   \<and> command_fails fixed_axes cuboid_cmd run_ABu
   \<and> length (command_stack run_ABu) = 2
   \<and> length (command_stack (execute_command fixed_axes cuboid_cmd run_ABu)) = 1"
proof -
  have b: "object_browser (execute_command fixed_axes import_missing_cmd (new_main_window Map.empty))
       \<noteq> object_browser (new_main_window Map.empty)"
    using import_missing_run(2,3) by auto
  have f: "command_fails fixed_axes cuboid_cmd run_ABu"
    unfolding cuboid_cmd_def by (rule cuboid_command_fails)
  have l: "length (command_stack (execute_command fixed_axes cuboid_cmd run_ABu)) = 1"
    unfolding execute_command_stack(1) [OF run_ABu_facts(2)] using f
    by (simp add: run_ABu_facts)
  show ?thesis
    using set_active_cmd_run create_plane_cmd_run(4) import_missing_run(1) b f l
    by (simp add: run_ABu_facts)
qed

subsection \<open>Activating an object that has no plane definition\<close>

lemma sap_exec_no_definition:
  assumes "sap_new_active_id c = Some new_id" "plane_definitions s new_id = None"
  shows "SetActivePlaneCommand_execute perp c s = (None, c, highlight c s)"
  using assms
  by (simp add: SetActivePlaneCommand_execute_def highlight_def Let_def
      registered_actor_def definition_of_def update_actor_def split: option.splits)

lemma highlight_fields:
  "command_stack (highlight c s) = command_stack s"
  "stack_pointer (highlight c s) = stack_pointer s"
  "actor_buffer (highlight c s) = actor_buffer s"
  "plane_definitions (highlight c s) = plane_definitions s"
  "active_plane_id (highlight c s) = active_plane_id s"
  "current_plane_origin (highlight c s) = current_plane_origin s"
  "current_plane_u_axis (highlight c s) = current_plane_u_axis s"
  "current_plane_v_axis (highlight c s) = current_plane_v_axis s"
  "cs_manager (highlight c s) = cs_manager s"
  "renderer (highlight c s) = renderer s"
  "object_browser (highlight c s) = object_browser s"
  "next_actor (highlight c s) = next_actor s"
  "files (highlight c s) = files s"
  "outputs (highlight c s) = outputs s"
  by (simp_all add: highlight_def Let_def update_actor_def split: option.splits)

lemma highlight_actors:
  assumes "sap_new_active_id c = Some new_id" "actor_buffer s new_id = Some a"
  shows "actors (highlight c s) =
     (\<lambda>r. if new_id \<noteq> [] \<and> r = a
          then (actors s r)\<lparr>a_color := (0, 1, 1), a_opacity := 4 / 10\<rparr>
          else if registered_actor s (sap_old_active_id c) = Some r
          then (actors s r)\<lparr>a_color := (8 / 10, 8 / 10, 1), a_opacity := 2 / 10\<rparr>
          else actors s r)"
  using assms
  by (auto simp add: highlight_def Let_def update_actor_def registered_actor_def fun_eq_iff
      split: option.splits)

lemma sap_execute_command:
  assumes "sap_new_active_id c = Some new_id" "plane_definitions s new_id = None"
  shows "execute_command perp (SetActivePlaneCommand c) s =
     (if sap_actor c = None
      then emit (LogError ''Command SetActivePlaneCommand failed execution.'')
             (highlight c (truncate_history s))
      else (highlight c (truncate_history s))
             \<lparr>command_stack := command_stack (truncate_history s) @ [SetActivePlaneCommand c],
              stack_pointer := stack_pointer s + 1\<rparr>)"
    and "command_fails perp (SetActivePlaneCommand c) s \<longleftrightarrow> sap_actor c = None"
    and "fst (execute perp (SetActivePlaneCommand c) (truncate_history s)) = None"
proof -
  have d: "plane_definitions (truncate_history s) new_id = None" using assms(2) by simp
  note ex = sap_exec_no_definition [OF assms(1) d, of perp]
  show "execute_command perp (SetActivePlaneCommand c) s =
     (if sap_actor c = None
      then emit (LogError ''Command SetActivePlaneCommand failed execution.'')
             (highlight c (truncate_history s))
      else (highlight c (truncate_history s))
             \<lparr>command_stack := command_stack (truncate_history s) @ [SetActivePlaneCommand c],
              stack_pointer := stack_pointer s + 1\<rparr>)"
    unfolding execute_command_def execute.simps ex
    by (simp add: highlight_fields)
  show "command_fails perp (SetActivePlaneCommand c) s \<longleftrightarrow> sap_actor c = None"
    unfolding command_fails_def execute.simps ex by simp
  show "fst (execute perp (SetActivePlaneCommand c) (truncate_history s)) = None"
    unfolding execute.simps ex by simp
qed

text \<open>
  C10, as stated: a \<open>SetActivePlaneCommand\<close> whose target is registered as an object and
  has no plane definition is recorded in the history. The command keeps in its \<open>actor\<close>
  attribute what the registry held for the target when the command was built, and
  \<open>execute_command\<close> records a command only if that attribute is true. A command built
  before its target was registered, as \<open>on_plane_data_received\<close> builds it, runs on the
  registered point \<open>Primitive_1\<close>, recolours it, and is reported as failed and not recorded.
\<close>

theorem stale_activation_counterexample:
  "actor_buffer run_A ''Primitive_1'' = Some 0
   \<and> plane_definitions run_A ''Primitive_1'' = None
   \<and> sap_new_active_id (mk_SetActivePlaneCommand (new_main_window Map.empty) (Some ''Primitive_1''))
       = Some ''Primitive_1''
   \<and> command_fails fixed_axes
       (SetActivePlaneCommand
          (mk_SetActivePlaneCommand (new_main_window Map.empty) (Some ''Primitive_1''))) run_A
   \<and> command_stack (execute_command fixed_axes
       (SetActivePlaneCommand
          (mk_SetActivePlaneCommand (new_main_window Map.empty) (Some ''Primitive_1''))) run_A)
       = command_stack run_A
   \<and> stack_pointer (execute_command fixed_axes
       (SetActivePlaneCommand
          (mk_SetActivePlaneCommand (new_main_window Map.empty) (Some ''Primitive_1''))) run_A)
       = stack_pointer run_A
   \<and> outputs (execute_command fixed_axes
       (SetActivePlaneCommand
          (mk_SetActivePlaneCommand (new_main_window Map.empty) (Some ''Primitive_1''))) run_A)
       = outputs run_A @ [LogError ''Command SetActivePlaneCommand failed execution.'']
   \<and> a_color (actors (execute_command fixed_axes
       (SetActivePlaneCommand
          (mk_SetActivePlaneCommand (new_main_window Map.empty) (Some ''Primitive_1''))) run_A) 0)
       = (0, 1, 1)"
proof -
  let ?c = "mk_SetActivePlaneCommand (new_main_window Map.empty) (Some ''Primitive_1'')"
  have n: "sap_new_active_id ?c = Some ''Primitive_1''"
    by (simp add: mk_SetActivePlaneCommand_def)
  have a: "sap_actor ?c = None"
    by (simp add: mk_SetActivePlaneCommand_def buffer_get_def new_main_window_def)
  have t: "truncate_history run_A = run_A"
    by (simp add: truncate_history_def run_A_facts)
  note e = sap_execute_command [OF n run_A_facts(5), of fixed_axes]
  have c: "a_color (actors (highlight ?c run_A) 0) = (0, 1, 1)"
    unfolding highlight_actors [OF n run_A_facts(4)] by simp
  show ?thesis
    unfolding e(1) using e(2) n a c by (simp add: run_A_facts emit_def highlight_fields t)
qed

text \<open>
  C10, amended: when the target of a \<open>SetActivePlaneCommand\<close> is registered as an object
  and has no plane definition, \<open>execute_command\<close> raises nothing and leaves the active
  plane identifier, the current plane context, the registry, the plane definitions, the
  browser, the renderer and the manager as they are. The actor of the target gets the
  colour \<open>(0, 1, 1)\<close> and the opacity \<open>0.4\<close> (unless the identifier is the empty string);
  the registered actor of the plane that was active when the command was built, if it is
  another one, gets the colour \<open>(0.8, 0.8, 1)\<close> and the opacity \<open>0.2\<close>; no other actor and no
  other property changes. The command is recorded in the history exactly when its \<open>actor\<close>
  attribute is not \<open>None\<close>, that is when its target was registered already when the command
  was built, as for a command built in the state it runs in; otherwise the run is reported
  as failed and the history keeps the entries that the cut before the run leaves.
\<close>

theorem activate_without_definition:
  assumes "sap_new_active_id c = Some new_id"
    and "actor_buffer s new_id = Some a" and "plane_definitions s new_id = None"
  shows "fst (execute perp (SetActivePlaneCommand c) (truncate_history s)) = None
    \<and> active_plane_id (execute_command perp (SetActivePlaneCommand c) s) = active_plane_id s
    \<and> current_plane_origin (execute_command perp (SetActivePlaneCommand c) s) = current_plane_origin s
    \<and> current_plane_u_axis (execute_command perp (SetActivePlaneCommand c) s) = current_plane_u_axis s
    \<and> current_plane_v_axis (execute_command perp (SetActivePlaneCommand c) s) = current_plane_v_axis s
    \<and> actor_buffer (execute_command perp (SetActivePlaneCommand c) s) = actor_buffer s
    \<and> plane_definitions (execute_command perp (SetActivePlaneCommand c) s) = plane_definitions s
    \<and> object_browser (execute_command perp (SetActivePlaneCommand c) s) = object_browser s
    \<and> renderer (execute_command perp (SetActivePlaneCommand c) s) = renderer s
    \<and> cs_manager (execute_command perp (SetActivePlaneCommand c) s) = cs_manager s
    \<and> actors (execute_command perp (SetActivePlaneCommand c) s) =
        (\<lambda>r. if new_id \<noteq> [] \<and> r = a
             then (actors s r)\<lparr>a_color := (0, 1, 1), a_opacity := 4 / 10\<rparr>
             else if registered_actor s (sap_old_active_id c) = Some r
             then (actors s r)\<lparr>a_color := (8 / 10, 8 / 10, 1), a_opacity := 2 / 10\<rparr>
             else actors s r)
    \<and> (command_fails perp (SetActivePlaneCommand c) s \<longleftrightarrow> sap_actor c = None)
    \<and> (sap_actor c \<noteq> None \<longrightarrow>
         command_stack (execute_command perp (SetActivePlaneCommand c) s) =
           command_stack (truncate_history s) @ [SetActivePlaneCommand c]
         \<and> stack_pointer (execute_command perp (SetActivePlaneCommand c) s) = stack_pointer s + 1
         \<and> outputs (execute_command perp (SetActivePlaneCommand c) s) = outputs s)
    \<and> (sap_actor c = None \<longrightarrow>
         command_stack (execute_command perp (SetActivePlaneCommand c) s) =
           command_stack (truncate_history s)
         \<and> stack_pointer (execute_command perp (SetActivePlaneCommand c) s) = stack_pointer s
         \<and> outputs (execute_command perp (SetActivePlaneCommand c) s) =
             outputs s @ [LogError ''Command SetActivePlaneCommand failed execution.''])
    \<and> sap_new_active_id (mk_SetActivePlaneCommand s (Some new_id)) = Some new_id
    \<and> sap_old_active_id (mk_SetActivePlaneCommand s (Some new_id)) = active_plane_id s
    \<and> sap_actor (mk_SetActivePlaneCommand s (Some new_id)) = Some a"
proof -
  note e = sap_execute_command [OF assms(1) assms(3), of perp]
  have b: "actor_buffer (truncate_history s) new_id = Some a" using assms(2) by simp
  have r: "registered_actor (truncate_history s) (sap_old_active_id c) =
      registered_actor s (sap_old_active_id c)"
    by (simp add: registered_actor_def split: option.splits)
  have ta: "actors (truncate_history s) = actors s" by simp
  note h = highlight_actors [OF assms(1) b, unfolded r ta]
  have m: "sap_actor (mk_SetActivePlaneCommand s (Some new_id)) = Some a"
    using assms(2) by (simp add: mk_SetActivePlaneCommand_def buffer_get_def)
  have acts: "actors (execute_command perp (SetActivePlaneCommand c) s) =
      actors (highlight c (truncate_history s))"
    unfolding e(1) by (simp add: emit_def)
  show ?thesis
    unfolding acts h
    using e(2) e(3) m
    by (simp add: e(1) highlight_fields emit_def mk_SetActivePlaneCommand_def)
qed

subsection \<open>Witnesses on the sessions\<close>

theorem failed_command_not_recorded_witness:
  "command_fails fixed_axes cuboid_cmd run_ABu
   \<and> stack_pointer run_ABu < int (length (command_stack run_ABu)) - 1
   \<and> command_stack (execute_command fixed_axes cuboid_cmd run_ABu) =
       py_slice_to (command_stack run_ABu) (stack_pointer run_ABu + 1)
   \<and> stack_pointer (execute_command fixed_axes cuboid_cmd run_ABu) = stack_pointer run_ABu"
proof -
  have f: "command_fails fixed_axes cuboid_cmd run_ABu"
    unfolding cuboid_cmd_def by (rule cuboid_command_fails)
  have l: "stack_pointer run_ABu < int (length (command_stack run_ABu)) - 1"
    by (simp add: run_ABu_facts)
  show ?thesis using failed_command_not_recorded [OF f] f l by simp
qed

theorem create_cuboid_fails_witness:
  "cd_method cuboid_by_dimensions = Some ''dimensions''
   \<and> CreateCuboidCommand_execute (mk_CreateCuboidCommand 4 cuboid_by_dimensions)
         (new_main_window Map.empty) =
       (None, mk_CreateCuboidCommand 4 cuboid_by_dimensions,
        emit (LogError (''Failed to create cuboid: module '' @ quoted ''acrilib.primitives.factory''
               @ '' has no attribute '' @ quoted ''create_cuboid_from_dimensions''))
          (new_main_window Map.empty))
   \<and> cd_method cuboid_by_corners = Some ''corners''
   \<and> CreateCuboidCommand_execute (mk_CreateCuboidCommand 5 cuboid_by_corners)
         (new_main_window Map.empty) =
       (None, mk_CreateCuboidCommand 5 cuboid_by_corners,
        emit (LogError (''Failed to create cuboid: module '' @ quoted ''acrilib.primitives.factory''
               @ '' has no attribute '' @ quoted ''create_cuboid_from_corners''))
          (new_main_window Map.empty))"
proof -
  have d: "cd_method cuboid_by_dimensions = Some ''dimensions''"
    by (simp add: cuboid_by_dimensions_def)
  have c: "cd_method cuboid_by_corners = Some ''corners''"
    by (simp add: cuboid_by_corners_def)
  show ?thesis
    using create_cuboid_fails [of cuboid_by_dimensions 4 "new_main_window Map.empty" fixed_axes]
      create_cuboid_fails [of cuboid_by_corners 5 "new_main_window Map.empty" fixed_axes] d c
    by blast
qed

theorem activate_without_definition_witness:
  "sap_new_active_id (mk_SetActivePlaneCommand run_A (Some ''Primitive_1'')) = Some ''Primitive_1''
   \<and> actor_buffer run_A ''Primitive_1'' = Some 0
   \<and> plane_definitions run_A ''Primitive_1'' = None
   \<and> sap_actor (mk_SetActivePlaneCommand run_A (Some ''Primitive_1'')) = Some 0
   \<and> \<not> command_fails fixed_axes
         (SetActivePlaneCommand (mk_SetActivePlaneCommand run_A (Some ''Primitive_1''))) run_A
   \<and> active_plane_id (execute_command fixed_axes
         (SetActivePlaneCommand (mk_SetActivePlaneCommand run_A (Some ''Primitive_1''))) run_A) =
       active_plane_id run_A
   \<and> outputs (execute_command fixed_axes
         (SetActivePlaneCommand (mk_SetActivePlaneCommand run_A (Some ''Primitive_1''))) run_A) =
       outputs run_A
   \<and> stack_pointer (execute_command fixed_axes
         (SetActivePlaneCommand (mk_SetActivePlaneCommand run_A (Some ''Primitive_1''))) run_A) = 1
   \<and> a_color (actors (execute_command fixed_axes
         (SetActivePlaneCommand (mk_SetActivePlaneCommand run_A (Some ''Primitive_1''))) run_A) 0) =
       (0, 1, 1)
   \<and> a_opacity (actors (execute_command fixed_axes
         (SetActivePlaneCommand (mk_SetActivePlaneCommand run_A (Some ''Primitive_1''))) run_A) 0) =
       4 / 10"
proof -
  have n: "sap_new_active_id (mk_SetActivePlaneCommand run_A (Some ''Primitive_1'')) =
      Some ''Primitive_1''"
    by (simp add: mk_SetActivePlaneCommand_def)
  show ?thesis
    using activate_without_definition [OF n run_A_facts(4) run_A_facts(5), of fixed_axes]
      run_A_facts(2,4,5) n
    by simp
qed

end
